(* ===== verification/Prelude.thy ===== *)
theory Prelude
  imports Main
begin

text \<open>
  Shared vocabulary of the development: the JSON-like values that block attributes and
  post edits hold, JavaScript objects as maps (object spread is \<open>++\<close>, the right operand
  wins), JavaScript truthiness and string conversion, exceptions and the property
  reads that raise them, sequencing of code that may throw (\<open>js_bind\<close>), and the
  lodash helpers \<open>get\<close> (with a default) and \<open>castArray\<close>. The named collection
  \<open>effect_simps\<close> gathers the unfolding equations of the effect handlers, so that a
  property of a handler is proved by \<open>simp add: effect_simps\<close>.
\<close>

named_theorems effect_simps "unfolding equations of the effect handlers"

section \<open>JSON values and objects\<close>

text \<open>A JSON value as the REST API and the block attributes carry it.\<close>

datatype jval =
    JNull
  | JBool bool
  | JNum int
  | JStr string
  | JArr "jval list"
  | JObj "(string \<times> jval) list"

text \<open>
  A plain JavaScript object read key by key. \<open>m k = None\<close> is the key being absent
  (reading it gives \<open>undefined\<close>); \<open>m1 ++ m2\<close> is \<open>{...m1, ...m2}\<close>.
\<close>

type_synonym attrs = "string \<rightharpoonup> jval"

section \<open>JavaScript truthiness and lodash helpers\<close>

text \<open>
  \<open>if (s)\<close> on a string that may be \<open>undefined\<close>: false for \<open>undefined\<close> and for the empty
  string, true otherwise.
\<close>

definition truthy_str :: "string option \<Rightarrow> bool" where
  "truthy_str s = (case s of None \<Rightarrow> False | Some v \<Rightarrow> v \<noteq> [])"

text \<open>
  lodash \<open>get(obj, path, default)\<close> on one path step: the default when the value read is
  \<open>undefined\<close>, the value otherwise.
\<close>

definition get_default :: "'a option \<Rightarrow> 'a \<Rightarrow> 'a" where
  "get_default v d = (case v of None \<Rightarrow> d | Some x \<Rightarrow> x)"

text \<open>lodash \<open>castArray\<close>: a single value becomes a one-element array, an array stays.\<close>

fun cast_array :: "'a + 'a list \<Rightarrow> 'a list" where
  "cast_array (Inl x) = [x]"
| "cast_array (Inr xs) = xs"

text \<open>
  \<open>xs.map(f)\<close> with a callback that may throw: the first exception ends the map.
\<close>

fun map_throwing :: "('a \<Rightarrow> 'e + 'b) \<Rightarrow> 'a list \<Rightarrow> 'e + 'b list" where
  "map_throwing f [] = Inr []"
| "map_throwing f (x # xs) =
     (case f x of
        Inl e \<Rightarrow> Inl e
      | Inr y \<Rightarrow> (case map_throwing f xs of Inl e \<Rightarrow> Inl e | Inr ys \<Rightarrow> Inr (y # ys)))"

text \<open>
  JavaScript's conversion of an integer-valued number to its decimal string, as in
  \<open>'Post ' + post.id\<close>.
\<close>

fun nat_to_string :: "nat \<Rightarrow> string" where
  "nat_to_string n =
     (if n < 10 then [''0123456789'' ! n]
      else nat_to_string (n div 10) @ [''0123456789'' ! (n mod 10)])"

text \<open>The value of a string of decimal digits, the left inverse of \<open>nat_to_string\<close>.\<close>

definition decimal_value :: "string \<Rightarrow> nat" where
  "decimal_value s = foldl (\<lambda>acc c. 10 * acc + (of_char c - 48)) 0 s"

definition int_to_string :: "int \<Rightarrow> string" where
  "int_to_string i =
     (if i < 0 then CHR ''-'' # nat_to_string (nat (- i)) else nat_to_string (nat i))"

text \<open>
  Truthiness of any JavaScript value, \<open>None\<close> being \<open>undefined\<close>: \<open>undefined\<close>,
  \<open>null\<close>, \<open>false\<close>, \<open>0\<close> and the empty string are falsy, arrays and objects truthy.
\<close>

fun js_truthy :: "jval option \<Rightarrow> bool" where
  "js_truthy None = False"
| "js_truthy (Some JNull) = False"
| "js_truthy (Some (JBool b)) = b"
| "js_truthy (Some (JNum n)) = (n \<noteq> 0)"
| "js_truthy (Some (JStr s)) = (s \<noteq> [])"
| "js_truthy (Some (JArr xs)) = True"
| "js_truthy (Some (JObj kvs)) = True"

text \<open>
  \<open>String(v)\<close>, as a template literal \<open>`${v}`\<close> converts: an array is its elements
  joined by commas, \<open>null\<close> elements giving the empty string.
\<close>

fun join_comma :: "string list \<Rightarrow> string" where
  "join_comma [] = []"
| "join_comma [s] = s"
| "join_comma (s # ss) = s @ '','' @ join_comma ss"

fun js_to_string :: "jval \<Rightarrow> string" where
  "js_to_string JNull = ''null''"
| "js_to_string (JBool b) = (if b then ''true'' else ''false'')"
| "js_to_string (JNum n) = int_to_string n"
| "js_to_string (JStr s) = s"
| "js_to_string (JArr xs) = join_comma (map (\<lambda>x. if x = JNull then [] else js_to_string x) xs)"
| "js_to_string (JObj kvs) = ''[object Object]''"

definition js_string :: "jval option \<Rightarrow> string" where
  "js_string v = (case v of None \<Rightarrow> ''undefined'' | Some x \<Rightarrow> js_to_string x)"

text \<open>Sequencing of code that may throw: the first exception is the result.\<close>

definition js_bind :: "'e + 'a \<Rightarrow> ('a \<Rightarrow> 'e + 'b) \<Rightarrow> 'e + 'b" where
  "js_bind r f = (case r of Inl e \<Rightarrow> Inl e | Inr x \<Rightarrow> f x)"

section \<open>Exceptions and property reads\<close>

text \<open>A JavaScript exception.\<close>

datatype js_error = TypeError string


text \<open>
  \<open>v.k\<close> for the non-index keys the block reads: an exception on \<open>undefined\<close> and
  \<open>null\<close>, the own property of an object, \<open>length\<close> of an array or a string,
  \<open>undefined\<close> for any other key of a primitive or an array.
\<close>

definition js_prop :: "jval option \<Rightarrow> string \<Rightarrow> js_error + jval option" where
  "js_prop v k =
     (case v of
        None \<Rightarrow> Inl (TypeError (''Cannot read property '' @ k @ '' of undefined''))
      | Some JNull \<Rightarrow> Inl (TypeError (''Cannot read property '' @ k @ '' of null''))
      | Some (JObj kvs) \<Rightarrow> Inr (map_of kvs k)
      | Some (JArr xs) \<Rightarrow> Inr (if k = ''length'' then Some (JNum (int (length xs))) else None)
      | Some (JStr s) \<Rightarrow> Inr (if k = ''length'' then Some (JNum (int (length s))) else None)
      | Some _ \<Rightarrow> Inr None)"

text \<open>\<open>v[0]\<close>: the first element of an array, the first character of a string.\<close>

definition js_first :: "jval option \<Rightarrow> js_error + jval option" where
  "js_first v =
     (case v of
        None \<Rightarrow> Inl (TypeError ''Cannot read property 0 of undefined'')
      | Some JNull \<Rightarrow> Inl (TypeError ''Cannot read property 0 of null'')
      | Some (JArr xs) \<Rightarrow> Inr (if xs = [] then None else Some (hd xs))
      | Some (JStr s) \<Rightarrow> Inr (if s = [] then None else Some (JStr [hd s]))
      | Some (JObj kvs) \<Rightarrow> Inr (map_of kvs ''0'')
      | Some _ \<Rightarrow> Inr None)"

definition is_string :: "jval option \<Rightarrow> bool" where
  "is_string v = (case v of Some (JStr _) \<Rightarrow> True | _ \<Rightarrow> False)"

definition is_array :: "jval option \<Rightarrow> bool" where
  "is_array v = (case v of Some (JArr _) \<Rightarrow> True | _ \<Rightarrow> False)"

text \<open>\<open>v.slice(1)\<close> on an array.\<close>

definition slice1 :: "jval option \<Rightarrow> jval" where
  "slice1 v = (case v of Some (JArr xs) \<Rightarrow> JArr (drop 1 xs) | _ \<Rightarrow> JArr [])"

section \<open>Shared lemmas\<close>

lemma js_bind_simps [simp]:
  "js_bind (Inl e) f = Inl e"
  "js_bind (Inr x) f = f x"
  by (simp_all add: js_bind_def)

lemma js_bind_Inr_iff: "js_bind r f = Inr y \<longleftrightarrow> (\<exists>x. r = Inr x \<and> f x = Inr y)"
  by (cases r) simp_all

lemma truthy_str_simps [simp]:
  "truthy_str None = False"
  "truthy_str (Some []) = False"
  "truthy_str (Some (c # cs)) = True"
  by (simp_all add: truthy_str_def)

lemma get_default_simps [simp]:
  "get_default None d = d"
  "get_default (Some x) d = x"
  by (simp_all add: get_default_def)

lemma map_add_upd_right [simp]: "(m ++ [k \<mapsto> v]) k = Some v"
  by simp

lemma map_add_other_key: "k \<notin> dom m2 \<Longrightarrow> (m1 ++ m2) k = m1 k"
  by (simp add: map_add_dom_app_simps(3))

lemma map_throwing_Inr:
  "map_throwing f xs = Inr ys \<longleftrightarrow> list_all2 (\<lambda>x y. f x = Inr y) xs ys"
proof (induction xs arbitrary: ys)
  case Nil
  then show ?case by auto
next
  case (Cons x xs)
  show ?case
    by (cases ys) (auto simp: Cons.IH [symmetric] split: sum.splits)
qed

lemma distinct_set_singleton: "distinct xs \<Longrightarrow> set xs = {x} \<Longrightarrow> xs = [x]"
  by (cases xs) (auto simp: subset_singleton_iff)

lemma length_filter_one_iff:
  "length (filter P xs) = 1 \<longleftrightarrow> (\<exists>x. filter P xs = [x])"
  by (cases "filter P xs" rule: list.exhaust) (auto simp: length_Suc_conv)

lemma of_char_digit:
  assumes "d < 10" shows "of_char (''0123456789'' ! d) - 48 = (d :: nat)"
proof -
  have "[0..<10] = [0, 1, 2, 3, 4, 5, 6, 7, 8, 9 :: nat]" by (simp add: upt_rec)
  then have "d \<in> {0, 1, 2, 3, 4, 5, 6, 7, 8, 9}" using assms atLeastLessThan_upt [of 0 10] by auto
  then show ?thesis by auto
qed

lemma decimal_value_nat_to_string [simp]: "decimal_value (nat_to_string n) = n"
proof (induction n rule: nat_to_string.induct)
  case (1 n)
  show ?case
  proof (cases "n < 10")
    case True
    then show ?thesis by (simp add: decimal_value_def of_char_digit)
  next
    case False
    then have "decimal_value (nat_to_string n) =
        10 * decimal_value (nat_to_string (n div 10)) + (n mod 10)"
      by (simp add: decimal_value_def of_char_digit)
    with "1" False show ?thesis by simp
  qed
qed

lemma inj_nat_to_string: "inj nat_to_string"
  by (metis decimal_value_nat_to_string injI)

end
