(* ===== verification/Editor_Actions.thy ===== *)
theory Editor_Actions
  imports Prelude
begin

text \<open>
  The data the effects module of \<open>src/editor/effects.js\<close> exchanges with the rest of the
  editor: posts, blocks, reusable blocks and REST errors as records; the action vocabulary
  (the \<open>{type: ...}\<close> objects built by \<open>./actions\<close> and by the handlers themselves) as one
  datatype; the outside effects a handler performs (a remote call, a history update, a
  redirect, the jQuery ready hold) as a second datatype; and the store snapshot a handler
  reads through the selectors of \<open>./selectors\<close>.
\<close>

section \<open>Entities\<close>

type_synonym uid = string

text \<open>A post of the REST API (\<open>post.content.raw\<close> and \<open>post.title.raw\<close> flattened).\<close>

record post =
  post_id :: int
  status :: string
  link :: string
  content_raw :: string
  title_raw :: string

text \<open>Pending edits and the object sent to the server: a partial post, key by key.\<close>

type_synonym edits = attrs

text \<open>A block of the document; its \<open>uid\<close> identifies it.\<close>

record block =
  uid :: uid
  block_name :: string
  attributes :: attrs

text \<open>A reusable block \<open>{id, name, type, attributes}\<close>.\<close>

record reusable_block =
  rb_id :: string
  rb_name :: string
  rb_type :: string
  rb_attributes :: attrs

text \<open>
  The \<open>responseJSON\<close> of a failed request, \<open>{code, message}\<close>; the message may be
  missing. A failed request carries \<open>responseJSON\<close> or not: \<open>api_error option\<close>.
\<close>

record api_error =
  code :: string
  message :: "string option"

type_synonym xhr_failure = "api_error option"

text \<open>
  How a request of \<open>wp.api\<close> settles: its success callback runs with the server's
  data, or its failure callback with the failed request.
\<close>

datatype 'a outcome = Done 'a | Failed xhr_failure

text \<open>Meta box state of one location, as \<open>getMetaBoxes\<close> returns it.\<close>

record meta_box =
  is_active :: bool
  is_loaded :: bool
  is_dirty :: bool

section \<open>Constants of the module\<close>

definition SAVE_POST_NOTICE_ID :: string where
  "SAVE_POST_NOTICE_ID = ''SAVE_POST_NOTICE_ID''"

definition TRASH_POST_NOTICE_ID :: string where
  "TRASH_POST_NOTICE_ID = ''TRASH_POST_NOTICE_ID''"

definition SAVE_REUSABLE_BLOCK_NOTICE_ID :: string where
  "SAVE_REUSABLE_BLOCK_NOTICE_ID = ''SAVE_REUSABLE_BLOCK_NOTICE_ID''"

definition POST_UPDATE_TRANSACTION_ID :: string where
  "POST_UPDATE_TRANSACTION_ID = ''post-update''"

text \<open>
  The generic error the handlers substitute when a failed request has no
  \<open>responseJSON\<close> (\<open>__\<close> is the identity of the default locale).
\<close>

definition unknown_error :: api_error where
  "unknown_error = \<lparr>code = ''unknown_error'', message = Some ''An unknown error occurred.''\<rparr>"

section \<open>Actions\<close>

text \<open>The redux-optimist marker \<open>optimist: {type, id}\<close>.\<close>

datatype optimist = Begin string | Commit string | Revert string

text \<open>
  The content of a notice: plain text, or the success markup of a saved post
  \<open><p><span>{message}</span> <a href={link}>View post</a></p>\<close>.
\<close>

datatype notice_content = NoticeText string | PostNotice string string

text \<open>\<open>settings\<close> of \<open>SETUP_EDITOR\<close>: the block template, \<open>undefined\<close> when absent.\<close>

record editor_settings =
  template :: "(string \<times> attrs) list option"

text \<open>
  One constructor per action type the module handles or dispatches. The action creators
  of \<open>./actions\<close> are these constructors: \<open>savePost()\<close> is \<open>RequestPostUpdate\<close>,
  \<open>focusBlock(uid, {offset})\<close> is \<open>FocusBlock uid (Some offset)\<close>,
  \<open>createSuccessNotice(c, {id})\<close> is \<open>CreateSuccessNotice c id\<close>, and so on.
\<close>

datatype action =
    RequestPostUpdate
  | UpdatePost edits optimist
  | RemoveNotice string
  | ResetPost post
  | RequestPostUpdateSuccess post post optimist
  | RequestPostUpdateFailure api_error post edits optimist
  | CreateSuccessNotice notice_content string
  | CreateErrorNotice notice_content string
  | RequestMetaBoxUpdates "string list"
  | TrashPost int string
  | TrashPostSuccess int string
  | TrashPostFailure int string api_error
  | MergeBlocks block block
  | FocusBlock uid "int option"
  | ReplaceBlocks "uid list" "block list"
  | Autosave
  | EditPost edits
  | SetupEditor post editor_settings
  | ResetBlocks "block list"
  | SetupNewPost edits
  | InitializeMetaBoxState "string \<rightharpoonup> bool"
  | MetaBoxLoaded string
  | FetchReusableBlocks "string option"
  | FetchReusableBlocksSuccess "reusable_block list"
  | FetchReusableBlocksFailure api_error
  | SaveReusableBlock string
  | SaveReusableBlockSuccess string
  | SaveReusableBlockFailure string
  | UpdateReusableBlock string reusable_block
  | ConvertBlockToStatic uid
  | ConvertBlockToReusable uid

section \<open>Effects outside the store\<close>

text \<open>Admin URLs built by \<open>./utils/url\<close>: kept symbolic.\<close>

datatype url = PostEditUrl int | AdminUrl string "(string \<times> jval) list"

text \<open>
  A request started on the Backbone client \<open>wp.api\<close>, with what its callbacks close over:
  \<open>new Model(toSend).save()\<close> for the post type, remembering \<open>post\<close> and \<open>edits\<close>;
  \<open>new Model({id: postId}).destroy()\<close>, remembering the trash action's \<open>postId\<close> and
  \<open>postType\<close>; the reusable-block fetches and save.
\<close>

datatype request =
    SavePostRequest string edits post edits
  | DestroyPostRequest string int int string
  | FetchReusableBlockRequest string
  | FetchReusableBlocksRequest
  | SaveReusableBlockRequest string string string

text \<open>
  What a handler does, in order: dispatch an action (synchronously, through the store),
  start a request, replace the history entry, schedule the redirect, or toggle
  \<open>jQuery.holdReady\<close>.
\<close>

datatype effect =
    Dispatch action
  | Request request
  | ReplaceHistoryState int string url
  | DelayedRedirect url
  | HoldReady bool

text \<open>The actions an effect list dispatches, in order.\<close>

fun dispatched :: "effect list \<Rightarrow> action list" where
  "dispatched [] = []"
| "dispatched (Dispatch a # es) = a # dispatched es"
| "dispatched (_ # es) = dispatched es"

text \<open>The redux-optimist marker an action carries, if any.\<close>

fun action_optimist :: "action \<Rightarrow> optimist option" where
  "action_optimist (UpdatePost _ t) = Some t"
| "action_optimist (RequestPostUpdateSuccess _ _ t) = Some t"
| "action_optimist (RequestPostUpdateFailure _ _ _ t) = Some t"
| "action_optimist _ = None"

definition optimist_markers :: "effect list \<Rightarrow> optimist list" where
  "optimist_markers es = List.map_filter action_optimist (dispatched es)"

section \<open>The store snapshot a handler reads\<close>

text \<open>
  The selectors the handlers call, as fields of the snapshot or as functions of it.
  \<open>saveable\<close>, \<open>dirty\<close> and \<open>edited_post_content\<close> depend on the undo history and on
  the serializer, outside this module, so the snapshot records their values.
\<close>

record editor_state =
  current_post :: post
  current_post_type :: string
  post_edits :: edits
  edited_post_content :: string
  saveable :: bool
  dirty :: bool
  scheduled_in_past :: bool
  meta_boxes :: "(string \<times> meta_box) list"
  doc_blocks :: "block list"
  reusable_blocks :: "string \<rightharpoonup> reusable_block"

definition is_edited_post_new :: "editor_state \<Rightarrow> bool" where
  "is_edited_post_new st \<longleftrightarrow> status (current_post st) = ''auto-draft''"

definition is_current_post_published :: "editor_state \<Rightarrow> bool" where
  "is_current_post_published st \<longleftrightarrow>
     status (current_post st) \<in> set [''publish'', ''private'']
     \<or> (status (current_post st) = ''future'' \<and> scheduled_in_past st)"

definition get_dirty_meta_boxes :: "editor_state \<Rightarrow> string list" where
  "get_dirty_meta_boxes st =
     map fst (filter (\<lambda>(_, mb). is_active mb \<and> is_dirty mb) (meta_boxes st))"

text \<open>\<open>getBlock(state, uid)\<close>: the block of the document with that uid, if any.\<close>

definition get_block :: "editor_state \<Rightarrow> uid \<Rightarrow> block option" where
  "get_block st u = find (\<lambda>b. uid b = u) (doc_blocks st)"

definition get_reusable_block :: "editor_state \<Rightarrow> string \<Rightarrow> reusable_block option" where
  "get_reusable_block st i = reusable_blocks st i"

lemma dispatched_append [simp]: "dispatched (es1 @ es2) = dispatched es1 @ dispatched es2"
  by (induction es1 rule: dispatched.induct) simp_all

lemma optimist_markers_simps [simp]:
  "optimist_markers [] = []"
  "optimist_markers (Dispatch a # es) =
     (case action_optimist a of None \<Rightarrow> optimist_markers es | Some t \<Rightarrow> t # optimist_markers es)"
  "optimist_markers (es1 @ es2) = optimist_markers es1 @ optimist_markers es2"
  by (simp_all add: optimist_markers_def List.map_filter_def split: option.splits)

lemma optimist_markers_non_dispatch [simp]:
  "(\<And>a. e \<noteq> Dispatch a) \<Longrightarrow> optimist_markers (e # es) = optimist_markers es"
  by (cases e) (auto simp: optimist_markers_def)

lemma get_block_Some: "get_block st u = Some b \<Longrightarrow> b \<in> set (doc_blocks st) \<and> uid b = u"
  by (auto simp: get_block_def find_Some_iff)

end
