(* ===== verification/Post_Effects.thy ===== *)
theory Post_Effects
  imports Editor_Actions
begin

text \<open>
  The post save and trash handlers of \<open>src/editor/effects.js\<close>
  (\<open>REQUEST_POST_UPDATE\<close>, \<open>REQUEST_POST_UPDATE_SUCCESS\<close>,
  \<open>REQUEST_POST_UPDATE_FAILURE\<close>, \<open>TRASH_POST\<close>, \<open>TRASH_POST_SUCCESS\<close>,
  \<open>TRASH_POST_FAILURE\<close>). A handler that starts a request is split as the code is: the
  synchronous part, ending with the request, and one function per callback of the
  request; \<open>..._run\<close> composes them for a given outcome. The lemmas give the notice
  tables, the optimistic-transaction markers (one \<open>BEGIN\<close>, then exactly one of
  \<open>COMMIT\<close> or \<open>REVERT\<close>), the error fallbacks and the payload sent to the server.
\<close>

section \<open>Saving a post\<close>

text \<open>\<open>toSend = {...edits, content: getEditedPostContent(state), id: post.id}\<close>.\<close>

definition post_to_send :: "editor_state \<Rightarrow> edits" where
  "post_to_send st =
     post_edits st ++ [''content'' \<mapsto> JStr (edited_post_content st),
                       ''id'' \<mapsto> JNum (post_id (current_post st))]"

text \<open>The synchronous part of \<open>REQUEST_POST_UPDATE\<close>, up to the start of the save request.\<close>

definition request_post_update :: "editor_state \<Rightarrow> effect list" where
  "request_post_update st =
     [Dispatch (UpdatePost (post_to_send st) (Begin POST_UPDATE_TRANSACTION_ID)),
      Dispatch (RemoveNotice SAVE_POST_NOTICE_ID),
      Request (SavePostRequest (current_post_type st) (post_to_send st) (current_post st) (post_edits st))]"

text \<open>The \<open>done\<close> callback: \<open>post\<close> is the post read before the request.\<close>

definition request_post_update_done :: "post \<Rightarrow> post \<Rightarrow> effect list" where
  "request_post_update_done post newPost =
     [Dispatch (ResetPost newPost),
      Dispatch (RequestPostUpdateSuccess post newPost (Commit POST_UPDATE_TRANSACTION_ID))]"

text \<open>The \<open>fail\<close> callback: \<open>get(err, 'responseJSON', {code: 'unknown_error', ...})\<close>.\<close>

definition request_post_update_fail :: "post \<Rightarrow> edits \<Rightarrow> xhr_failure \<Rightarrow> effect list" where
  "request_post_update_fail post edits err =
     [Dispatch (RequestPostUpdateFailure (get_default err unknown_error) post edits
                  (Revert POST_UPDATE_TRANSACTION_ID))]"

definition request_post_update_run :: "editor_state \<Rightarrow> post outcome \<Rightarrow> effect list" where
  "request_post_update_run st res =
     request_post_update st @
       (case res of
          Done newPost \<Rightarrow> request_post_update_done (current_post st) newPost
        | Failed err \<Rightarrow> request_post_update_fail (current_post st) (post_edits st) err)"

section \<open>Notices after a save\<close>

definition publish_status :: "string list" where
  "publish_status = [''publish'', ''private'', ''future'']"

definition success_messages :: "string \<rightharpoonup> string" where
  "success_messages =
     [''publish'' \<mapsto> ''Post published!'',
      ''private'' \<mapsto> ''Post published privately!'',
      ''future'' \<mapsto> ''Post scheduled!'']"

text \<open>
  The message of \<open>REQUEST_POST_UPDATE_SUCCESS\<close>, \<open>None\<close> where the handler shows no
  notice. Inside the guard \<open>messages[post.status]\<close> is read only for a publish status,
  where the table has an entry.
\<close>

definition success_notice_message :: "string \<Rightarrow> string \<Rightarrow> string option" where
  "success_notice_message prev_status new_status =
     (let isPublished = prev_status \<in> set publish_status
      in if isPublished \<or> new_status \<in> set publish_status
         then Some (if \<not> isPublished \<and> new_status \<in> set publish_status
                    then the (success_messages new_status)
                    else ''Post updated!'')
         else None)"

text \<open>
  \<open>REQUEST_POST_UPDATE_SUCCESS\<close>: the notice, the meta box refresh, and the history entry
  when \<open>get(window.history.state, 'id')\<close> (here \<open>history_id\<close>) is not the saved post's id.
\<close>

definition request_post_update_success ::
  "int option \<Rightarrow> editor_state \<Rightarrow> post \<Rightarrow> post \<Rightarrow> effect list" where
  "request_post_update_success history_id st previousPost post =
     (case success_notice_message (status previousPost) (status post) of
        None \<Rightarrow> []
      | Some m \<Rightarrow> [Dispatch (CreateSuccessNotice (PostNotice m (link post)) SAVE_POST_NOTICE_ID)])
     @ [Dispatch (RequestMetaBoxUpdates (get_dirty_meta_boxes st))]
     @ (if history_id \<noteq> Some (post_id post)
        then [ReplaceHistoryState (post_id post) (''Post '' @ int_to_string (post_id post))
                (PostEditUrl (post_id post))]
        else [])"

definition failure_messages :: "string \<rightharpoonup> string" where
  "failure_messages =
     [''publish'' \<mapsto> ''Publishing failed'',
      ''private'' \<mapsto> ''Publishing failed'',
      ''future'' \<mapsto> ''Scheduling failed'']"

text \<open>
  \<open>publishStatus.indexOf(edits.status) !== -1\<close> holds only for a string status of the
  list; \<open>edits.status\<close> may be absent or of another JSON type.
\<close>

definition failure_notice_message :: "string \<Rightarrow> jval option \<Rightarrow> string" where
  "failure_notice_message post_status edit_status =
     (case edit_status of
        Some (JStr s) \<Rightarrow>
          if post_status \<notin> set publish_status \<and> s \<in> set publish_status
          then the (failure_messages s) else ''Updating failed''
      | _ \<Rightarrow> ''Updating failed'')"

text \<open>The handler reads \<open>post\<close> and \<open>edits\<close> of the action; its \<open>error\<close> is not read.\<close>

definition request_post_update_failure :: "api_error \<Rightarrow> post \<Rightarrow> edits \<Rightarrow> effect list" where
  "request_post_update_failure error post edits =
     [Dispatch (CreateErrorNotice
        (NoticeText (failure_notice_message (status post) (edits ''status''))) SAVE_POST_NOTICE_ID)]"

section \<open>Trashing a post\<close>

definition trash_post :: "editor_state \<Rightarrow> int \<Rightarrow> string \<Rightarrow> effect list" where
  "trash_post st postId postType =
     [Dispatch (RemoveNotice TRASH_POST_NOTICE_ID),
      Request (DestroyPostRequest (current_post_type st) postId postId postType)]"

definition trash_post_done :: "int \<Rightarrow> string \<Rightarrow> effect list" where
  "trash_post_done postId postType = [Dispatch (TrashPostSuccess postId postType)]"

definition trash_post_fail :: "int \<Rightarrow> string \<Rightarrow> xhr_failure \<Rightarrow> effect list" where
  "trash_post_fail postId postType err =
     [Dispatch (TrashPostFailure postId postType (get_default err unknown_error))]"

definition trash_post_run :: "editor_state \<Rightarrow> int \<Rightarrow> string \<Rightarrow> unit outcome \<Rightarrow> effect list" where
  "trash_post_run st postId postType res =
     trash_post st postId postType @
       (case res of
          Done _ \<Rightarrow> trash_post_done postId postType
        | Failed err \<Rightarrow> trash_post_fail postId postType err)"

definition trash_post_success :: "int \<Rightarrow> string \<Rightarrow> effect list" where
  "trash_post_success postId postType =
     [DelayedRedirect (AdminUrl ''edit.php''
        [(''trashed'', JNum 1), (''post_type'', JStr postType), (''ids'', JNum postId)])]"

definition trash_failure_message :: "api_error \<Rightarrow> string" where
  "trash_failure_message err =
     (if truthy_str (message err) \<and> code err \<noteq> ''unknown_error''
      then the (message err) else ''Trashing failed'')"

definition trash_post_failure :: "api_error \<Rightarrow> effect list" where
  "trash_post_failure err =
     [Dispatch (CreateErrorNotice (NoticeText (trash_failure_message err)) TRASH_POST_NOTICE_ID)]"

declare request_post_update_def [effect_simps] request_post_update_done_def [effect_simps]
  request_post_update_fail_def [effect_simps] request_post_update_run_def [effect_simps]
  request_post_update_success_def [effect_simps] request_post_update_failure_def [effect_simps]
  trash_post_def [effect_simps] trash_post_done_def [effect_simps] trash_post_fail_def [effect_simps]
  trash_post_run_def [effect_simps] trash_post_success_def [effect_simps]
  trash_post_failure_def [effect_simps]

section \<open>Properties\<close>

lemma success_messages_dom: "success_messages s \<noteq> None \<longleftrightarrow> s \<in> set publish_status"
  by (auto simp: success_messages_def publish_status_def)

lemma failure_messages_dom: "failure_messages s \<noteq> None \<longleftrightarrow> s \<in> set publish_status"
  by (auto simp: failure_messages_def publish_status_def)

text \<open>
  C1. After a successful save the notice depends on the previous and the new status: a
  post that was published reports "Post updated!"; a post entering \<open>publish\<close>,
  \<open>private\<close> or \<open>future\<close> from outside that set reports the status-specific message;
  a save where neither status is published shows no notice.
\<close>

theorem success_notice_table:
  "success_notice_message p n =
     (if p \<in> set publish_status then Some ''Post updated!''
      else if n = ''publish'' then Some ''Post published!''
      else if n = ''private'' then Some ''Post published privately!''
      else if n = ''future'' then Some ''Post scheduled!''
      else None)"
  by (auto simp: success_notice_message_def success_messages_def publish_status_def Let_def)

text \<open>
  C2. A save request opens one optimistic transaction on the fixed id \<open>post-update\<close>
  and closes it exactly once: with \<open>COMMIT\<close> when the request succeeds, with
  \<open>REVERT\<close> when it fails, never both, and the \<open>BEGIN\<close> comes first.
\<close>

theorem request_post_update_transaction:
  "optimist_markers (request_post_update_run st res) =
     [Begin POST_UPDATE_TRANSACTION_ID,
      (case res of
         Done _ \<Rightarrow> Commit POST_UPDATE_TRANSACTION_ID
       | Failed _ \<Rightarrow> Revert POST_UPDATE_TRANSACTION_ID)]"
  by (cases res) (simp_all add: effect_simps)

text \<open>
  C10. A failed trash shows "Trashing failed" when the error has the generic code
  \<open>unknown_error\<close> (the fallback substituted when the server gave no \<open>responseJSON\<close>);
  with a specific code it shows the server's message when that is non-empty, and
  "Trashing failed" when it is empty or missing.
\<close>

theorem trash_post_failure_message:
  "(code err = ''unknown_error'' \<longrightarrow>
     trash_post_failure err =
       [Dispatch (CreateErrorNotice (NoticeText ''Trashing failed'') TRASH_POST_NOTICE_ID)])
   \<and> (code err \<noteq> ''unknown_error'' \<longrightarrow>
     trash_post_failure err =
       [Dispatch (CreateErrorNotice
          (NoticeText (case message err of
                         Some m \<Rightarrow> if m \<noteq> [] then m else ''Trashing failed''
                       | None \<Rightarrow> ''Trashing failed''))
          TRASH_POST_NOTICE_ID)])"
  by (cases "message err") (auto simp: trash_post_failure_def trash_failure_message_def truthy_str_def)

lemma trash_post_run_failed:
  "trash_post_run st postId postType (Failed err) =
     [Dispatch (RemoveNotice TRASH_POST_NOTICE_ID),
      Request (DestroyPostRequest (current_post_type st) postId postId postType),
      Dispatch (TrashPostFailure postId postType (case err of None \<Rightarrow> unknown_error | Some e \<Rightarrow> e))]"
  by (cases err) (simp_all add: effect_simps)

text \<open>
  C12. The notice of a failed save: "Publishing failed" when an unpublished post was
  being published or made private, "Scheduling failed" when it was being scheduled,
  "Updating failed" otherwise (including a post already published, and edits with no
  string status).
\<close>

theorem failure_notice_table:
  "failure_notice_message p (Some (JStr s)) =
     (if p \<notin> set publish_status \<and> (s = ''publish'' \<or> s = ''private'') then ''Publishing failed''
      else if p \<notin> set publish_status \<and> s = ''future'' then ''Scheduling failed''
      else ''Updating failed'')"
  by (auto simp: failure_notice_message_def failure_messages_def publish_status_def)

lemma failure_notice_no_status:
  "(\<forall>s. e \<noteq> Some (JStr s)) \<Longrightarrow> failure_notice_message p e = ''Updating failed''"
  by (cases e rule: option.exhaust) (auto simp: failure_notice_message_def split: jval.splits)

text \<open>
  C13. The failed-save notice never shows the server's message: the handler's output does
  not depend on the error the failure action carries, whatever its code.
\<close>

theorem request_post_update_failure_ignores_error:
  "request_post_update_failure e1 post edits = request_post_update_failure e2 post edits"
  by (simp add: request_post_update_failure_def)

lemma request_post_update_run_failed:
  "request_post_update_run st (Failed err) =
     request_post_update st @
     [Dispatch (RequestPostUpdateFailure (case err of None \<Rightarrow> unknown_error | Some e \<Rightarrow> e)
        (current_post st) (post_edits st) (Revert POST_UPDATE_TRANSACTION_ID))]"
  by (cases err) (simp_all add: effect_simps)

text \<open>
  The object sent to the server is the pending edits with \<open>content\<close> and \<open>id\<close> taken
  from the editor, overriding any edit of those keys.
\<close>

lemma post_to_send_keys:
  "post_to_send st ''id'' = Some (JNum (post_id (current_post st)))"
  "post_to_send st ''content'' = Some (JStr (edited_post_content st))"
  "k \<noteq> ''id'' \<Longrightarrow> k \<noteq> ''content'' \<Longrightarrow> post_to_send st k = post_edits st k"
  by (simp_all add: post_to_send_def)

lemma request_post_update_success_no_notice:
  "status prev \<notin> set publish_status \<Longrightarrow> status post \<notin> set publish_status \<Longrightarrow>
   dispatched (request_post_update_success h st prev post) = [RequestMetaBoxUpdates (get_dirty_meta_boxes st)]"
  by (auto simp: request_post_update_success_def success_notice_message_def)

end
