(* ===== verification/Block_Document.thy ===== *)
theory Block_Document
  imports Editor_Actions
begin

text \<open>
  The interface of the blocks API (\<open>@wordpress/blocks\<close>) the handlers call, and the part
  of the editor store the block handlers change. Neither is under \<open>src/\<close>: the registry
  entry of a block type, \<open>createBlock\<close> and the \<open>REPLACE_BLOCKS\<close> case of the block-order
  reducer are modelled from the spec and from the API's contract. The document is the
  ordered list of blocks; its invariant is that no two blocks share a uid, and
  \<open>replace_blocks\<close> keeps it when the inserted blocks bring fresh uids. The type of a
  block's attributes is conformance to its schema (\<open>conforms\<close>, the attributes that
  normalization leaves unchanged); normalization is characterised key by key and is
  idempotent, so every block \<open>createBlock\<close> makes is well typed.
\<close>

section \<open>Block types\<close>

text \<open>
  A registered block type: its attribute schema (each attribute with its default, if it
  declares one) and its optional \<open>merge(attributesA, attributesB)\<close>.
\<close>

record block_type =
  bt_attributes :: "(string \<times> jval option) list"
  bt_merge :: "(attrs \<Rightarrow> attrs \<Rightarrow> attrs) option"

type_synonym registry = "string \<rightharpoonup> block_type"

text \<open>
  \<open>createBlock(name, attributes)\<close>: only the attributes the schema declares are kept, a
  missing one takes its default; \<open>u\<close> is the fresh uid \<open>uuid()\<close> gives. An unregistered
  name makes \<open>blockType.attributes\<close> throw.
\<close>

fun normalize_step :: "attrs \<Rightarrow> string \<times> jval option \<Rightarrow> attrs \<Rightarrow> attrs" where
  "normalize_step a (k, dflt) r =
     (case a k of
        Some v \<Rightarrow> r(k \<mapsto> v)
      | None \<Rightarrow> (case dflt of Some d \<Rightarrow> r(k \<mapsto> d) | None \<Rightarrow> r))"

definition normalize_attrs :: "(string \<times> jval option) list \<Rightarrow> attrs \<Rightarrow> attrs" where
  "normalize_attrs schema a = fold (normalize_step a) schema Map.empty"

definition create_block :: "registry \<Rightarrow> uid \<Rightarrow> string \<Rightarrow> attrs \<Rightarrow> js_error + block" where
  "create_block reg u nm a =
     (case reg nm of
        None \<Rightarrow> Inl (TypeError ''blockType is undefined'')
      | Some bt \<Rightarrow> Inr \<lparr>uid = u, block_name = nm, attributes = normalize_attrs (bt_attributes bt) a\<rparr>)"

text \<open>
  The markup parser \<open>parse(raw)\<close> and serializer \<open>serialize(block)\<close> of the blocks API,
  passed to the handlers that call them.
\<close>

type_synonym parser = "string \<Rightarrow> block list"
type_synonym serializer = "block \<Rightarrow> string"

section \<open>The document and REPLACE_BLOCKS\<close>

text \<open>
  The block-order reducer on \<open>REPLACE_BLOCKS\<close>: the new blocks take the place of the
  first replaced uid, the other replaced uids are dropped, the rest keep their order.
\<close>

fun replace_blocks :: "uid list \<Rightarrow> block list \<Rightarrow> block list \<Rightarrow> block list" where
  "replace_blocks uids new [] = []"
| "replace_blocks uids new (b # bs) =
     (if uids \<noteq> [] \<and> uid b = hd uids then new @ replace_blocks uids new bs
      else if uid b \<in> set uids then replace_blocks uids new bs
      else b # replace_blocks uids new bs)"

text \<open>The effect of one dispatched action on the document; the others leave it alone.\<close>

fun doc_step :: "block list \<Rightarrow> action \<Rightarrow> block list" where
  "doc_step doc (ReplaceBlocks uids new) = replace_blocks uids new doc"
| "doc_step doc (ResetBlocks bs) = bs"
| "doc_step doc _ = doc"

definition doc_after :: "action list \<Rightarrow> block list \<Rightarrow> block list" where
  "doc_after acts doc = fold (\<lambda>a d. doc_step d a) acts doc"

definition uids_distinct :: "block list \<Rightarrow> bool" where
  "uids_distinct doc \<longleftrightarrow> distinct (map uid doc)"

text \<open>
  The type of a block's attributes: the default \<open>createBlock\<close> fills in for a key (the
  last declaration with a default wins), and conformance to a schema, i.e. being left
  unchanged by normalization (only declared keys, every default present).
\<close>

fun schema_default :: "(string \<times> jval option) list \<Rightarrow> string \<Rightarrow> jval option" where
  "schema_default [] k = None"
| "schema_default ((k', d) # schema) k =
     (case schema_default schema k of Some v \<Rightarrow> Some v | None \<Rightarrow> if k' = k then d else None)"

definition conforms :: "(string \<times> jval option) list \<Rightarrow> attrs \<Rightarrow> bool" where
  "conforms schema a \<longleftrightarrow> normalize_attrs schema a = a"

definition block_well_typed :: "registry \<Rightarrow> block \<Rightarrow> bool" where
  "block_well_typed reg b \<longleftrightarrow>
     (\<exists>bt. reg (block_name b) = Some bt \<and> conforms (bt_attributes bt) (attributes b))"

section \<open>Lemmas\<close>

lemma doc_after_simps [simp]:
  "doc_after [] doc = doc"
  "doc_after (a # acts) doc = doc_after acts (doc_step doc a)"
  by (simp_all add: doc_after_def)

lemma fold_normalize_step_key:
  "a k = Some v \<Longrightarrow> r k = Some v \<or> k \<in> fst ` set schema \<Longrightarrow>
   fold (normalize_step a) schema r k = Some v"
proof (induction schema arbitrary: r)
  case Nil
  then show ?case by simp
next
  case (Cons x schema)
  obtain k' d' where x: "x = (k', d')" by (cases x)
  have "normalize_step a x r k = Some v \<or> k \<in> fst ` set schema"
    using Cons.prems x by (auto split: option.splits)
  then show ?case using Cons.prems(1) by (simp add: Cons.IH)
qed

text \<open>An attribute the schema declares and the caller gives is kept as given.\<close>

lemma normalize_attrs_declared:
  "k \<in> fst ` set schema \<Longrightarrow> a k = Some v \<Longrightarrow> normalize_attrs schema a k = Some v"
  by (simp add: normalize_attrs_def fold_normalize_step_key)

lemma find_uid_in_doc:
  "uids_distinct (pre @ b # post) \<Longrightarrow> find (\<lambda>x. uid x = uid b) (pre @ b # post) = Some b"
  by (induction pre) (auto simp: uids_distinct_def)

lemma get_block_in_doc:
  "doc_blocks st = pre @ b # post \<Longrightarrow> uids_distinct (pre @ b # post) \<Longrightarrow> get_block st (uid b) = Some b"
  by (simp add: get_block_def find_uid_in_doc)

lemma replace_blocks_absent:
  "set uids \<inter> set (map uid doc) = {} \<Longrightarrow> replace_blocks uids new doc = doc"
  by (induction doc) auto

lemma replace_blocks_append:
  "replace_blocks uids new (xs @ ys) = replace_blocks uids new xs @ replace_blocks uids new ys"
  by (induction xs) auto

text \<open>Replacing an adjacent pair whose uids occur nowhere else.\<close>

lemma replace_blocks_pair:
  assumes "uids_distinct (pre @ a # b # post)"
  shows "replace_blocks [uid a, uid b] new (pre @ a # b # post) = pre @ new @ post"
proof -
  from assms have "uid a \<notin> uid ` set pre" "uid b \<notin> uid ` set pre"
    "uid a \<notin> uid ` set post" "uid b \<notin> uid ` set post" "uid a \<noteq> uid b"
    by (auto simp: uids_distinct_def)
  then show ?thesis
    by (simp add: replace_blocks_append replace_blocks_absent)
qed

lemma replace_blocks_single:
  assumes "uids_distinct (pre @ a # post)"
  shows "replace_blocks [uid a] new (pre @ a # post) = pre @ new @ post"
proof -
  from assms have "uid a \<notin> uid ` set pre" "uid a \<notin> uid ` set post"
    by (auto simp: uids_distinct_def)
  then show ?thesis
    by (simp add: replace_blocks_append replace_blocks_absent)
qed

lemma set_replace_blocks:
  "set (map uid (replace_blocks uids new doc)) \<subseteq> set (map uid doc) - set uids \<union> set (map uid new)"
  by (induction doc) auto

lemma replace_blocks_no_first:
  "uids = [] \<or> hd uids \<notin> set (map uid bs) \<Longrightarrow>
   replace_blocks uids new bs = filter (\<lambda>b. uid b \<notin> set uids) bs"
  by (induction bs) auto

text \<open>
  The invariant: replacing keeps uids distinct when the new blocks have distinct uids,
  none of them the uid of a block that stays (the list is inserted once, at the first
  replaced uid).
\<close>

lemma replace_blocks_uids_distinct:
  assumes "uids_distinct doc" "distinct (map uid new)"
    and "set (map uid new) \<inter> (set (map uid doc) - set uids) = {}"
    and "uids \<noteq> []"
  shows "uids_distinct (replace_blocks uids new doc)"
  using assms
proof (induction doc)
  case Nil
  then show ?case by (simp add: uids_distinct_def)
next
  case (Cons b bs)
  have bs: "uids_distinct (replace_blocks uids new bs)"
    using Cons by (auto simp: uids_distinct_def)
  have sub: "set (map uid (replace_blocks uids new bs)) \<subseteq> set (map uid bs) - set uids \<union> set (map uid new)"
    by (rule set_replace_blocks)
  show ?case
  proof (cases "uid b = hd uids")
    case True
    have "hd uids \<notin> set (map uid bs)"
      using Cons.prems(1) True by (auto simp: uids_distinct_def)
    then have "replace_blocks uids new bs = filter (\<lambda>b. uid b \<notin> set uids) bs"
      by (simp add: replace_blocks_no_first)
    then have "set (map uid new) \<inter> set (map uid (replace_blocks uids new bs)) = {}"
      using Cons.prems(3) by auto
    moreover have "hd uids \<notin> set (map uid new) - {uid b}" using True by simp
    ultimately show ?thesis
      using True bs Cons.prems(2,4) by (simp add: uids_distinct_def)
  next
    case False
    then show ?thesis
      using bs sub Cons.prems(1,3,4) by (auto simp: uids_distinct_def)
  qed
qed

lemma schema_default_undeclared: "k \<notin> fst ` set schema \<Longrightarrow> schema_default schema k = None"
  by (induction schema) auto

lemma fold_normalize_step_at:
  "fold (normalize_step a) schema r k =
     (if k \<in> fst ` set schema
      then (case a k of Some v \<Rightarrow> Some v
            | None \<Rightarrow> (case schema_default schema k of Some d \<Rightarrow> Some d | None \<Rightarrow> r k))
      else r k)"
proof (induction schema arbitrary: r)
  case Nil
  then show ?case by simp
next
  case (Cons x schema)
  obtain k' d' where x: "x = (k', d')" by (cases x)
  show ?case
    by (auto simp: Cons.IH x schema_default_undeclared split: option.splits if_splits)
qed

lemma normalize_attrs_at:
  "normalize_attrs schema a k =
     (if k \<in> fst ` set schema then (case a k of Some v \<Rightarrow> Some v | None \<Rightarrow> schema_default schema k) else None)"
  by (auto simp: normalize_attrs_def fold_normalize_step_at split: option.splits)

lemma normalize_attrs_idem: "conforms schema (normalize_attrs schema a)"
  by (auto simp: conforms_def normalize_attrs_at split: option.splits)

lemma create_block_conforms:
  "create_block reg u nm a = Inr b \<Longrightarrow> \<exists>bt. reg (block_name b) = Some bt \<and> conforms (bt_attributes bt) (attributes b)"
  by (auto simp: create_block_def normalize_attrs_idem split: option.splits)


lemma create_block_well_typed: "create_block reg u nm a = Inr b \<Longrightarrow> block_well_typed reg b"
  unfolding block_well_typed_def by (rule create_block_conforms)

text \<open>
  Attributes assigned over normalized ones conform to the schema exactly when every
  assigned key is declared.
\<close>

lemma conforms_override:
  "conforms schema (normalize_attrs schema m ++ a) \<longleftrightarrow> dom a \<subseteq> fst ` set schema"
proof
  assume c: "conforms schema (normalize_attrs schema m ++ a)"
  show "dom a \<subseteq> fst ` set schema"
  proof
    fix k assume "k \<in> dom a"
    then obtain v where v: "a k = Some v" by auto
    from c have "normalize_attrs schema (normalize_attrs schema m ++ a) k = (normalize_attrs schema m ++ a) k"
      by (simp add: conforms_def)
    with v show "k \<in> fst ` set schema" by (auto simp: normalize_attrs_at split: if_splits)
  qed
next
  assume d: "dom a \<subseteq> fst ` set schema"
  show "conforms schema (normalize_attrs schema m ++ a)"
    unfolding conforms_def
  proof
    fix k
    show "normalize_attrs schema (normalize_attrs schema m ++ a) k = (normalize_attrs schema m ++ a) k"
      using d by (auto simp: normalize_attrs_at map_add_def split: option.splits)
  qed
qed

end
