(* ===== verification/Block_Merge.thy ===== *)
theory Block_Merge
  imports Block_Document
begin

text \<open>
  \<open>MERGE_BLOCKS\<close> of \<open>src/editor/effects.js\<close>: the block \<open>blockB\<close> is merged into the
  preceding \<open>blockA\<close>. The registry and \<open>switchToBlockType\<close> are parameters (the
  blocks API is outside the module). The lemmas give each branch of the handler, its
  effect on the document (a merge replaces the pair by the merged block and the leftover
  converted blocks; a type without \<open>merge\<close> only moves the focus) and the preservation
  of distinct uids.
\<close>

type_synonym switcher = "block \<Rightarrow> string \<Rightarrow> js_error + block list option"

definition merge_blocks :: "registry \<Rightarrow> switcher \<Rightarrow> block \<Rightarrow> block \<Rightarrow> js_error + effect list" where
  "merge_blocks reg switchToBlockType blockA blockB =
     (case reg (block_name blockA) of
        None \<Rightarrow> Inl (TypeError ''blockType is undefined'')
      | Some blockType \<Rightarrow>
          (case bt_merge blockType of
             None \<Rightarrow> Inr [Dispatch (FocusBlock (uid blockA) None)]
           | Some merge \<Rightarrow>
               (let blocksWithTheSameType =
                      (if block_name blockA = block_name blockB then Inr (Some [blockB])
                       else switchToBlockType blockB (block_name blockA))
                in case blocksWithTheSameType of
                     Inl e \<Rightarrow> Inl e
                   | Inr None \<Rightarrow> Inr []
                   | Inr (Some []) \<Rightarrow> Inr []
                   | Inr (Some (first # rest)) \<Rightarrow>
                       (let updatedAttributes = merge (attributes blockA) (attributes first)
                        in Inr [Dispatch (FocusBlock (uid blockA) (Some (-1))),
                                Dispatch (ReplaceBlocks [uid blockA, uid blockB]
                                  (blockA\<lparr>attributes := attributes blockA ++ updatedAttributes\<rparr>
                                   # rest))]))))"

declare merge_blocks_def [effect_simps]

section \<open>Branches\<close>

lemma merge_blocks_unregistered:
  "reg (block_name a) = None \<Longrightarrow> merge_blocks reg sw a b = Inl (TypeError ''blockType is undefined'')"
  by (simp add: merge_blocks_def)

lemma merge_blocks_same_type:
  "reg (block_name a) = Some bt \<Longrightarrow> bt_merge bt = Some f \<Longrightarrow> block_name a = block_name b \<Longrightarrow>
   merge_blocks reg sw a b =
     Inr [Dispatch (FocusBlock (uid a) (Some (-1))),
          Dispatch (ReplaceBlocks [uid a, uid b]
            [a\<lparr>attributes := attributes a ++ f (attributes a) (attributes b)\<rparr>])]"
  by (simp add: merge_blocks_def)

lemma merge_blocks_converted:
  "reg (block_name a) = Some bt \<Longrightarrow> bt_merge bt = Some f \<Longrightarrow> block_name a \<noteq> block_name b \<Longrightarrow>
   sw b (block_name a) = Inr (Some (c # rest)) \<Longrightarrow>
   merge_blocks reg sw a b =
     Inr [Dispatch (FocusBlock (uid a) (Some (-1))),
          Dispatch (ReplaceBlocks [uid a, uid b]
            (a\<lparr>attributes := attributes a ++ f (attributes a) (attributes c)\<rparr> # rest))]"
  by (simp add: merge_blocks_def)

lemma merge_blocks_incompatible:
  "reg (block_name a) = Some bt \<Longrightarrow> bt_merge bt = Some f \<Longrightarrow> block_name a \<noteq> block_name b \<Longrightarrow>
   sw b (block_name a) = Inr None \<or> sw b (block_name a) = Inr (Some []) \<Longrightarrow>
   merge_blocks reg sw a b = Inr []"
  by (auto simp: merge_blocks_def)

lemma merge_blocks_switch_error:
  "reg (block_name a) = Some bt \<Longrightarrow> bt_merge bt = Some f \<Longrightarrow> block_name a \<noteq> block_name b \<Longrightarrow>
   sw b (block_name a) = Inl e \<Longrightarrow> merge_blocks reg sw a b = Inl e"
  by (simp add: merge_blocks_def)

section \<open>Effect on the document\<close>

text \<open>
  C3. Merging into a block whose type declares no \<open>merge\<close> only moves the focus to that
  block: the handler dispatches the focus change alone, and the document (hence its
  block count) is unchanged, whatever the second block is.
\<close>

theorem merge_blocks_without_merge_only_focuses:
  assumes "reg (block_name a) = Some bt" and "bt_merge bt = None"
    and "merge_blocks reg sw a b = Inr es"
  shows "dispatched es = [FocusBlock (uid a) None] \<and> doc_after (dispatched es) doc = doc"
  using assms by (auto simp: merge_blocks_def)

text \<open>
  C4. Merging two adjacent blocks of the same type whose type has a \<open>merge\<close> function
  replaces the pair by the first block with the merged attributes layered over its own
  (the merge result wins key by key) and removes the second block.
\<close>

theorem merge_blocks_same_type_doc:
  assumes "reg (block_name a) = Some bt" "bt_merge bt = Some f" "block_name a = block_name b"
    and "uids_distinct (pre @ a # b # post)"
  shows "\<exists>es. merge_blocks reg sw a b = Inr es \<and>
    doc_after (dispatched es) (pre @ a # b # post) =
      pre @ a\<lparr>attributes := attributes a ++ f (attributes a) (attributes b)\<rparr> # post"
  using assms by (simp add: merge_blocks_same_type replace_blocks_pair)

lemma merge_blocks_converted_doc:
  assumes "reg (block_name a) = Some bt" "bt_merge bt = Some f" "block_name a \<noteq> block_name b"
    and "sw b (block_name a) = Inr (Some (c # rest))"
    and "uids_distinct (pre @ a # b # post)"
  shows "\<exists>es. merge_blocks reg sw a b = Inr es \<and>
    doc_after (dispatched es) (pre @ a # b # post) =
      pre @ a\<lparr>attributes := attributes a ++ f (attributes a) (attributes c)\<rparr> # rest @ post"
  using assms by (simp add: merge_blocks_converted replace_blocks_pair)

text \<open>
  C16. Merging keeps the uids of the document distinct, provided the blocks a conversion
  leaves over beyond the first bring uids of their own (\<open>switchToBlockType\<close> creates
  them).
\<close>

theorem merge_blocks_uids_distinct:
  assumes "merge_blocks reg sw a b = Inr es"
    and "uids_distinct doc" "uid a \<in> set (map uid doc)"
    and "\<And>c rest. sw b (block_name a) = Inr (Some (c # rest)) \<Longrightarrow>
           distinct (uid a # map uid rest) \<and> set (map uid rest) \<inter> set (map uid doc) \<subseteq> {uid b}"
  shows "uids_distinct (doc_after (dispatched es) doc)"
proof -
  have step: "uids_distinct (replace_blocks [uid a, uid b] (a' # rest) doc)"
    if "uid a' = uid a" "distinct (uid a # map uid rest)"
       "set (map uid rest) \<inter> set (map uid doc) \<subseteq> {uid b}" for a' rest
    using that assms(2) by (intro replace_blocks_uids_distinct) auto
  from assms(1,2,4) step [of _ "[]"] step show ?thesis
    by (auto simp: merge_blocks_def Let_def split: option.splits if_splits list.splits sum.splits)
qed

end
