(* ===== verification/Editor_Setup.thy ===== *)
theory Editor_Setup
  imports Block_Document
begin

text \<open>
  \<open>AUTOSAVE\<close> and \<open>SETUP_EDITOR\<close> of \<open>src/editor/effects.js\<close>. Autosave is a chain of
  guards in front of the save action; setup turns the post's raw content (or the
  configured template) into the document, then resets the post. The markup parser is a
  parameter; template blocks take their uids from a supply \<open>fresh\<close> (the i-th call of
  \<open>uuid()\<close>). The lemmas give each guard of autosave, the order of the setup actions and
  the attributes of template blocks.
\<close>

section \<open>AUTOSAVE\<close>

definition autosave :: "editor_state \<Rightarrow> effect list" where
  "autosave st =
     (if \<not> saveable st then []
      else if \<not> is_edited_post_new st \<and> \<not> dirty st then []
      else if is_current_post_published st then []
      else (if is_edited_post_new st then [Dispatch (EditPost [''status'' \<mapsto> JStr ''draft''])] else [])
           @ [Dispatch RequestPostUpdate])"

section \<open>SETUP_EDITOR\<close>

text \<open>
  \<open>map(settings.template, ([name, attributes]) => ...)\<close>: \<open>createBlock(name)\<close>, then the
  template's attributes assigned over the block's own (no schema filtering of them).
\<close>

fun template_blocks ::
  "registry \<Rightarrow> (nat \<Rightarrow> uid) \<Rightarrow> nat \<Rightarrow> (string \<times> attrs) list \<Rightarrow> js_error + block list" where
  "template_blocks reg fresh i [] = Inr []"
| "template_blocks reg fresh i ((nm, a) # ts) =
     (case create_block reg (fresh i) nm Map.empty of
        Inl e \<Rightarrow> Inl e
      | Inr b \<Rightarrow>
          (case template_blocks reg fresh (Suc i) ts of
             Inl e \<Rightarrow> Inl e
           | Inr bs \<Rightarrow> Inr (b\<lparr>attributes := attributes b ++ a\<rparr> # bs)))"

text \<open>The returned effects array; the effects middleware dispatches each in order.\<close>

definition setup_editor ::
  "registry \<Rightarrow> parser \<Rightarrow> (nat \<Rightarrow> uid) \<Rightarrow> post \<Rightarrow> editor_settings \<Rightarrow> js_error + effect list" where
  "setup_editor reg parse fresh post settings =
     (let blockEffects =
        (if content_raw post \<noteq> [] then Inr [Dispatch (ResetBlocks (parse (content_raw post)))]
         else case template settings of
                None \<Rightarrow> Inr []
              | Some t \<Rightarrow>
                  (case template_blocks reg fresh 0 t of
                     Inl e \<Rightarrow> Inl e
                   | Inr blocks \<Rightarrow> Inr [Dispatch (ResetBlocks blocks)]))
      in case blockEffects of
           Inl e \<Rightarrow> Inl e
         | Inr effects \<Rightarrow>
             Inr (effects @ [Dispatch (ResetPost post)]
                  @ (if status post = ''auto-draft''
                     then [Dispatch (SetupNewPost [''title'' \<mapsto> JStr (title_raw post)])]
                     else [])))"

declare autosave_def [effect_simps] setup_editor_def [effect_simps]

section \<open>Autosave\<close>

lemma new_post_not_published: "is_edited_post_new st \<Longrightarrow> \<not> is_current_post_published st"
  by (simp add: is_edited_post_new_def is_current_post_published_def)

text \<open>
  C5. Autosave of a post that is neither new nor dirty dispatches nothing, in particular
  no save.
\<close>

theorem autosave_clean_post:
  "\<not> is_edited_post_new st \<Longrightarrow> \<not> dirty st \<Longrightarrow> autosave st = []"
  by (simp add: autosave_def)

text \<open>
  C6. Autosave of a new (auto-draft) post that is saveable dispatches the edit of its
  status to \<open>draft\<close> and then the save, whether or not it is dirty.
\<close>

theorem autosave_new_post:
  "saveable st \<Longrightarrow> is_edited_post_new st \<Longrightarrow>
   autosave st = [Dispatch (EditPost [''status'' \<mapsto> JStr ''draft'']), Dispatch RequestPostUpdate]"
  by (simp add: autosave_def new_post_not_published)

lemma autosave_unsaveable: "\<not> saveable st \<Longrightarrow> autosave st = []"
  by (simp add: autosave_def)

lemma autosave_published: "is_current_post_published st \<Longrightarrow> autosave st = []"
  by (auto simp: autosave_def new_post_not_published)

lemma autosave_dirty_draft:
  "saveable st \<Longrightarrow> dirty st \<Longrightarrow> \<not> is_edited_post_new st \<Longrightarrow> \<not> is_current_post_published st \<Longrightarrow>
   autosave st = [Dispatch RequestPostUpdate]"
  by (simp add: autosave_def)

section \<open>Setup\<close>

lemma template_blocks_shape:
  "template_blocks reg fresh i t = Inr bs \<Longrightarrow>
   map block_name bs = map fst t \<and> map uid bs = map fresh [i..<i + length t]"
proof (induction reg fresh i t arbitrary: bs rule: template_blocks.induct)
  case (1 reg fresh i)
  then show ?case by simp
next
  case (2 reg fresh i nm a ts)
  then obtain bt bs' where bt: "reg nm = Some bt"
    and rest: "template_blocks reg fresh (Suc i) ts = Inr bs'"
    and bs: "bs = \<lparr>uid = fresh i, block_name = nm,
                   attributes = normalize_attrs (bt_attributes bt) Map.empty ++ a\<rparr> # bs'"
    by (auto simp: create_block_def split: option.splits sum.splits)
  have "[i..<i + length ((nm, a) # ts)] = i # [Suc i..<Suc i + length ts]"
    by (simp del: upt_Suc add: upt_conv_Cons)
  moreover have "create_block reg (fresh i) nm Map.empty =
      Inr \<lparr>uid = fresh i, block_name = nm, attributes = normalize_attrs (bt_attributes bt) Map.empty\<rparr>"
    using bt by (simp add: create_block_def)
  ultimately show ?case
    using "2.IH" [OF _ rest] bs by (simp del: upt_Suc)
qed

lemma template_blocks_attributes:
  "template_blocks reg fresh i t = Inr bs \<Longrightarrow>
   list_all2 (\<lambda>b (nm, a). \<exists>bt. reg nm = Some bt \<and>
                 attributes b = normalize_attrs (bt_attributes bt) Map.empty ++ a) bs t"
proof (induction reg fresh i t arbitrary: bs rule: template_blocks.induct)
  case (1 reg fresh i)
  then show ?case by simp
next
  case (2 reg fresh i nm a ts)
  then show ?case
    by (auto simp: create_block_def split: option.splits sum.splits)
qed

text \<open>
  C7. Setup dispatches exactly, in order: the reset of the blocks to the parsed raw
  content when there is content, else to the template's blocks when there is a template
  (nothing else when there is neither), then the reset of the post, then, for an
  auto-draft only, the title seeded into the edits. The block reset precedes the post
  reset, which restarts the dirty-tracking history.
\<close>

theorem setup_editor_order:
  assumes "setup_editor reg parse fresh post settings = Inr es"
  shows "\<exists>pre. es = map Dispatch (pre @ [ResetPost post]
           @ (if status post = ''auto-draft'' then [SetupNewPost [''title'' \<mapsto> JStr (title_raw post)]] else []))
         \<and> (content_raw post \<noteq> [] \<longrightarrow> pre = [ResetBlocks (parse (content_raw post))])
         \<and> (content_raw post = [] \<and> template settings = None \<longrightarrow> pre = [])
         \<and> (\<forall>t. content_raw post = [] \<and> template settings = Some t \<longrightarrow>
              (\<exists>bs. template_blocks reg fresh 0 t = Inr bs \<and> pre = [ResetBlocks bs]))"
  using assms
  by (auto simp: setup_editor_def split: if_splits option.splits sum.splits)

lemma setup_editor_raw_content:
  "content_raw post \<noteq> [] \<Longrightarrow>
   \<exists>es. setup_editor reg parse fresh post settings = Inr es \<and>
        hd (dispatched es) = ResetBlocks (parse (content_raw post))"
  by (simp add: setup_editor_def)

text \<open>
  C39. The blocks \<open>SETUP_EDITOR\<close> builds from a template are well typed exactly when the
  template entry assigns only attributes its type declares: the template's attributes
  are assigned over \<open>createBlock\<close>'s result without the schema's filtering, so an
  undeclared one is kept and the block does not conform to its type.
\<close>

theorem template_blocks_well_typed_iff:
  assumes "template_blocks reg fresh i t = Inr bs"
  shows "list_all2 (\<lambda>b (nm, a). \<exists>bt. reg nm = Some bt \<and> block_name b = nm
           \<and> (block_well_typed reg b \<longleftrightarrow> dom a \<subseteq> fst ` set (bt_attributes bt))) bs t"
  using assms
proof (induction reg fresh i t arbitrary: bs rule: template_blocks.induct)
  case (1 reg fresh i)
  then show ?case by simp
next
  case (2 reg fresh i nm a ts)
  obtain bt bs' where bt: "reg nm = Some bt"
    and rest: "template_blocks reg fresh (Suc i) ts = Inr bs'"
    and bs: "bs = \<lparr>uid = fresh i, block_name = nm,
                   attributes = normalize_attrs (bt_attributes bt) Map.empty ++ a\<rparr> # bs'"
    using "2.prems" by (auto simp: create_block_def split: option.splits sum.splits)
  have "create_block reg (fresh i) nm Map.empty =
      Inr \<lparr>uid = fresh i, block_name = nm, attributes = normalize_attrs (bt_attributes bt) Map.empty\<rparr>"
    using bt by (simp add: create_block_def)
  with "2.IH" [OF this rest] bs bt show ?case
    by (simp add: block_well_typed_def conforms_override)
qed

end
