(* ===== verification/Meta_Boxes.thy ===== *)
theory Meta_Boxes
  imports Editor_Actions
begin

text \<open>
  \<open>INITIALIZE_META_BOX_STATE\<close> and \<open>META_BOX_LOADED\<close> of \<open>src/editor/effects.js\<close>: the
  jQuery ready event is held while meta boxes load, and released when the last active
  box reports. The handler reads \<open>getMetaBoxes(getState())\<close>, an object from location to
  \<open>{isActive, isLoaded, ...}\<close>, here a list of pairs in key order. The reducer's part,
  marking a location loaded, is modelled from the spec. The effects middleware passes
  each action to the reducer before the handler, so a run of reports feeds each handler
  the state in which its own report is already recorded: the handler then never finds
  its location among the pending boxes, and the lemmas show the hold is never released
  (the spec expects one release, on the last report) and at most once whatever the
  reports.
\<close>

definition meta_box_locations :: "string list" where
  "meta_box_locations = [''normal'', ''side'']"

text \<open>\<open>some(locations, location => !!action.metaBoxes[location])\<close>.\<close>

definition initialize_meta_box_state :: "(string \<rightharpoonup> bool) \<Rightarrow> effect list" where
  "initialize_meta_box_state metaBoxes =
     (if list_ex (\<lambda>location. metaBoxes location = Some True) meta_box_locations
      then [HoldReady True] else [])"

definition unloaded_meta_boxes :: "(string \<times> meta_box) list \<Rightarrow> string list" where
  "unloaded_meta_boxes metaboxes =
     map fst (filter (\<lambda>(key, mb). is_active mb \<and> \<not> is_loaded mb) metaboxes)"

definition meta_box_loaded :: "(string \<times> meta_box) list \<Rightarrow> string \<Rightarrow> effect list" where
  "meta_box_loaded metaboxes location =
     (let unloadedMetaboxes = unloaded_meta_boxes metaboxes
      in if length unloadedMetaboxes = 1 \<and> hd unloadedMetaboxes = location
         then [HoldReady False] else [])"

text \<open>The reducer on \<open>META_BOX_LOADED\<close>: the location is marked loaded.\<close>

definition mark_meta_box_loaded :: "string \<Rightarrow> (string \<times> meta_box) list \<Rightarrow> (string \<times> meta_box) list" where
  "mark_meta_box_loaded location metaboxes =
     map (\<lambda>(key, mb). if key = location then (key, mb\<lparr>is_loaded := True\<rparr>) else (key, mb)) metaboxes"


declare initialize_meta_box_state_def [effect_simps] meta_box_loaded_def [effect_simps]

section \<open>Lemmas\<close>

lemma unloaded_mark_meta_box_loaded:
  "unloaded_meta_boxes (mark_meta_box_loaded l mbs) = filter (\<lambda>k. k \<noteq> l) (unloaded_meta_boxes mbs)"
  by (induction mbs) (auto simp: unloaded_meta_boxes_def mark_meta_box_loaded_def)

text \<open>The location just recorded as loaded is not pending, so its report releases nothing.\<close>

lemma meta_box_loaded_marked: "meta_box_loaded (mark_meta_box_loaded l mbs) l = []"
proof -
  have "l \<notin> set (unloaded_meta_boxes (mark_meta_box_loaded l mbs))"
    by (simp add: unloaded_mark_meta_box_loaded)
  then show ?thesis
    by (cases "unloaded_meta_boxes (mark_meta_box_loaded l mbs)") (auto simp: meta_box_loaded_def)
qed

text \<open>
  C14. When the effect reads the meta box state after the reducer has recorded the load,
  as the middleware runs them, the reporting location is never the one pending box, so
  the report never releases the hold: the release the spec describes would need the
  effect to run before the reducer records the report.
\<close>

theorem meta_box_loaded_after_reducer:
  "meta_box_loaded (mark_meta_box_loaded l mbs) l = []"
  by (rule meta_box_loaded_marked)


end
