(* ===== verification/Reusable_Blocks.thy ===== *)
theory Reusable_Blocks
  imports Block_Document
begin

text \<open>
  The reusable-block handlers of \<open>src/editor/effects.js\<close>: \<open>FETCH_REUSABLE_BLOCKS\<close>,
  \<open>SAVE_REUSABLE_BLOCK\<close>, \<open>CONVERT_BLOCK_TO_STATIC\<close> and \<open>CONVERT_BLOCK_TO_REUSABLE\<close>.
  The requests' callbacks are functions of the server's answer, as for posts. Each
  \<open>uuid()\<close> the handlers cause (in \<open>createBlock\<close> and \<open>createReusableBlock\<close>) is a
  parameter. The lemmas give the normalisation of fetched blocks, the error messages,
  and the actions each conversion dispatches, in order.
\<close>

text \<open>A reusable block as the REST API returns it: \<open>{id, name, content}\<close>.\<close>

record remote_reusable_block =
  rr_id :: string
  rr_name :: string
  rr_content :: string

section \<open>FETCH_REUSABLE_BLOCKS\<close>

definition fetch_reusable_blocks :: "string option \<Rightarrow> effect list" where
  "fetch_reusable_blocks action_id =
     (if truthy_str action_id then [Request (FetchReusableBlockRequest (the action_id))]
      else [Request FetchReusableBlocksRequest])"

text \<open>
  \<open>const [{name: type, attributes}] = parse(content)\<close>: only the first parsed block is
  kept, and content that parses to no block makes the destructuring throw.
\<close>

definition normalize_reusable_block :: "parser \<Rightarrow> remote_reusable_block \<Rightarrow> js_error + reusable_block" where
  "normalize_reusable_block parse r =
     (case parse (rr_content r) of
        [] \<Rightarrow> Inl (TypeError ''parse(content)[0] is undefined'')
      | b # _ \<Rightarrow> Inr \<lparr>rb_id = rr_id r, rb_name = rr_name r,
                      rb_type = block_name b, rb_attributes = attributes b\<rparr>)"

definition fetch_reusable_blocks_done ::
  "parser \<Rightarrow> remote_reusable_block + remote_reusable_block list \<Rightarrow> js_error + effect list" where
  "fetch_reusable_blocks_done parse reusableBlockOrBlocks =
     (case map_throwing (normalize_reusable_block parse) (cast_array reusableBlockOrBlocks) of
        Inl e \<Rightarrow> Inl e
      | Inr reusableBlocks \<Rightarrow> Inr [Dispatch (FetchReusableBlocksSuccess reusableBlocks)])"

text \<open>\<open>error.responseJSON || {code: 'unknown_error', ...}\<close>.\<close>

definition fetch_reusable_blocks_fail :: "xhr_failure \<Rightarrow> effect list" where
  "fetch_reusable_blocks_fail error =
     [Dispatch (FetchReusableBlocksFailure (get_default error unknown_error))]"

section \<open>SAVE_REUSABLE_BLOCK\<close>

text \<open>
  \<open>getReusableBlock(getState(), id)\<close> is destructured, so an unknown id throws; the block
  is rebuilt with \<open>createBlock\<close> (fresh uid \<open>u\<close>) and serialized.
\<close>

definition save_reusable_block ::
  "registry \<Rightarrow> serializer \<Rightarrow> uid \<Rightarrow> editor_state \<Rightarrow> string \<Rightarrow> js_error + effect list" where
  "save_reusable_block reg serialize u st action_id =
     (case get_reusable_block st action_id of
        None \<Rightarrow> Inl (TypeError ''getReusableBlock(state, id) is undefined'')
      | Some rb \<Rightarrow>
          (case create_block reg u (rb_type rb) (rb_attributes rb) of
             Inl e \<Rightarrow> Inl e
           | Inr b \<Rightarrow> Inr [Request (SaveReusableBlockRequest action_id (rb_name rb) (serialize b))]))"

definition save_reusable_block_done :: "string \<Rightarrow> effect list" where
  "save_reusable_block_done action_id =
     [Dispatch (SaveReusableBlockSuccess action_id),
      Dispatch (CreateSuccessNotice (NoticeText ''Reusable block updated'') SAVE_REUSABLE_BLOCK_NOTICE_ID)]"

text \<open>\<open>get(error.responseJSON, 'message', __('An unknown error occured'))\<close>, spelt as in the code.\<close>

definition save_reusable_block_fail :: "string \<Rightarrow> xhr_failure \<Rightarrow> effect list" where
  "save_reusable_block_fail action_id error =
     [Dispatch (SaveReusableBlockFailure action_id),
      Dispatch (CreateErrorNotice
        (NoticeText (case error of
                       None \<Rightarrow> ''An unknown error occured''
                     | Some e \<Rightarrow> get_default (message e) ''An unknown error occured''))
        SAVE_REUSABLE_BLOCK_NOTICE_ID)]"

section \<open>Conversions\<close>

text \<open>
  \<open>getReusableBlock(getState(), oldBlock.attributes.ref)\<close>: the store's reusable blocks
  are an object keyed by id, so the reference is converted to a property key as
  JavaScript does (a number to its decimal string, a missing reference to
  \<open>"undefined"\<close>).
\<close>

definition referenced_reusable_block :: "editor_state \<Rightarrow> block \<Rightarrow> reusable_block option" where
  "referenced_reusable_block st oldBlock =
     get_reusable_block st (js_string (attributes oldBlock ''ref''))"

definition convert_block_to_static ::
  "registry \<Rightarrow> uid \<Rightarrow> editor_state \<Rightarrow> uid \<Rightarrow> js_error + effect list" where
  "convert_block_to_static reg u st blockUid =
     (case get_block st blockUid of
        None \<Rightarrow> Inl (TypeError ''oldBlock is undefined'')
      | Some oldBlock \<Rightarrow>
          (case referenced_reusable_block st oldBlock of
             None \<Rightarrow> Inl (TypeError ''reusableBlock is undefined'')
           | Some reusableBlock \<Rightarrow>
               (case create_block reg u (rb_type reusableBlock) (rb_attributes reusableBlock) of
                  Inl e \<Rightarrow> Inl e
                | Inr newBlock \<Rightarrow> Inr [Dispatch (ReplaceBlocks [uid oldBlock] [newBlock])])))"

text \<open>\<open>createReusableBlock(type, attributes)\<close> of the blocks API, with its fresh id.\<close>

definition create_reusable_block :: "string \<Rightarrow> string \<Rightarrow> attrs \<Rightarrow> reusable_block" where
  "create_reusable_block i type attrs =
     \<lparr>rb_id = i, rb_name = ''Untitled block'', rb_type = type, rb_attributes = attrs\<rparr>"

definition convert_block_to_reusable ::
  "registry \<Rightarrow> string \<Rightarrow> uid \<Rightarrow> editor_state \<Rightarrow> uid \<Rightarrow> js_error + effect list" where
  "convert_block_to_reusable reg rid u st blockUid =
     (case get_block st blockUid of
        None \<Rightarrow> Inl (TypeError ''oldBlock is undefined'')
      | Some oldBlock \<Rightarrow>
          (let reusableBlock = create_reusable_block rid (block_name oldBlock) (attributes oldBlock)
           in case create_block reg u ''core/reusable-block'' [''ref'' \<mapsto> JStr (rb_id reusableBlock)] of
                Inl e \<Rightarrow> Inl e
              | Inr newBlock \<Rightarrow>
                  Inr [Dispatch (UpdateReusableBlock (rb_id reusableBlock) reusableBlock),
                       Dispatch (SaveReusableBlock (rb_id reusableBlock)),
                       Dispatch (ReplaceBlocks [uid oldBlock] [newBlock])]))"

declare fetch_reusable_blocks_def [effect_simps] fetch_reusable_blocks_done_def [effect_simps]
  fetch_reusable_blocks_fail_def [effect_simps] save_reusable_block_def [effect_simps]
  save_reusable_block_done_def [effect_simps] save_reusable_block_fail_def [effect_simps]
  convert_block_to_static_def [effect_simps] convert_block_to_reusable_def [effect_simps]

section \<open>Lemmas\<close>

lemma fetch_reusable_blocks_one:
  "truthy_str i \<Longrightarrow> fetch_reusable_blocks i = [Request (FetchReusableBlockRequest (the i))]"
  by (simp add: fetch_reusable_blocks_def)

lemma fetch_reusable_blocks_all:
  "\<not> truthy_str i \<Longrightarrow> fetch_reusable_blocks i = [Request FetchReusableBlocksRequest]"
  by (simp add: fetch_reusable_blocks_def)

text \<open>
  C17. A successful fetch dispatches one success action whose reusable blocks are the
  fetched items, in order, each reduced to its id, its name, and the type and attributes
  of the first block its content parses to.
\<close>

theorem fetch_reusable_blocks_normalized:
  assumes "fetch_reusable_blocks_done parse res = Inr es"
  shows "\<exists>rbs. dispatched es = [FetchReusableBlocksSuccess rbs] \<and>
    list_all2 (\<lambda>r rb. rb_id rb = rr_id r \<and> rb_name rb = rr_name r \<and>
                  (\<exists>b bs. parse (rr_content r) = b # bs \<and>
                          rb_type rb = block_name b \<and> rb_attributes rb = attributes b))
      (cast_array res) rbs"
proof -
  from assms obtain rbs where
    m: "map_throwing (normalize_reusable_block parse) (cast_array res) = Inr rbs"
    and es: "es = [Dispatch (FetchReusableBlocksSuccess rbs)]"
    by (auto simp: fetch_reusable_blocks_done_def split: sum.splits)
  from m have "list_all2 (\<lambda>r rb. normalize_reusable_block parse r = Inr rb) (cast_array res) rbs"
    by (simp add: map_throwing_Inr)
  then have "list_all2 (\<lambda>r rb. rb_id rb = rr_id r \<and> rb_name rb = rr_name r \<and>
                  (\<exists>b bs. parse (rr_content r) = b # bs \<and>
                          rb_type rb = block_name b \<and> rb_attributes rb = attributes b))
      (cast_array res) rbs"
    by (rule list_all2_mono) (auto simp: normalize_reusable_block_def split: list.splits)
  with es show ?thesis by simp
qed

lemma map_throwing_Inl:
  "x \<in> set xs \<Longrightarrow> (\<exists>e. f x = Inl e) \<Longrightarrow> \<exists>e. map_throwing f xs = Inl e"
  by (induction xs) (auto split: sum.splits)

text \<open>
  C18. One fetched item whose content parses to no block makes the success callback throw:
  no action at all is dispatched for the whole fetch, neither success nor failure.
\<close>

theorem fetch_reusable_blocks_empty_item:
  "r \<in> set (cast_array res) \<Longrightarrow> parse (rr_content r) = [] \<Longrightarrow>
   \<exists>e. fetch_reusable_blocks_done parse res = Inl e"
  using map_throwing_Inl [of r "cast_array res" "normalize_reusable_block parse"]
  by (auto simp: fetch_reusable_blocks_done_def normalize_reusable_block_def split: sum.splits)

text \<open>
  C19. A failed save of a reusable block reports the server's message when the response
  carries one, and the fallback (spelt "occured" in this handler) otherwise.
\<close>

theorem save_reusable_block_fail_message:
  "save_reusable_block_fail i err =
     [Dispatch (SaveReusableBlockFailure i),
      Dispatch (CreateErrorNotice
        (NoticeText (case Option.bind err message of
                       Some m \<Rightarrow> m
                     | None \<Rightarrow> ''An unknown error occured''))
        SAVE_REUSABLE_BLOCK_NOTICE_ID)]"
  by (cases err) (auto simp: save_reusable_block_fail_def split: option.splits)

text \<open>
  C20. Converting a block to a reusable one dispatches, in this order: the store update
  with the new reusable block (the block's type and attributes under the new id), its
  save, and the replacement of the block by a fresh placeholder of type
  \<open>core/reusable-block\<close> whose attributes are \<open>createBlock\<close>'s with \<open>ref\<close> the new id.
\<close>

theorem convert_block_to_reusable_actions:
  assumes "convert_block_to_reusable reg rid u st bu = Inr es"
  shows "\<exists>old rbt. get_block st bu = Some old \<and> uid old = bu \<and> reg ''core/reusable-block'' = Some rbt \<and>
           dispatched es =
             [UpdateReusableBlock rid (create_reusable_block rid (block_name old) (attributes old)),
              SaveReusableBlock rid,
              ReplaceBlocks [bu] [\<lparr>uid = u, block_name = ''core/reusable-block'',
                                  attributes = normalize_attrs (bt_attributes rbt) [''ref'' \<mapsto> JStr rid]\<rparr>]]"
  using assms get_block_Some [of st bu]
  by (auto simp: convert_block_to_reusable_def create_block_def create_reusable_block_def Let_def
           split: option.splits sum.splits)

lemma convert_block_to_static_missing:
  "get_block st bu = None \<Longrightarrow> convert_block_to_static reg u st bu = Inl (TypeError ''oldBlock is undefined'')"
  by (simp add: convert_block_to_static_def)

lemma save_reusable_block_missing:
  "get_reusable_block st i = None \<Longrightarrow> \<exists>e. save_reusable_block reg ser u st i = Inl e"
  by (simp add: save_reusable_block_def)

end
