(* ===== verification/Effects_Router.thy ===== *)
theory Effects_Router
  imports Post_Effects Block_Merge Editor_Setup Meta_Boxes Reusable_Blocks
begin

text \<open>
  How the handlers of \<open>src/editor/effects.js\<close> run together. The module's default
  export maps an action type to its handler; the effects middleware passes each
  dispatched action to the reducer first (\<open>next(action)\<close>) and then to the handler with
  the store, and every \<open>dispatch\<close> a handler makes is processed, reducer and handler,
  before the handler goes on. Here \<open>handle\<close> is the router, \<open>reduce\<close> the part of the
  store's reducer the handlers depend on (modelled from the spec: the document, the
  reusable blocks, the post edits and the meta boxes' loaded flags), and \<open>run\<close> processes a list of pending effects
  depth-first, with fuel. External effects (requests, history, redirect, ready hold)
  are recorded in order in \<open>performed\<close>, and the actions the store has reduced in
  \<open>action_log\<close> (the store's action history, as a Redux monitor records it). A
  handler's exception aborts the whole run, as it propagates out of every enclosing
  \<open>dispatch\<close>.
\<close>

section \<open>Environment and system state\<close>

text \<open>
  What the handlers call outside the store: the block registry, the parser and
  serializer, \<open>switchToBlockType\<close>, \<open>window.history.state.id\<close>, and the values
  successive calls of \<open>uuid()\<close> return.
\<close>

record env =
  env_registry :: registry
  env_parse :: parser
  env_serialize :: serializer
  env_switch :: switcher
  env_history_id :: "int option"
  env_uuid :: "nat \<Rightarrow> string"

record sys =
  store :: editor_state
  uuid_next :: nat
  performed :: "effect list"
  action_log :: "action list"

section \<open>The reducer, as far as the handlers read it\<close>

fun reduce :: "editor_state \<Rightarrow> action \<Rightarrow> editor_state" where
  "reduce st (ReplaceBlocks uids bs) = st\<lparr>doc_blocks := replace_blocks uids bs (doc_blocks st)\<rparr>"
| "reduce st (ResetBlocks bs) = st\<lparr>doc_blocks := bs\<rparr>"
| "reduce st (UpdateReusableBlock i rb) = st\<lparr>reusable_blocks := (reusable_blocks st)(i \<mapsto> rb)\<rparr>"
| "reduce st (FetchReusableBlocksSuccess rbs) =
     st\<lparr>reusable_blocks := fold (\<lambda>rb m. m(rb_id rb \<mapsto> rb)) rbs (reusable_blocks st)\<rparr>"
| "reduce st (EditPost e) = st\<lparr>post_edits := post_edits st ++ e\<rparr>"
| "reduce st (ResetPost p) = st\<lparr>current_post := p\<rparr>"
| "reduce st (MetaBoxLoaded l) = st\<lparr>meta_boxes := mark_meta_box_loaded l (meta_boxes st)\<rparr>"
| "reduce st _ = st"

section \<open>The router\<close>

text \<open>
  \<open>handle env n st a\<close>: the handler of \<open>a\<close> run on the store \<open>st\<close>, with \<open>n\<close> the index of
  the next \<open>uuid()\<close>; it returns the handler's effects and the next index. Action types
  without a handler give no effect.
\<close>

definition with_uuids :: "nat \<Rightarrow> js_error + effect list \<Rightarrow> js_error + effect list \<times> nat" where
  "with_uuids n r = (case r of Inl e \<Rightarrow> Inl e | Inr es \<Rightarrow> Inr (es, n))"

definition setup_uuids :: "post \<Rightarrow> editor_settings \<Rightarrow> nat" where
  "setup_uuids post settings =
     (if content_raw post \<noteq> [] then 0
      else case template settings of None \<Rightarrow> 0 | Some t \<Rightarrow> length t)"

fun handle :: "env \<Rightarrow> nat \<Rightarrow> editor_state \<Rightarrow> action \<Rightarrow> js_error + effect list \<times> nat" where
  "handle env n st RequestPostUpdate = Inr (request_post_update st, n)"
| "handle env n st (RequestPostUpdateSuccess previousPost post _) =
     Inr (request_post_update_success (env_history_id env) st previousPost post, n)"
| "handle env n st (RequestPostUpdateFailure error post edits _) =
     Inr (request_post_update_failure error post edits, n)"
| "handle env n st (TrashPost postId postType) = Inr (trash_post st postId postType, n)"
| "handle env n st (TrashPostSuccess postId postType) = Inr (trash_post_success postId postType, n)"
| "handle env n st (TrashPostFailure _ _ error) = Inr (trash_post_failure error, n)"
| "handle env n st (MergeBlocks blockA blockB) =
     with_uuids n (merge_blocks (env_registry env) (env_switch env) blockA blockB)"
| "handle env n st Autosave = Inr (autosave st, n)"
| "handle env n st (SetupEditor post settings) =
     with_uuids (n + setup_uuids post settings)
       (setup_editor (env_registry env) (env_parse env) (\<lambda>i. env_uuid env (n + i)) post settings)"
| "handle env n st (InitializeMetaBoxState metaBoxes) = Inr (initialize_meta_box_state metaBoxes, n)"
| "handle env n st (MetaBoxLoaded location) = Inr (meta_box_loaded (meta_boxes st) location, n)"
| "handle env n st (FetchReusableBlocks i) = Inr (fetch_reusable_blocks i, n)"
| "handle env n st (SaveReusableBlock i) =
     with_uuids (Suc n)
       (save_reusable_block (env_registry env) (env_serialize env) (env_uuid env n) st i)"
| "handle env n st (ConvertBlockToStatic u) =
     with_uuids (Suc n) (convert_block_to_static (env_registry env) (env_uuid env n) st u)"
| "handle env n st (ConvertBlockToReusable u) =
     with_uuids (Suc (Suc n))
       (convert_block_to_reusable (env_registry env) (env_uuid env n) (env_uuid env (Suc n)) st u)"
| "handle env n st _ = Inr ([], n)"

section \<open>Running effects\<close>

text \<open>
  One unit of fuel per effect processed. A dispatched action is reduced, its handler's
  effects are put in front of the pending ones (they run before the dispatching handler
  continues); any other effect is performed.
\<close>

fun run :: "nat \<Rightarrow> env \<Rightarrow> sys \<Rightarrow> effect list \<Rightarrow> (js_error + sys) option" where
  "run 0 env s es = None"
| "run (Suc k) env s [] = Some (Inr s)"
| "run (Suc k) env s (Dispatch a # es) =
     (let st' = reduce (store s) a
      in case handle env (uuid_next s) st' a of
           Inl e \<Rightarrow> Some (Inl e)
         | Inr (effs, n') \<Rightarrow>
             run k env (s\<lparr>store := st', uuid_next := n', action_log := action_log s @ [a]\<rparr>)
               (effs @ es))"
| "run (Suc k) env s (e # es) = run k env (s\<lparr>performed := performed s @ [e]\<rparr>) es"

definition dispatch :: "nat \<Rightarrow> env \<Rightarrow> sys \<Rightarrow> action \<Rightarrow> (js_error + sys) option" where
  "dispatch fuel env s a = run fuel env s [Dispatch a]"

section \<open>Lemmas: the conversions through the run loop\<close>

lemma with_uuids_Inr [simp]: "with_uuids n (Inr es) = Inr (es, n)"
  by (simp add: with_uuids_def)

text \<open>
  Dispatching \<open>CONVERT_BLOCK_TO_REUSABLE\<close> on a block of the document: the store gains the
  new reusable block, the block is replaced by the placeholder, and the save request of
  the reusable block is started; six effects are processed.
\<close>

lemma dispatch_convert_block_to_reusable:
  assumes doc: "doc_blocks (store s) = pre @ b # post" and dist: "uids_distinct (pre @ b # post)"
    and bt: "env_registry env (block_name b) = Some bt"
    and rbt: "env_registry env ''core/reusable-block'' = Some rbt"
  defines "rid \<equiv> env_uuid env (uuid_next s)"
  defines "p \<equiv> \<lparr>uid = env_uuid env (Suc (uuid_next s)), block_name = ''core/reusable-block'',
               attributes = normalize_attrs (bt_attributes rbt) [''ref'' \<mapsto> JStr rid]\<rparr>"
  shows "\<exists>s1. dispatch 6 env s (ConvertBlockToReusable (uid b)) = Some (Inr s1)
           \<and> doc_blocks (store s1) = pre @ p # post
           \<and> reusable_blocks (store s1) rid = Some (create_reusable_block rid (block_name b) (attributes b))"
proof -
  let ?rb = "create_reusable_block rid (block_name b) (attributes b)"
  have conv: "convert_block_to_reusable (env_registry env) rid (env_uuid env (Suc (uuid_next s)))
      (store s) (uid b) =
     Inr [Dispatch (UpdateReusableBlock rid ?rb), Dispatch (SaveReusableBlock rid),
          Dispatch (ReplaceBlocks [uid b] [p])]"
    using get_block_in_doc [OF doc dist] rbt
    by (simp add: convert_block_to_reusable_def create_block_def create_reusable_block_def p_def)
  have save: "\<exists>c. save_reusable_block (env_registry env) (env_serialize env)
      (env_uuid env (Suc (Suc (uuid_next s))))
      ((store s)\<lparr>reusable_blocks := (reusable_blocks (store s))(rid \<mapsto> ?rb)\<rparr>) rid =
      Inr [Request (SaveReusableBlockRequest rid ''Untitled block'' c)]"
    using bt by (simp add: save_reusable_block_def get_reusable_block_def create_block_def
                           create_reusable_block_def)
  have rep: "replace_blocks [uid b] [p] (pre @ b # post) = pre @ p # post"
    using replace_blocks_single [OF dist, of "[p]"] by simp
  from save obtain c where "save_reusable_block (env_registry env) (env_serialize env)
      (env_uuid env (Suc (Suc (uuid_next s))))
      ((store s)\<lparr>reusable_blocks := (reusable_blocks (store s))(rid \<mapsto> ?rb)\<rparr>) rid =
      Inr [Request (SaveReusableBlockRequest rid ''Untitled block'' c)]" ..
  with conv rep doc show ?thesis
    by (simp add: dispatch_def numeral_eq_Suc Let_def rid_def)
qed

text \<open>
  Dispatching \<open>CONVERT_BLOCK_TO_STATIC\<close> on a placeholder whose reference is in the store:
  the placeholder is replaced by a fresh block of the reusable block's type, with the
  attributes \<open>createBlock\<close> makes of the reusable block's; three effects are processed.
\<close>

lemma dispatch_convert_block_to_static:
  assumes doc: "doc_blocks (store s) = pre @ p # post" and dist: "uids_distinct (pre @ p # post)"
    and ref: "attributes p ''ref'' = Some (JStr rid)"
    and rb: "reusable_blocks (store s) rid = Some rb"
    and bt: "env_registry env (rb_type rb) = Some bt"
  shows "\<exists>s2. dispatch 3 env s (ConvertBlockToStatic (uid p)) = Some (Inr s2)
           \<and> doc_blocks (store s2) =
               pre @ \<lparr>uid = env_uuid env (uuid_next s), block_name = rb_type rb,
                      attributes = normalize_attrs (bt_attributes bt) (rb_attributes rb)\<rparr> # post"
proof -
  let ?b' = "\<lparr>uid = env_uuid env (uuid_next s), block_name = rb_type rb,
              attributes = normalize_attrs (bt_attributes bt) (rb_attributes rb)\<rparr>"
  have conv: "convert_block_to_static (env_registry env) (env_uuid env (uuid_next s)) (store s) (uid p) =
      Inr [Dispatch (ReplaceBlocks [uid p] [?b'])]"
    using get_block_in_doc [OF doc dist] ref rb bt
    by (simp add: convert_block_to_static_def referenced_reusable_block_def get_reusable_block_def js_string_def
                  create_block_def)
  with doc replace_blocks_single [OF dist, of "[?b']"] show ?thesis
    by (simp add: dispatch_def numeral_eq_Suc Let_def)
qed

end
