(* ===== verification/Quote_Block.thy ===== *)
theory Quote_Block
  imports Block_Document
begin

text \<open>
  The quote block of \<open>src/blocks/library/quote/index.js\<close>: its attribute schema, the
  conversions between the block's \<open>value\<close> and the rich-text editor's value, the
  transforms from and to paragraphs and headings, the attribute updates of its edit
  view, and the markup \<open>save\<close> renders. Attributes are the generic \<open>attrs\<close> of the
  development, so the transforms are run on whatever a block holds: reading a property
  of \<open>undefined\<close> or \<open>null\<close> is a \<open>TypeError\<close>, as in the source. A React element
  \<open><p key="1">{c}</p>\<close> is the object \<open>{type, key, props: {children: c}}\<close> React creates.
  The lemmas give each branch of the transform to a paragraph, the round trip through
  the quote, the round trip of the editable value, and the rendered markup.
\<close>

text \<open>The element \<open><p key={key}>{c}</p>\<close>; an \<open>undefined\<close> child leaves \<open>children\<close> unset.\<close>

definition p_elem :: "jval \<Rightarrow> jval option \<Rightarrow> jval" where
  "p_elem key c =
     JObj [(''type'', JStr ''p''), (''key'', key),
           (''props'', JObj (case c of None \<Rightarrow> [] | Some x \<Rightarrow> [(''children'', x)]))]"

section \<open>Schema and editable value\<close>

definition quote_schema :: "(string \<times> jval option) list" where
  "quote_schema =
     [(''value'', Some (JArr [])), (''citation'', None), (''align'', None), (''style'', Some (JNum 1))]"

text \<open>The quote has no \<open>merge\<close>: merging into it only moves the focus.\<close>

definition quote_block_type :: block_type where
  "quote_block_type = \<lparr>bt_attributes = quote_schema, bt_merge = None\<rparr>"

text \<open>\<open>toEditableValue\<close>: \<open>value.map(subValue => subValue.children)\<close>.\<close>

definition to_editable_value :: "jval list \<Rightarrow> js_error + jval option list" where
  "to_editable_value value = map_throwing (\<lambda>subValue. js_prop (Some subValue) ''children'') value"

text \<open>\<open>fromEditableValue\<close>: \<open>value.map(subValue => ({children: subValue}))\<close>.\<close>

definition from_editable_value :: "jval list \<Rightarrow> jval list" where
  "from_editable_value value = map (\<lambda>subValue. JObj [(''children'', subValue)]) value"

section \<open>Transforms\<close>

text \<open>
  A transform returns one block or an array of blocks (\<open>Inl\<close> and \<open>Inr\<close> of the inner
  sum); the \<open>i\<close>-th \<open>createBlock\<close> it makes takes the uid \<open>fresh i\<close>.
\<close>

type_synonym transform_fn = "registry \<Rightarrow> (nat \<Rightarrow> uid) \<Rightarrow> attrs \<Rightarrow> js_error + (block + block list)"

datatype transform =
    BlockTransform "string list" transform_fn
  | PatternTransform string transform_fn
  | RawTransform "string \<Rightarrow> bool"

text \<open>
  The transform of the three \<open>from\<close> entries (paragraph, heading, and the pattern of
  a line that starts with \<open>>\<close> and a blank, whose regular expression is written with the
  backslash character \<open>CHR 0x5C\<close>):
  \<open>({content}) => createBlock('core/quote', {value: [{children: <p key="1">{content}</p>}]})\<close>.
\<close>

definition quote_from_content :: transform_fn where
  "quote_from_content reg fresh a =
     map_sum id Inl (create_block reg (fresh 0) ''core/quote''
       [''value'' \<mapsto> JArr [JObj [(''children'', p_elem (JStr ''1'') (a ''content''))]]])"

definition quote_transforms_from :: "transform list" where
  "quote_transforms_from =
     [BlockTransform [''core/paragraph''] quote_from_content,
      BlockTransform [''core/heading''] quote_from_content,
      PatternTransform (''^>'' @ [CHR 0x5C, CHR ''s'']) quote_from_content,
      RawTransform (\<lambda>nodeName. nodeName = ''BLOCKQUOTE'')]"

text \<open>
  The transform of the two \<open>to\<close> entries, with \<open>target\<close> \<open>core/paragraph\<close> or
  \<open>core/heading\<close>: the first paragraph of the quote becomes a block of the target type,
  and what remains of the quote (its other paragraphs, its citation, alignment and
  style) becomes a second quote block.
\<close>

definition quote_to :: "string \<Rightarrow> transform_fn" where
  "quote_to target reg fresh a =
     (let value = a ''value''; citation = a ''citation'';
          rest = a |` (- {''value'', ''citation''})
      in js_bind (js_first value) (\<lambda>textElement.
           if \<not> js_truthy textElement
           then map_sum id Inl (create_block reg (fresh 0) target (Map.empty(''content'' := citation)))
           else js_bind (js_prop textElement ''children'') (\<lambda>children.
             js_bind (if is_string children then Inr children
                      else js_bind (js_prop children ''props'') (\<lambda>props. js_prop props ''children''))
               (\<lambda>textContent.
                 if is_array value \<or> js_truthy citation
                 then js_bind (create_block reg (fresh 0) target (Map.empty(''content'' := textContent)))
                        (\<lambda>text. js_bind (create_block reg (fresh 1) ''core/quote''
                                           (rest ++ Map.empty(''citation'' := citation)
                                                 ++ [''value'' \<mapsto> (if is_array value then slice1 value else JArr [])]))
                                 (\<lambda>quote. Inr (Inr [text, quote])))
                 else map_sum id Inl (create_block reg (fresh 0) target (Map.empty(''content'' := textContent)))))))"

definition quote_transforms_to :: "transform list" where
  "quote_transforms_to =
     [BlockTransform [''core/paragraph''] (quote_to ''core/paragraph''),
      BlockTransform [''core/heading''] (quote_to ''core/heading'')]"

section \<open>Edit view\<close>

text \<open>
  \<open>focus ? focus.editable || 'value' : null\<close>: which of the two rich-text fields has the
  focus.
\<close>

definition focused_editable :: "attrs option \<Rightarrow> jval option" where
  "focused_editable focus =
     (case focus of
        None \<Rightarrow> None
      | Some f \<Rightarrow> Some (if js_truthy (f ''editable'') then the (f ''editable'') else JStr ''value''))"

text \<open>
  \<open>v.length > 0\<close> on a truthy value: the length of an array or a string; an object's own
  numeric (or boolean) \<open>length\<close>; \<open>undefined > 0\<close>, false, for numbers and booleans.
\<close>

fun js_length_positive :: "jval option \<Rightarrow> bool" where
  "js_length_positive (Some (JArr xs)) = (xs \<noteq> [])"
| "js_length_positive (Some (JStr s)) = (s \<noteq> [])"
| "js_length_positive (Some (JObj kvs)) =
     (case map_of kvs ''length'' of Some (JNum n) \<Rightarrow> 0 < n | Some (JBool b) \<Rightarrow> b | _ \<Rightarrow> False)"
| "js_length_positive _ = False"

text \<open>
  The citation field is shown when there is a citation or the block has the focus:
  \<open>(citation && citation.length > 0) || !!focus\<close>.
\<close>

definition quote_footer_shown :: "attrs \<Rightarrow> attrs option \<Rightarrow> bool" where
  "quote_footer_shown a focus =
     ((js_truthy (a ''citation'') \<and> js_length_positive (a ''citation'')) \<or> focus \<noteq> None)"

text \<open>
  The \<open>setAttributes\<close> calls of the edit view: the style toolbar (variations 1 and 2),
  the alignment toolbar, the quote's rich text and the citation's rich text. An update
  is a list of keys with their new values, \<open>None\<close> setting a key to \<open>undefined\<close>.
\<close>

datatype quote_edit =
    SetStyle int
  | SetAlign "jval option"
  | ChangeValue "jval list"
  | ChangeCitation "jval option"

definition quote_edit_update :: "quote_edit \<Rightarrow> (string \<times> jval option) list" where
  "quote_edit_update e =
     (case e of
        SetStyle variation \<Rightarrow> [(''style'', Some (JNum variation))]
      | SetAlign nextAlign \<Rightarrow> [(''align'', nextAlign)]
      | ChangeValue nextValue \<Rightarrow> [(''value'', Some (JArr (from_editable_value nextValue)))]
      | ChangeCitation nextCitation \<Rightarrow> [(''citation'', nextCitation)])"

text \<open>\<open>updateBlockAttributes\<close>: \<open>{...block.attributes, ...attributes}\<close>.\<close>

definition set_attributes :: "attrs \<Rightarrow> (string \<times> jval option) list \<Rightarrow> attrs" where
  "set_attributes a upd = fold (\<lambda>(k, v) m. m(k := v)) upd a"

section \<open>Save\<close>

text \<open>
  What \<open>save\<close> renders, before serialization: a value React renders as text (or not at
  all, when falsy), or an element with its props and children.
\<close>

datatype rnode = RVal "jval option" | RElem string "(string \<times> jval) list" "rnode list"

text \<open>\<open>paragraph.children && paragraph.children.props.children\<close>.\<close>

definition save_paragraph_content :: "jval \<Rightarrow> js_error + jval option" where
  "save_paragraph_content paragraph =
     js_bind (js_prop (Some paragraph) ''children'') (\<lambda>children.
       if js_truthy children
       then js_bind (js_prop children ''props'') (\<lambda>props. js_prop props ''children'')
       else Inr children)"

definition quote_save :: "attrs \<Rightarrow> js_error + rnode" where
  "quote_save a =
     (let align = a ''align''; value = a ''value''; citation = a ''citation''; style = a ''style''
      in js_bind
           (case value of
              Some (JArr xs) \<Rightarrow>
                map_throwing (\<lambda>(i, paragraph).
                    js_bind (save_paragraph_content paragraph)
                      (\<lambda>c. Inr (RElem ''p'' [(''key'', JNum (int i))] [RVal c])))
                  (enumerate 0 xs)
            | _ \<Rightarrow> Inl (TypeError ''value.map is not a function''))
           (\<lambda>paragraphs.
              Inr (RElem ''blockquote''
                     [(''className'', JStr (''blocks-quote-style-'' @ js_string style)),
                      (''style'', JObj [(''textAlign'', if js_truthy align then the align else JNull)])]
                     (paragraphs @
                      [if \<not> js_truthy citation then RVal citation
                       else if \<not> js_length_positive citation then RVal (Some (JBool False))
                       else RElem ''footer'' [] [RVal citation]]))))"

section \<open>Lemmas\<close>

lemma quote_from_content_block:
  "reg ''core/quote'' = Some quote_block_type \<Longrightarrow>
   quote_from_content reg fresh a =
     Inr (Inl \<lparr>uid = fresh 0, block_name = ''core/quote'',
               attributes = [''value'' \<mapsto> JArr [JObj [(''children'', p_elem (JStr ''1'') (a ''content''))]],
                             ''style'' \<mapsto> JNum 1]\<rparr>)"
  by (simp add: quote_from_content_def create_block_def quote_block_type_def quote_schema_def
                normalize_attrs_def)

lemma quote_to_elem_first:
  assumes "a ''value'' = Some (JArr (JObj kvs # xs))" "map_of kvs ''children'' = Some (p_elem k (Some c))"
  shows "quote_to t reg fresh a =
     js_bind (create_block reg (fresh 0) t [''content'' \<mapsto> c]) (\<lambda>text.
       js_bind (create_block reg (fresh 1) ''core/quote''
                  (a |` (- {''value'', ''citation''}) ++ Map.empty(''citation'' := a ''citation'')
                     ++ [''value'' \<mapsto> JArr xs]))
         (\<lambda>quote. Inr (Inr [text, quote])))"
  using assms
  by (simp add: quote_to_def js_first_def js_prop_def is_string_def is_array_def slice1_def p_elem_def)

text \<open>
  Converting a quote whose value is empty gives one block of the target type
  whose content is the quote's citation (\<open>undefined\<close> when there is none).
\<close>

lemma quote_to_empty_value:
  "a ''value'' = Some (JArr []) \<Longrightarrow> reg t = Some tt \<Longrightarrow>
   quote_to t reg fresh a =
     Inr (Inl \<lparr>uid = fresh 0, block_name = t,
               attributes = normalize_attrs (bt_attributes tt) (Map.empty(''content'' := a ''citation''))\<rparr>)"
  by (simp add: quote_to_def js_first_def create_block_def)

text \<open>
  C22. For a quote whose value is an array, the transform returns a single block only
  through its first branch (empty value or falsy first paragraph): the final branch,
  which would drop the citation, is unreachable, as \<open>Array.isArray(value)\<close> holds.
\<close>

theorem quote_to_single_block:
  assumes "is_array (a ''value'')" "quote_to t reg fresh a = Inr (Inl b)"
  shows "\<exists>tt. reg t = Some tt \<and>
     b = \<lparr>uid = fresh 0, block_name = t,
          attributes = normalize_attrs (bt_attributes tt) (Map.empty(''content'' := a ''citation''))\<rparr>"
  using assms
  by (auto simp: quote_to_def js_first_def is_array_def create_block_def js_bind_def Let_def
           split: option.splits jval.splits if_splits sum.splits)

text \<open>
  C24. A quote whose first paragraph is an object without \<open>children\<close> makes the
  transform throw, reading \<open>props\<close> of \<open>undefined\<close>.
\<close>

theorem quote_to_missing_children:
  "a ''value'' = Some (JArr (JObj kvs # xs)) \<Longrightarrow> map_of kvs ''children'' = None \<Longrightarrow>
   quote_to t reg fresh a = Inl (TypeError ''Cannot read property props of undefined'')"
  by (simp add: quote_to_def js_first_def js_prop_def is_string_def)

text \<open>
  The rich-text value handed back by the editor is read again unchanged:
  \<open>toEditableValue(fromEditableValue(v))\<close> is \<open>v\<close>.
\<close>

lemma editable_value_round_trip:
  "to_editable_value (from_editable_value xs) = Inr (map Some xs)"
  by (simp add: to_editable_value_def from_editable_value_def map_throwing_Inr js_prop_def
                list_all2_map1 list_all2_map2 list_all2_refl)


text \<open>
  C21. Converting a paragraph to a quote and the quote back to a paragraph gives the
  paragraph's content back, followed by a second, empty quote block (value \<open>[]\<close>,
  default style): the round trip does not restore a single paragraph.
\<close>

theorem quote_paragraph_round_trip:
  assumes reg_q: "reg ''core/quote'' = Some quote_block_type"
    and reg_p: "reg ''core/paragraph'' = Some pt"
    and content: "''content'' \<in> fst ` set (bt_attributes pt)"
    and c: "a ''content'' = Some c"
  shows "\<exists>q text q'. quote_from_content reg fresh a = Inr (Inl q)
     \<and> quote_to ''core/paragraph'' reg fresh' (attributes q) = Inr (Inr [text, q'])
     \<and> block_name text = ''core/paragraph'' \<and> attributes text ''content'' = Some c
     \<and> block_name q' = ''core/quote'' \<and> attributes q' = [''value'' \<mapsto> JArr [], ''style'' \<mapsto> JNum 1]"
proof -
  let ?q = "\<lparr>uid = fresh 0, block_name = ''core/quote'',
             attributes = [''value'' \<mapsto> JArr [JObj [(''children'', p_elem (JStr ''1'') (a ''content''))]],
                           ''style'' \<mapsto> JNum 1]\<rparr>"
  have q: "quote_from_content reg fresh a = Inr (Inl ?q)"
    using reg_q by (rule quote_from_content_block)
  have "quote_to ''core/paragraph'' reg fresh' (attributes ?q) =
     js_bind (create_block reg (fresh' 0) ''core/paragraph'' [''content'' \<mapsto> c]) (\<lambda>text.
       js_bind (create_block reg (fresh' 1) ''core/quote''
                  (attributes ?q |` (- {''value'', ''citation''}) ++ Map.empty(''citation'' := None)
                     ++ [''value'' \<mapsto> JArr []]))
         (\<lambda>quote. Inr (Inr [text, quote])))"
    using quote_to_elem_first [of "attributes ?q" "[(''children'', p_elem (JStr ''1'') (Some c))]" "[]"] c
    by simp
  moreover have "attributes ?q |` (- {''value'', ''citation''}) = [''style'' \<mapsto> JNum 1]"
    by (auto simp: restrict_map_def)
  ultimately show ?thesis
    using q reg_q reg_p normalize_attrs_declared [OF content, of "[''content'' \<mapsto> c]"]
    by (simp add: create_block_def quote_block_type_def quote_schema_def normalize_attrs_def)
qed

text \<open>
  Rendering the paragraphs that the transforms create: each is a \<open>p\<close> element with
  its index as key and the paragraph's content as child.
\<close>

lemma map_throwing_enumerate_paragraphs:
  "map_throwing (\<lambda>(i, paragraph). js_bind (save_paragraph_content paragraph)
                   (\<lambda>c. Inr (RElem ''p'' [(''key'', JNum (int i))] [RVal c])))
     (enumerate n (map (\<lambda>c. JObj [(''children'', p_elem k (Some c))]) cs)) =
   Inr (map (\<lambda>(i, c). RElem ''p'' [(''key'', JNum (int i))] [RVal (Some c)]) (enumerate n cs))"
  by (induction cs arbitrary: n)
     (simp_all add: save_paragraph_content_def js_prop_def p_elem_def)

text \<open>
  C26. \<open>save\<close> of a quote whose paragraphs are elements and whose citation is a
  non-empty array renders a \<open>blockquote\<close> with the style class, the alignment as
  \<open>textAlign\<close>, one \<open>p\<close> per paragraph in order, and the citation in a \<open>footer\<close>.
\<close>

theorem quote_save_markup:
  assumes "a ''value'' = Some (JArr (map (\<lambda>c. JObj [(''children'', p_elem k (Some c))]) cs))"
    and "a ''citation'' = Some (JArr (x # xs))"
  shows "quote_save a =
    Inr (RElem ''blockquote''
          [(''className'', JStr (''blocks-quote-style-'' @ js_string (a ''style''))),
           (''style'', JObj [(''textAlign'', if js_truthy (a ''align'') then the (a ''align'') else JNull)])]
          (map (\<lambda>(i, c). RElem ''p'' [(''key'', JNum (int i))] [RVal (Some c)]) (enumerate 0 cs)
           @ [RElem ''footer'' [] [RVal (a ''citation'')]]))"
  using assms by (simp add: quote_save_def map_throwing_enumerate_paragraphs)

text \<open>
  C27. A quote paragraph whose \<open>children\<close> is a plain string is accepted by the
  transform to a paragraph (which tests \<open>isString\<close>), but \<open>save\<close> throws on it, as it
  reads \<open>props.children\<close> of the string.
\<close>

theorem quote_string_child_save_error:
  assumes "reg ''core/paragraph'' = Some pt" "reg ''core/quote'' = Some quote_block_type"
    and "a ''value'' = Some (JArr [JObj [(''children'', JStr s)]])" and "s \<noteq> []"
  shows "(\<exists>bs. quote_to ''core/paragraph'' reg fresh a = Inr (Inr bs)) \<and>
         quote_save a = Inl (TypeError ''Cannot read property children of undefined'')"
  using assms
  by (simp add: quote_to_def quote_save_def save_paragraph_content_def js_first_def js_prop_def
                is_string_def is_array_def create_block_def)

text \<open>
  After the quote's rich text reports a new value, the block stores
  \<open>fromEditableValue\<close> of it, and the editor is given back exactly that value.
\<close>

lemma quote_edit_value_round_trip:
  "set_attributes a (quote_edit_update (ChangeValue nv)) ''value'' = Some (JArr (from_editable_value nv)) \<and>
   to_editable_value (from_editable_value nv) = Inr (map Some nv)"
  by (simp add: set_attributes_def quote_edit_update_def editable_value_round_trip)

end
