(* ===== verification/Examples.thy ===== *)
theory Examples
  imports Effects_Router Quote_Block
begin

text \<open>
  Concrete editor data on which the properties are instantiated: a registry with a
  mergeable paragraph type, a separator type without \<open>merge\<close> and the reusable-block
  placeholder type and the quote type; two paragraph blocks, a one-paragraph quote; an auto-draft post; a store with two pending
  meta boxes; an environment whose \<open>uuid()\<close> returns \<open>uuid-0\<close>, \<open>uuid-1\<close>, \<dots>
\<close>

definition ex_paragraph_type :: block_type where
  "ex_paragraph_type =
     \<lparr>bt_attributes = [(''a'', None), (''b'', None), (''content'', None)],
      bt_merge = Some (\<lambda>x y. [''a'' \<mapsto> JNum 1])\<rparr>"

definition ex_separator_type :: block_type where
  "ex_separator_type = \<lparr>bt_attributes = [], bt_merge = None\<rparr>"

definition ex_placeholder_type :: block_type where
  "ex_placeholder_type = \<lparr>bt_attributes = [(''ref'', None)], bt_merge = None\<rparr>"

definition ex_registry :: registry where
  "ex_registry =
     [''core/paragraph'' \<mapsto> ex_paragraph_type,
      ''core/separator'' \<mapsto> ex_separator_type,
      ''core/reusable-block'' \<mapsto> ex_placeholder_type,
      ''core/quote'' \<mapsto> quote_block_type]"

definition ex_block_a :: block where
  "ex_block_a = \<lparr>uid = ''A'', block_name = ''core/paragraph'', attributes = [''a'' \<mapsto> JNum 0, ''b'' \<mapsto> JNum 2]\<rparr>"

definition ex_block_b :: block where
  "ex_block_b = \<lparr>uid = ''B'', block_name = ''core/paragraph'', attributes = [''a'' \<mapsto> JNum 5]\<rparr>"

definition ex_separator :: block where
  "ex_separator = \<lparr>uid = ''S'', block_name = ''core/separator'', attributes = Map.empty\<rparr>"

definition ex_quote_block :: block where
  "ex_quote_block =
     \<lparr>uid = ''Q'', block_name = ''core/quote'',
      attributes = [''value'' \<mapsto> JArr [JObj [(''children'', p_elem (JStr ''1'') (Some (JStr ''Hi'')))]],
                    ''style'' \<mapsto> JNum 1]\<rparr>"

definition ex_post :: post where
  "ex_post = \<lparr>post_id = 7, status = ''auto-draft'', link = ''http://example.org/?p=7'',
              content_raw = [], title_raw = ''Hello''\<rparr>"

definition ex_pending_box :: meta_box where
  "ex_pending_box = \<lparr>is_active = True, is_loaded = False, is_dirty = False\<rparr>"

definition ex_state :: editor_state where
  "ex_state =
     \<lparr>current_post = ex_post, current_post_type = ''post'', post_edits = Map.empty,
      edited_post_content = [], saveable = True, dirty = False, scheduled_in_past = False,
      meta_boxes = [(''A'', ex_pending_box), (''B'', ex_pending_box)],
      doc_blocks = [ex_block_a, ex_block_b], reusable_blocks = Map.empty\<rparr>"

definition ex_env :: env where
  "ex_env =
     \<lparr>env_registry = ex_registry, env_parse = (\<lambda>_. []), env_serialize = (\<lambda>_. []),
      env_switch = (\<lambda>_ _. Inr None), env_history_id = None,
      env_uuid = (\<lambda>n. ''uuid-'' @ nat_to_string n)\<rparr>"

definition ex_sys :: sys where
  "ex_sys = \<lparr>store = ex_state, uuid_next = 0, performed = [], action_log = []\<rparr>"

text \<open>Two reusable blocks as the REST API returns them.\<close>

definition ex_fetched :: "remote_reusable_block list" where
  "ex_fetched = [\<lparr>rr_id = ''r1'', rr_name = ''Greeting'', rr_content = ''<!-- wp:paragraph /-->''\<rparr>,
                 \<lparr>rr_id = ''r2'', rr_name = ''Other'', rr_content = ''<!-- wp:paragraph /-->''\<rparr>]"

text \<open>The save request \<open>REQUEST_POST_UPDATE\<close> starts on \<open>ex_state\<close>, and the system after it.\<close>

definition ex_save_request :: request where
  "ex_save_request = SavePostRequest (current_post_type ex_state) (post_to_send ex_state)
     (current_post ex_state) (post_edits ex_state)"

definition ex_saving_sys :: sys where
  "ex_saving_sys = ex_sys\<lparr>performed := [Request ex_save_request],
     action_log := [RequestPostUpdate, UpdatePost (post_to_send ex_state) (Begin POST_UPDATE_TRANSACTION_ID),
                    RemoveNotice SAVE_POST_NOTICE_ID]\<rparr>"

end
