(* ===== verification/Block_Switch.thy ===== *)
theory Block_Switch
  imports Block_Merge Quote_Block
begin

text \<open>
  \<open>switchToBlockType(block, name)\<close> of the blocks API (outside the repository, modelled
  from its interface: the registry's per-type transforms): the first \<open>block\<close> transform
  of the source type's \<open>to\<close> list naming the target, else the first of the target
  type's \<open>from\<close> list naming the source, is applied to the block's attributes; a
  result that is not an array is cast to one; \<open>null\<close> when no transform applies, when
  a result has an unregistered type, or when none has the target type; the first block
  of the target type takes over the source block's uid. With the quote's transforms it
  is the switcher that \<open>MERGE_BLOCKS\<close> calls, and the lemma of this theory follows a
  quote through a merge.
\<close>

type_synonym transform_table = "string \<Rightarrow> transform list \<times> transform list"

fun first_block_transform :: "string \<Rightarrow> transform list \<Rightarrow> transform_fn option" where
  "first_block_transform name [] = None"
| "first_block_transform name (BlockTransform bs f # ts) =
     (if name \<in> set bs then Some f else first_block_transform name ts)"
| "first_block_transform name (_ # ts) = first_block_transform name ts"

fun first_index :: "('a \<Rightarrow> bool) \<Rightarrow> 'a list \<Rightarrow> nat option" where
  "first_index P [] = None"
| "first_index P (x # xs) =
     (if P x then Some 0 else map_option Suc (first_index P xs))"

definition switch_to_block_type ::
  "transform_table \<Rightarrow> registry \<Rightarrow> (nat \<Rightarrow> uid) \<Rightarrow> switcher" where
  "switch_to_block_type tr reg fresh block name =
     (let transformation =
        (case first_block_transform name (snd (tr (block_name block))) of
           Some f \<Rightarrow> Some f
         | None \<Rightarrow> first_block_transform (block_name block) (fst (tr name)))
      in case transformation of
           None \<Rightarrow> Inr None
         | Some f \<Rightarrow>
             js_bind (f reg fresh (attributes block)) (\<lambda>r.
               let results = cast_array r
               in if \<not> list_all (\<lambda>b. reg (block_name b) \<noteq> None) results then Inr None
                  else case first_index (\<lambda>b. block_name b = name) results of
                         None \<Rightarrow> Inr None
                       | Some i \<Rightarrow> Inr (Some (results[i := (results ! i)\<lparr>uid := uid block\<rparr>]))))"

definition quote_transforms :: transform_table where
  "quote_transforms name =
     (if name = ''core/quote'' then (quote_transforms_from, quote_transforms_to) else ([], []))"

section \<open>A quote merged into a paragraph\<close>

lemma switch_quote_to_paragraph:
  assumes "first_block_transform ''core/paragraph'' (snd (tr ''core/quote'')) = Some (quote_to ''core/paragraph'')"
    and "block_name b = ''core/quote''"
    and "quote_to ''core/paragraph'' reg fresh (attributes b) = Inr (Inr [text, q])"
    and "block_name text = ''core/paragraph''" "reg ''core/paragraph'' \<noteq> None" "reg (block_name q) \<noteq> None"
  shows "switch_to_block_type tr reg fresh b ''core/paragraph'' = Inr (Some [text\<lparr>uid := uid b\<rparr>, q])"
  using assms by (simp add: switch_to_block_type_def)

text \<open>
  C28. Merging a quote of one paragraph into the paragraph before it (Backspace at the
  start of the quote) moves the quote's text into the paragraph, through the paragraph
  type's \<open>merge\<close>, and leaves an empty quote block in the quote's place: the document
  ends up with the merged paragraph followed by a quote whose value is \<open>[]\<close>.
\<close>

theorem merge_quote_into_paragraph:
  assumes reg_p: "reg ''core/paragraph'' = Some pt" and merge: "bt_merge pt = Some f"
    and content: "''content'' \<in> fst ` set (bt_attributes pt)"
    and reg_q: "reg ''core/quote'' = Some quote_block_type"
    and names: "block_name a = ''core/paragraph''" "block_name b = ''core/quote''"
    and val: "attributes b ''value'' = Some (JArr [JObj [(''children'', p_elem k (Some c))]])"
    and dist: "uids_distinct (pre @ a # b # post)"
  shows "\<exists>es q. merge_blocks reg (switch_to_block_type quote_transforms reg fresh) a b = Inr es
     \<and> doc_after (dispatched es) (pre @ a # b # post) =
         pre @ a\<lparr>attributes := attributes a ++
                    f (attributes a) (normalize_attrs (bt_attributes pt) [''content'' \<mapsto> c])\<rparr>
             # q # post
     \<and> block_name q = ''core/quote'' \<and> attributes q ''value'' = Some (JArr [])"
proof -
  let ?text = "\<lparr>uid = fresh 0, block_name = ''core/paragraph'',
                attributes = normalize_attrs (bt_attributes pt) [''content'' \<mapsto> c]\<rparr>"
  let ?qa = "attributes b |` (- {''value'', ''citation''}) ++ Map.empty(''citation'' := attributes b ''citation'')
               ++ [''value'' \<mapsto> JArr []]"
  let ?q = "\<lparr>uid = fresh 1, block_name = ''core/quote'', attributes = normalize_attrs quote_schema ?qa\<rparr>"
  have "quote_to ''core/paragraph'' reg fresh (attributes b) = Inr (Inr [?text, ?q])"
    using quote_to_elem_first [of "attributes b" "[(''children'', p_elem k (Some c))]" "[]"] val reg_p reg_q
    by (simp add: create_block_def quote_block_type_def)
  then have sw: "switch_to_block_type quote_transforms reg fresh b ''core/paragraph'' =
      Inr (Some [?text\<lparr>uid := uid b\<rparr>, ?q])"
    using names reg_p reg_q
    by (intro switch_quote_to_paragraph) (simp_all add: quote_transforms_def quote_transforms_to_def)
  have qv: "attributes ?q ''value'' = Some (JArr [])"
    by (simp add: normalize_attrs_declared quote_schema_def)
  from merge_blocks_converted_doc [of reg a pt f b "switch_to_block_type quote_transforms reg fresh"
         "?text\<lparr>uid := uid b\<rparr>" "[?q]" pre post] reg_p merge names sw dist
  obtain es where "merge_blocks reg (switch_to_block_type quote_transforms reg fresh) a b = Inr es"
    and "doc_after (dispatched es) (pre @ a # b # post) =
         pre @ a\<lparr>attributes := attributes a ++
                    f (attributes a) (normalize_attrs (bt_attributes pt) [''content'' \<mapsto> c])\<rparr>
             # ?q # post"
    by auto
  with qv show ?thesis by auto
qed

end
