(* ===== verification/Category_Select.thy ===== *)
theory Category_Select
  imports Prelude
begin

text \<open>
  \<open>CategorySelect\<close> of \<open>src/blocks/query-panel/category-select.js\<close>: the categories
  come from \<open>withAPIData\<close> as an object whose \<open>data\<close> is filled when the request of
  \<open>/wp/v2/categories\<close> has answered. Until then nothing is rendered; then a
  \<open>TermTreeSelect\<close> with the tree \<open>buildTermsTree(categories.data)\<close>, the label, the
  no-option label, the change handler and the selected category. \<open>buildTermsTree\<close>
  (from \<open>editor/utils/terms\<close>, not in the repository) and the handler are parameters.
\<close>

definition CATEGORIES_PATH :: string where
  "CATEGORIES_PATH = ''/wp/v2/categories''"

datatype ('tree, 'h) term_tree_select =
  TermTreeSelect (tts_label: string) (tts_no_option_label: string) (tts_on_change: 'h)
                 (tts_terms_tree: 'tree) (tts_selected_term: "jval option")

text \<open>
  \<open>if (!categories || !categories.data) return null\<close>: the read of \<open>data\<close> happens on a
  truthy value, so it cannot throw.
\<close>

definition category_select ::
  "(jval \<Rightarrow> 'tree) \<Rightarrow> string \<Rightarrow> string \<Rightarrow> jval option \<Rightarrow> jval option \<Rightarrow> 'h
   \<Rightarrow> ('tree, 'h) term_tree_select option" where
  "category_select buildTermsTree label noOptionLabel categories selectedCategory onChange =
     (if \<not> js_truthy categories then None
      else case js_prop categories ''data'' of
             Inl _ \<Rightarrow> None
           | Inr data \<Rightarrow>
               if \<not> js_truthy data then None
               else Some (TermTreeSelect label noOptionLabel onChange (buildTermsTree (the data))
                            selectedCategory))"

text \<open>
  \<open>export default applyWithAPIData(CategorySelect)\<close>: the exported component renders
  \<open>CategorySelect\<close> with the parent's props and, over them, the API data of
  \<open>/wp/v2/categories\<close> as \<open>categories\<close> (\<open>apiData\<close>, the state \<open>withAPIData\<close> keeps per
  path).
\<close>

definition category_select_export ::
  "(jval \<Rightarrow> 'tree) \<Rightarrow> (string \<Rightarrow> jval option) \<Rightarrow> string \<Rightarrow> string \<Rightarrow> jval option \<Rightarrow> 'h
   \<Rightarrow> ('tree, 'h) term_tree_select option" where
  "category_select_export buildTermsTree apiData label noOptionLabel selectedCategory onChange =
     category_select buildTermsTree label noOptionLabel (apiData CATEGORIES_PATH) selectedCategory onChange"

section \<open>Lemmas\<close>

lemma js_prop_truthy_Inr: "js_truthy v \<Longrightarrow> \<exists>r. js_prop v k = Inr r"
  by (cases v rule: js_truthy.cases) (simp_all add: js_prop_def)

text \<open>
  C29. The category selector renders exactly when the categories have arrived with a
  truthy \<open>data\<close>, and then offers the tree built from that data, with the given
  label, no-option label, handler and selected category.
\<close>

theorem category_select_renders:
  "category_select buildTermsTree label noOptionLabel categories sel onChange = Some t \<longleftrightarrow>
   (\<exists>data. js_truthy categories \<and> js_prop categories ''data'' = Inr (Some data) \<and> js_truthy (Some data)
      \<and> t = TermTreeSelect label noOptionLabel onChange (buildTermsTree data) sel)"
  by (auto simp: category_select_def split: sum.splits if_splits
           elim: js_truthy.elims)

text \<open>Before the categories request has answered, the exported selector renders nothing.\<close>

lemma category_select_export_loading:
  "apiData CATEGORIES_PATH = Some (JObj kvs) \<Longrightarrow> map_of kvs ''data'' = None \<Longrightarrow>
   category_select_export buildTermsTree apiData label noOptionLabel sel onChange = None"
  by (simp add: category_select_export_def category_select_def js_prop_def)

end
