(* ===== verification/Page_Attributes.thy ===== *)
theory Page_Attributes
  imports Prelude
begin

text \<open>
  \<open>PageAttributes\<close> of \<open>src/edit-post/components/sidebar/page-attributes/index.js\<close>: a
  sidebar panel, shown only when the post type supports page attributes, that is open
  when the edit-post preferences say so and that toggles itself through
  \<open>toggleSidebarPanel('page-attributes')\<close>. The preferences' reducer and selector of the
  edit-post store (not in the repository) are modelled from their interface: the
  panels' open state by name, \<open>false\<close> when never set, and a toggle that flips one panel.
\<close>

definition PANEL_NAME :: string where
  "PANEL_NAME = ''page-attributes''"

datatype edit_post_action = ToggleSidebarPanel string

type_synonym panels = "string \<rightharpoonup> bool"

text \<open>\<open>isEditorSidebarPanelOpened(state, panel)\<close>.\<close>

definition is_editor_sidebar_panel_opened :: "panels \<Rightarrow> string \<Rightarrow> bool" where
  "is_editor_sidebar_panel_opened panels panel = get_default (panels panel) False"

text \<open>The preferences reducer on \<open>TOGGLE_SIDEBAR_PANEL\<close>.\<close>

fun reduce_panels :: "panels \<Rightarrow> edit_post_action \<Rightarrow> panels" where
  "reduce_panels panels (ToggleSidebarPanel panel) =
     panels(panel \<mapsto> \<not> get_default (panels panel) False)"

record page_attributes_props =
  isOpened :: bool
  onTogglePanel :: edit_post_action

text \<open>The rendered panel: title, open state and the action its toggle dispatches.\<close>

datatype panel_view = PageAttributesCheck "string \<times> bool \<times> edit_post_action"

definition page_attributes :: "page_attributes_props \<Rightarrow> panel_view" where
  "page_attributes props =
     PageAttributesCheck (''Page Attributes'', isOpened props, onTogglePanel props)"

text \<open>\<open>connect(mapStateToProps, mapDispatchToProps)\<close>.\<close>

definition page_attributes_state_props :: "panels \<Rightarrow> page_attributes_props" where
  "page_attributes_state_props panels =
     \<lparr>isOpened = is_editor_sidebar_panel_opened panels PANEL_NAME,
      onTogglePanel = ToggleSidebarPanel PANEL_NAME\<rparr>"

definition connected_page_attributes :: "panels \<Rightarrow> panel_view" where
  "connected_page_attributes panels = page_attributes (page_attributes_state_props panels)"

section \<open>Lemmas\<close>

text \<open>
  C30. Dispatching the action of the panel's toggle flips the open state the panel
  shows, leaves every other panel as it was, and a second toggle restores the first
  view.
\<close>

theorem page_attributes_toggle:
  "let a = onTogglePanel (page_attributes_state_props panels);
       panels' = reduce_panels panels a
   in isOpened (page_attributes_state_props panels') = (\<not> isOpened (page_attributes_state_props panels))
      \<and> (\<forall>p. p \<noteq> PANEL_NAME \<longrightarrow> is_editor_sidebar_panel_opened panels' p = is_editor_sidebar_panel_opened panels p)
      \<and> connected_page_attributes (reduce_panels panels' a) = connected_page_attributes panels"
  by (simp add: Let_def page_attributes_state_props_def is_editor_sidebar_panel_opened_def
                connected_page_attributes_def page_attributes_def)

end
