(* ===== verification/Run_Termination.thy ===== *)
theory Run_Termination
  imports "HOL-Library.Multiset" Effects_Router
begin

text \<open>
  Termination of the effects middleware: every dispatch processed by \<open>run\<close> completes.
  Each action has a rank bounding how deep the dispatches its handler makes can go;
  processing an effect replaces it by effects of smaller rank (the handler's) or removes
  it, so the multiset of the ranks of the pending effects decreases in the multiset
  order, which is well-founded. Fuel is monotone: once a run has a result, more fuel
  gives the same result.
\<close>

section \<open>Ranks of actions\<close>

text \<open>
  How deep the dispatches an action's handler makes can go: \<open>AUTOSAVE\<close> dispatches
  \<open>REQUEST_POST_UPDATE\<close> and \<open>CONVERT_BLOCK_TO_REUSABLE\<close> dispatches \<open>SAVE_REUSABLE_BLOCK\<close>,
  whose handlers dispatch only actions without effects of their own.
\<close>

fun action_rank :: "action \<Rightarrow> nat" where
  "action_rank Autosave = 2"
| "action_rank (ConvertBlockToReusable _) = 2"
| "action_rank RequestPostUpdate = 1"
| "action_rank (SaveReusableBlock _) = 1"
| "action_rank (RequestPostUpdateSuccess _ _ _) = 1"
| "action_rank (RequestPostUpdateFailure _ _ _ _) = 1"
| "action_rank (TrashPost _ _) = 1"
| "action_rank (TrashPostFailure _ _ _) = 1"
| "action_rank (MergeBlocks _ _) = 1"
| "action_rank (SetupEditor _ _) = 1"
| "action_rank (ConvertBlockToStatic _) = 1"
| "action_rank _ = 0"

fun effect_rank :: "effect \<Rightarrow> nat" where
  "effect_rank (Dispatch a) = Suc (action_rank a)"
| "effect_rank _ = 0"

lemma handle_rank:
  "handle env n st a = Inr (effs, n') \<Longrightarrow> e \<in> set effs \<Longrightarrow> effect_rank e < effect_rank (Dispatch a)"
  by (cases a)
     (auto simp: effect_simps with_uuids_def Let_def
           split: option.splits sum.splits if_splits list.splits)

lemma mset_rank_less:
  "\<forall>x\<in>set xs. f x < y \<Longrightarrow> mset (map f xs) + M < add_mset y M"
  using one_step_implies_multp [of "{#y#}" "mset (map f xs)" "(<)" M]
  by (auto simp: less_multiset_def add.commute)

lemma mset_less_add_mset: "(M :: nat multiset) < add_mset x M"
  using one_step_implies_multp [of "{#x#}" "{#}" "(<)" M] by (simp add: less_multiset_def)

lemma rank_less_handled:
  assumes "handle env n st a = Inr (effs, n')"
  shows "image_mset effect_rank (mset effs) < add_mset (Suc (action_rank a)) M"
  using one_step_implies_multp [of "add_mset (Suc (action_rank a)) M" "image_mset effect_rank (mset effs)"
          "(<)" "{#}"] handle_rank [OF assms]
  by (fastforce simp: less_multiset_def)

section \<open>Fuel and termination\<close>

lemma run_fuel_mono:
  "run k env s es = Some r \<Longrightarrow> k \<le> k' \<Longrightarrow> run k' env s es = Some r"
proof (induction k arbitrary: s es k')
  case 0
  then show ?case by simp
next
  case (Suc k)
  then obtain k'' where k': "k' = Suc k''" "k \<le> k''" by (cases k') auto
  show ?case
  proof (cases es)
    case Nil
    with Suc k' show ?thesis by simp
  next
    case (Cons e rest)
    with Suc k' show ?thesis by (cases e) (auto simp: Let_def split: sum.splits prod.splits)
  qed
qed

lemma wfp_less_rank_mset: "wfp ((<) :: nat multiset \<Rightarrow> nat multiset \<Rightarrow> bool)"
  by (rule wfp_less_multiset) (simp add: wfp_def wf_less)

lemma run_terminates: "\<exists>k r. run k env s es = Some r"
proof (induction "mset (map effect_rank es)" arbitrary: s es rule: wfp_induct_rule [OF wfp_less_rank_mset])
  case (1 es s)
  show ?case
  proof (cases es)
    case Nil
    then show ?thesis by (intro exI [of _ 1]) simp
  next
    case (Cons e rest)
    show ?thesis
    proof (cases "\<exists>a. e = Dispatch a")
      case True
      then obtain a where e: "e = Dispatch a" ..
      show ?thesis
      proof (cases "handle env (uuid_next s) (reduce (store s) a) a")
        case (Inl err)
        then show ?thesis using Cons e by (intro exI [of _ 1]) (simp add: Let_def)
      next
        case (Inr res)
        obtain effs n' where res: "res = (effs, n')" by (cases res)
        have "mset (map effect_rank (effs @ rest)) < mset (map effect_rank es)"
          using mset_rank_less [of effs effect_rank "Suc (action_rank a)" "mset (map effect_rank rest)"]
                handle_rank [OF Inr [unfolded res]] Cons e
          by simp
        with "1" obtain k r where
          "run k env (s\<lparr>store := reduce (store s) a, uuid_next := n',
                        action_log := action_log s @ [a]\<rparr>) (effs @ rest) = Some r"
          by blast
        then show ?thesis using Cons e Inr res by (intro exI [of _ "Suc k"]) (simp add: Let_def)
      qed
    next
      case False
      then have rank: "effect_rank e = 0" by (cases e) auto
      have "mset (map effect_rank rest) < mset (map effect_rank es)"
        using mset_rank_less [of "[]" effect_rank 0 "mset (map effect_rank rest)"] Cons rank by simp
      with "1" obtain k r where "run k env (s\<lparr>performed := performed s @ [e]\<rparr>) rest = Some r"
        by blast
      then show ?thesis using Cons False by (intro exI [of _ "Suc k"]) (cases e; auto)
    qed
  qed
qed

text \<open>
  C31. Every action dispatched through the router completes: some fuel gives a result
  (the final system state, or the exception a handler threw), and every larger fuel gives
  the same result, so the result does not depend on the bound.
\<close>

theorem dispatch_completes: "\<exists>k r. \<forall>k'\<ge>k. dispatch k' env s a = Some r"
proof -
  obtain k r where "run k env s [Dispatch a] = Some r"
    using run_terminates by blast
  then have "\<forall>k'\<ge>k. dispatch k' env s a = Some r"
    by (auto simp: dispatch_def intro: run_fuel_mono)
  then show ?thesis by blast
qed

end
