(* ===== verification/Optimist.thy ===== *)
theory Optimist
  imports Post_Effects
begin

text \<open>
  The optimistic-update envelope of the editor store: the reducer is wrapped by
  redux-optimist (outside the repository, modelled from its documented behaviour), and
  \<open>REQUEST_POST_UPDATE\<close> tags its actions with \<open>BEGIN\<close>, \<open>COMMIT\<close> and \<open>REVERT\<close> markers on
  the id \<open>post-update\<close>. The wrapper keeps, while a transaction is open, the list of the
  actions since the first open \<open>BEGIN\<close>, each \<open>BEGIN\<close> with the state before it; \<open>COMMIT\<close>
  forgets a transaction's snapshot, \<open>REVERT\<close> rebuilds the state from the snapshot of the
  transaction's \<open>BEGIN\<close>, replaying every recorded action that is not of the transaction.
  The inner reducer and the marker of an action are parameters; the lemmas give the
  commit and revert laws, instantiate them with the actions the save handlers dispatch,
  and follow two overlapping saves.
\<close>

section \<open>The wrapper\<close>

type_synonym ('s, 'a) opt_entry = "'s option \<times> 'a"
type_synonym ('s, 'a) opt_state = "('s, 'a) opt_entry list \<times> 's"

fun opt_id :: "optimist \<Rightarrow> string" where
  "opt_id (Begin i) = i"
| "opt_id (Commit i) = i"
| "opt_id (Revert i) = i"

definition matches_transaction :: "('a \<Rightarrow> optimist option) \<Rightarrow> 'a \<Rightarrow> string \<Rightarrow> bool" where
  "matches_transaction mk a i = (case mk a of Some m \<Rightarrow> opt_id m = i | None \<Rightarrow> False)"

text \<open>\<open>baseReducer\<close>: record the action while a transaction is open, then reduce.\<close>

definition base_reducer ::
  "('s \<Rightarrow> 'a \<Rightarrow> 's) \<Rightarrow> ('s, 'a) opt_entry list \<Rightarrow> 's \<Rightarrow> 'a \<Rightarrow> ('s, 'a) opt_state" where
  "base_reducer fn opt inner a = ((if opt \<noteq> [] then opt @ [(None, a)] else opt), fn inner a)"

definition begin_reducer :: "('s \<Rightarrow> 'a \<Rightarrow> 's) \<Rightarrow> ('s, 'a) opt_state \<Rightarrow> 'a \<Rightarrow> ('s, 'a) opt_state" where
  "begin_reducer fn st a = (fst st @ [(Some (snd st), a)], fn (snd st) a)"

text \<open>
  \<open>commitReducer\<close>'s loop: before the first \<open>BEGIN\<close> of another transaction (\<open>started\<close>
  false), entries are dropped; from there on, the transaction's \<open>BEGIN\<close> entries lose
  their snapshot.
\<close>

fun commit_entries ::
  "('a \<Rightarrow> optimist option) \<Rightarrow> string \<Rightarrow> bool \<Rightarrow> ('s, 'a) opt_entry list \<Rightarrow> ('s, 'a) opt_entry list" where
  "commit_entries mk i started [] = []"
| "commit_entries mk i started ((b, a) # es) =
     (if started then
        (if b \<noteq> None \<and> matches_transaction mk a i then (None, a) # commit_entries mk i True es
         else (b, a) # commit_entries mk i True es)
      else if b \<noteq> None \<and> \<not> matches_transaction mk a i then (b, a) # commit_entries mk i True es
      else commit_entries mk i False es)"

text \<open>
  \<open>revertReducer\<close>'s loop, with its variables \<open>started\<close>, \<open>gotInitialState\<close> and
  \<open>currentState\<close>: the snapshot of the transaction's \<open>BEGIN\<close> becomes the current state,
  and every later action not of the transaction is replayed on it.
\<close>

fun revert_entries ::
  "('s \<Rightarrow> 'a \<Rightarrow> 's) \<Rightarrow> ('a \<Rightarrow> optimist option) \<Rightarrow> string \<Rightarrow> bool \<Rightarrow> bool \<Rightarrow> 's
   \<Rightarrow> ('s, 'a) opt_entry list \<Rightarrow> ('s, 'a) opt_entry list \<times> 's" where
  "revert_entries fn mk i started got cur [] = ([], cur)"
| "revert_entries fn mk i started got cur ((b, a) # es) =
     (let (got', cur') = (if b \<noteq> None \<and> matches_transaction mk a i then (True, the b) else (got, cur))
      in if matches_transaction mk a i then revert_entries fn mk i started got' cur' es
         else
           (let started' = started \<or> b \<noteq> None;
                pushed = (if started' then [if got' \<and> b \<noteq> None then (Some cur', a) else (b, a)] else []);
                (rest, final) = revert_entries fn mk i started' got' (if got' then fn cur' a else cur') es
            in (pushed @ rest, final)))"

definition optimist_reduce ::
  "('s \<Rightarrow> 'a \<Rightarrow> 's) \<Rightarrow> ('a \<Rightarrow> optimist option) \<Rightarrow> ('s, 'a) opt_state \<Rightarrow> 'a \<Rightarrow> ('s, 'a) opt_state" where
  "optimist_reduce fn mk st a =
     (case mk a of
        Some (Begin i) \<Rightarrow> begin_reducer fn st a
      | Some (Commit i) \<Rightarrow> base_reducer fn (commit_entries mk i False (fst st)) (snd st) a
      | Some (Revert i) \<Rightarrow>
          (let (opt', cur) = revert_entries fn mk i False False (snd st) (fst st)
           in base_reducer fn opt' cur a)
      | None \<Rightarrow> base_reducer fn (fst st) (snd st) a)"

definition optimist_run ::
  "('s \<Rightarrow> 'a \<Rightarrow> 's) \<Rightarrow> ('a \<Rightarrow> optimist option) \<Rightarrow> ('s, 'a) opt_state \<Rightarrow> 'a list \<Rightarrow> ('s, 'a) opt_state" where
  "optimist_run fn mk st as = fold (\<lambda>a st. optimist_reduce fn mk st a) as st"

section \<open>One save at a time\<close>

text \<open>
  The editor's states under the discipline the fixed transaction id requires: a save is
  started only when none is in flight. A state is the wrapped store and the saves in
  flight (the post and the edits the callbacks close over); a step is a user action
  (unmarked), the start of a save (the synchronous actions of \<open>REQUEST_POST_UPDATE\<close> on
  the store snapshot \<open>st\<close>), or the success or failure callback of the save in flight.
\<close>

type_synonym 's save_sys = "('s, action) opt_state \<times> (post \<times> edits) list"

inductive save_reach :: "('s \<Rightarrow> action \<Rightarrow> 's) \<Rightarrow> 's \<Rightarrow> 's save_sys \<Rightarrow> bool" for fn s0 where
  init: "save_reach fn s0 (([], s0), [])"
| user: "save_reach fn s0 (w, p) \<Longrightarrow> action_optimist a = None \<Longrightarrow>
         save_reach fn s0 (optimist_reduce fn action_optimist w a, p)"
| start: "save_reach fn s0 (w, []) \<Longrightarrow>
          save_reach fn s0 (optimist_run fn action_optimist w (dispatched (request_post_update st)),
                            [(current_post st, post_edits st)])"
| success: "save_reach fn s0 (w, [(post, ed)]) \<Longrightarrow>
            save_reach fn s0 (optimist_run fn action_optimist w
                                (dispatched (request_post_update_done post newPost)), [])"
| failure: "save_reach fn s0 (w, [(post, ed)]) \<Longrightarrow>
            save_reach fn s0 (optimist_run fn action_optimist w
                                (dispatched (request_post_update_fail post ed err)), [])"

text \<open>
  The invariant: no transaction is open when no save is in flight; with one in flight,
  the wrapper holds exactly the \<open>BEGIN\<close> of the save with its snapshot, followed by the
  unmarked actions since, and the store is the snapshot with all of them applied.
\<close>

definition open_transaction :: "('s \<Rightarrow> action \<Rightarrow> 's) \<Rightarrow> ('s, action) opt_state \<Rightarrow> bool" where
  "open_transaction fn w \<longleftrightarrow>
     (\<exists>s a0 as. fst w = (Some s, a0) # map (\<lambda>a. (None, a)) as
        \<and> snd w = fold (\<lambda>a s. fn s a) as (fn s a0)
        \<and> action_optimist a0 = Some (Begin POST_UPDATE_TRANSACTION_ID)
        \<and> list_all (\<lambda>a. action_optimist a = None) as)"

definition save_inv :: "('s \<Rightarrow> action \<Rightarrow> 's) \<Rightarrow> 's save_sys \<Rightarrow> bool" where
  "save_inv fn x =
     (case snd x of [] \<Rightarrow> fst (fst x) = [] | [_] \<Rightarrow> open_transaction fn (fst x) | _ \<Rightarrow> False)"

text \<open>
  The store as confirmed by the server: the state of the wrapper without the optimistic
  update of the open transaction, i.e. its snapshot with the later actions replayed.
\<close>

definition confirmed_state :: "('s \<Rightarrow> action \<Rightarrow> 's) \<Rightarrow> ('s, action) opt_state \<Rightarrow> 's" where
  "confirmed_state fn w =
     (case fst w of (Some s, a0) # es \<Rightarrow> fold (\<lambda>a s. fn s a) (map snd es) s | _ \<Rightarrow> snd w)"

section \<open>Laws\<close>

text \<open>Without an open transaction, unmarked actions are reduced as by the bare reducer.\<close>

lemma closed_reduce_unmarked: "mk a = None \<Longrightarrow> optimist_reduce fn mk ([], t) a = ([], fn t a)"
  by (simp add: optimist_reduce_def base_reducer_def)

lemma optimist_run_plain:
  "\<forall>a\<in>set as. mk a = None \<Longrightarrow> optimist_run fn mk ([], s) as = ([], fold (\<lambda>a s. fn s a) as s)"
  by (induction as arbitrary: s) (simp_all add: optimist_run_def closed_reduce_unmarked)

text \<open>After a \<open>BEGIN\<close> and unmarked actions: one snapshot, the actions recorded after it.\<close>

lemma optimist_run_open:
  assumes "mk a0 = Some (Begin i)" "\<forall>a\<in>set as. mk a = None"
  shows "optimist_run fn mk ([], s) (a0 # as) =
           ((Some s, a0) # map (\<lambda>a. (None, a)) as, fold (\<lambda>a s. fn s a) as (fn s a0))"
proof -
  have "optimist_run fn mk (opt, t) as =
          (opt @ map (\<lambda>a. (None, a)) as, fold (\<lambda>a s. fn s a) as t)" if "opt \<noteq> []" for opt t
    using assms(2) that
    by (induction as arbitrary: opt t) (simp_all add: optimist_run_def optimist_reduce_def base_reducer_def)
  then show ?thesis
    using assms(1) by (simp add: optimist_run_def optimist_reduce_def begin_reducer_def)
qed

lemma revert_entries_unmarked:
  "\<forall>a\<in>set as. mk a = None \<Longrightarrow>
   revert_entries fn mk i False True cur (map (\<lambda>a. (None, a)) as) = ([], fold (\<lambda>a s. fn s a) as cur)"
  by (induction as arbitrary: cur) (simp_all add: matches_transaction_def)

lemma commit_entries_unmarked:
  "\<forall>a\<in>set as. mk a = None \<Longrightarrow> commit_entries mk i False (map (\<lambda>a. (None, a)) as) = []"
  by (induction as) simp_all

text \<open>One step on an open transaction: a \<open>BEGIN\<close> snapshot followed by unmarked actions.\<close>

lemma open_reduce_unmarked:
  "mk a = None \<Longrightarrow>
   optimist_reduce fn mk ((Some s, a0) # map (\<lambda>a. (None, a)) as, t) a =
     ((Some s, a0) # map (\<lambda>a. (None, a)) (as @ [a]), fn t a)"
  by (simp add: optimist_reduce_def base_reducer_def)

lemma open_reduce_commit:
  "mk a0 = Some (Begin i) \<Longrightarrow> \<forall>a\<in>set as. mk a = None \<Longrightarrow> mk c = Some (Commit i) \<Longrightarrow>
   optimist_reduce fn mk ((Some s, a0) # map (\<lambda>a. (None, a)) as, t) c = ([], fn t c)"
  by (simp add: optimist_reduce_def base_reducer_def matches_transaction_def commit_entries_unmarked)

lemma open_reduce_revert:
  "mk a0 = Some (Begin i) \<Longrightarrow> \<forall>a\<in>set as. mk a = None \<Longrightarrow> mk r = Some (Revert i) \<Longrightarrow>
   optimist_reduce fn mk ((Some s, a0) # map (\<lambda>a. (None, a)) as, t) r =
     ([], fn (fold (\<lambda>a s. fn s a) as s) r)"
  by (simp add: optimist_reduce_def base_reducer_def matches_transaction_def revert_entries_unmarked)

lemma optimist_commit_law:
  assumes "mk a0 = Some (Begin i)" "\<forall>a\<in>set as. mk a = None" "mk c = Some (Commit i)"
  shows "optimist_run fn mk ([], s) (a0 # as @ [c]) = ([], fold (\<lambda>a s. fn s a) (a0 # as @ [c]) s)"
  using optimist_run_open [OF assms(1,2), of fn s] open_reduce_commit [OF assms] by (simp add: optimist_run_def)

lemma optimist_revert_law:
  assumes "mk a0 = Some (Begin i)" "\<forall>a\<in>set as. mk a = None" "mk r = Some (Revert i)"
  shows "optimist_run fn mk ([], s) (a0 # as @ [r]) = ([], fold (\<lambda>a s. fn s a) (as @ [r]) s)"
  using optimist_run_open [OF assms(1,2), of fn s] open_reduce_revert [OF assms] by (simp add: optimist_run_def)

section \<open>The save transaction\<close>

lemma request_post_update_dispatched:
  "dispatched (request_post_update st) =
     [UpdatePost (post_to_send st) (Begin POST_UPDATE_TRANSACTION_ID), RemoveNotice SAVE_POST_NOTICE_ID]"
  by (simp add: request_post_update_def)

text \<open>
  C32. A save with unmarked actions interleaved while its request is in flight: on
  success the wrapped store is the bare reducer's result over every action, the
  optimistic update included; on failure it is the bare reducer's result over every
  action except the optimistic \<open>UPDATE_POST\<close>, which is rolled back.
\<close>

theorem save_transaction_outcome:
  assumes "\<forall>a\<in>set us. action_optimist a = None"
  shows "optimist_run fn action_optimist ([], s)
           (dispatched (request_post_update st) @ us @
            dispatched (case res of
                          Done newPost \<Rightarrow> request_post_update_done (current_post st) newPost
                        | Failed err \<Rightarrow> request_post_update_fail (current_post st) (post_edits st) err)) =
         ([], fold (\<lambda>a s. fn s a)
                ((case res of Done _ \<Rightarrow> dispatched (request_post_update st)
                            | Failed _ \<Rightarrow> [RemoveNotice SAVE_POST_NOTICE_ID]) @ us @
                 dispatched (case res of
                               Done newPost \<Rightarrow> request_post_update_done (current_post st) newPost
                             | Failed err \<Rightarrow> request_post_update_fail (current_post st) (post_edits st) err)) s)"
proof (cases res)
  case (Done newPost)
  have "optimist_run fn action_optimist ([], s)
          (UpdatePost (post_to_send st) (Begin POST_UPDATE_TRANSACTION_ID) #
           (RemoveNotice SAVE_POST_NOTICE_ID # us @ [ResetPost newPost]) @
           [RequestPostUpdateSuccess (current_post st) newPost (Commit POST_UPDATE_TRANSACTION_ID)]) =
        ([], fold (\<lambda>a s. fn s a)
               (UpdatePost (post_to_send st) (Begin POST_UPDATE_TRANSACTION_ID) #
                (RemoveNotice SAVE_POST_NOTICE_ID # us @ [ResetPost newPost]) @
                [RequestPostUpdateSuccess (current_post st) newPost (Commit POST_UPDATE_TRANSACTION_ID)]) s)"
    using assms by (intro optimist_commit_law) auto
  with Done show ?thesis by (simp add: request_post_update_dispatched request_post_update_done_def)
next
  case (Failed err)
  let ?f = "RequestPostUpdateFailure (get_default err unknown_error) (current_post st) (post_edits st)
              (Revert POST_UPDATE_TRANSACTION_ID)"
  have "optimist_run fn action_optimist ([], s)
          (UpdatePost (post_to_send st) (Begin POST_UPDATE_TRANSACTION_ID) #
           (RemoveNotice SAVE_POST_NOTICE_ID # us) @ [?f]) =
        ([], fold (\<lambda>a s. fn s a) ((RemoveNotice SAVE_POST_NOTICE_ID # us) @ [?f]) s)"
    using assms by (intro optimist_revert_law) auto
  with Failed show ?thesis by (simp add: request_post_update_dispatched request_post_update_fail_def)
qed

text \<open>
  C33. Two overlapping saves share the transaction id: when the first fails while the
  second is in flight, the revert restarts from the second save's snapshot, so the
  failed save's optimistic update is kept and the pending save's is dropped.
\<close>

theorem overlapping_saves_first_fails:
  "optimist_run fn action_optimist ([], s)
     (dispatched (request_post_update st1) @ dispatched (request_post_update st2) @
      dispatched (request_post_update_fail (current_post st1) (post_edits st1) err)) =
   ([], fold (\<lambda>a s. fn s a)
          [UpdatePost (post_to_send st1) (Begin POST_UPDATE_TRANSACTION_ID),
           RemoveNotice SAVE_POST_NOTICE_ID, RemoveNotice SAVE_POST_NOTICE_ID,
           RequestPostUpdateFailure (get_default err unknown_error) (current_post st1) (post_edits st1)
             (Revert POST_UPDATE_TRANSACTION_ID)] s)"
  by (simp add: request_post_update_dispatched request_post_update_fail_def optimist_run_def
                optimist_reduce_def begin_reducer_def base_reducer_def matches_transaction_def)

text \<open>
  C34. Two overlapping saves, the first succeeding and then the second failing: the
  commit of the first discards the second's snapshot too, so the second's failure
  finds no transaction and its optimistic update is never rolled back.
\<close>

theorem overlapping_saves_second_failure_kept:
  "optimist_run fn action_optimist ([], s)
     (dispatched (request_post_update st1) @ dispatched (request_post_update st2) @
      dispatched (request_post_update_done (current_post st1) newPost) @
      dispatched (request_post_update_fail (current_post st2) (post_edits st2) err)) =
   ([], fold (\<lambda>a s. fn s a)
          (dispatched (request_post_update st1) @ dispatched (request_post_update st2) @
           dispatched (request_post_update_done (current_post st1) newPost) @
           dispatched (request_post_update_fail (current_post st2) (post_edits st2) err)) s)"
  by (simp add: request_post_update_dispatched request_post_update_fail_def request_post_update_done_def
                optimist_run_def optimist_reduce_def begin_reducer_def base_reducer_def
                matches_transaction_def)

section \<open>Lemmas: one save at a time\<close>

lemma optimist_run_open_unmarked:
  "\<forall>a\<in>set bs. mk a = None \<Longrightarrow>
   optimist_run fn mk ((Some s, a0) # map (\<lambda>a. (None, a)) as, t) bs =
     ((Some s, a0) # map (\<lambda>a. (None, a)) (as @ bs), fold (\<lambda>a s. fn s a) bs t)"
proof (induction bs arbitrary: as t)
  case Nil
  then show ?case by (simp add: optimist_run_def)
next
  case (Cons b bs)
  then show ?case
    using Cons.IH [of "as @ [b]" "fn t b"]
    by (simp add: optimist_run_def open_reduce_unmarked del: map_append)
qed

lemma open_transaction_cases:
  assumes "open_transaction fn w"
  obtains s a0 as where
    "w = ((Some s, a0) # map (\<lambda>a. (None, a)) as, fold (\<lambda>a s. fn s a) as (fn s a0))"
    "action_optimist a0 = Some (Begin POST_UPDATE_TRANSACTION_ID)" "\<forall>a\<in>set as. action_optimist a = None"
  using assms unfolding open_transaction_def by (cases w) (auto simp: list_all_iff)

lemma open_transaction_intro:
  "action_optimist a0 = Some (Begin POST_UPDATE_TRANSACTION_ID) \<Longrightarrow> \<forall>a\<in>set as. action_optimist a = None \<Longrightarrow>
   open_transaction fn ((Some s, a0) # map (\<lambda>a. (None, a)) as, fold (\<lambda>a s. fn s a) as (fn s a0))"
  unfolding open_transaction_def by (auto simp: list_all_iff)

lemma open_transaction_unmarked:
  assumes "open_transaction fn w" "action_optimist a = None"
  shows "open_transaction fn (optimist_reduce fn action_optimist w a)"
proof -
  obtain s a0 as where w: "w = ((Some s, a0) # map (\<lambda>a. (None, a)) as, fold (\<lambda>a s. fn s a) as (fn s a0))"
    and a0: "action_optimist a0 = Some (Begin POST_UPDATE_TRANSACTION_ID)"
    and as: "\<forall>a\<in>set as. action_optimist a = None"
    using assms(1) by (rule open_transaction_cases)
  have "open_transaction fn ((Some s, a0) # map (\<lambda>a. (None, a)) (as @ [a]),
          fold (\<lambda>a s. fn s a) (as @ [a]) (fn s a0))"
    using a0 as assms(2) by (intro open_transaction_intro) auto
  then show ?thesis
    using w assms(2) by (simp add: open_reduce_unmarked del: map_append)
qed

lemma open_transaction_success:
  assumes "open_transaction fn w"
  shows "optimist_run fn action_optimist w (dispatched (request_post_update_done post newPost)) =
     ([], fold (\<lambda>a s. fn s a) (dispatched (request_post_update_done post newPost)) (snd w))"
proof -
  obtain s a0 as where w: "w = ((Some s, a0) # map (\<lambda>a. (None, a)) as, fold (\<lambda>a s. fn s a) as (fn s a0))"
    and a0: "action_optimist a0 = Some (Begin POST_UPDATE_TRANSACTION_ID)"
    and as: "\<forall>a\<in>set as. action_optimist a = None"
    using assms by (rule open_transaction_cases)
  have "\<forall>a\<in>set (as @ [ResetPost newPost]). action_optimist a = None"
    using as by simp
  from open_reduce_commit [OF a0 this, of "RequestPostUpdateSuccess post newPost (Commit POST_UPDATE_TRANSACTION_ID)"]
  show ?thesis
    using w by (simp add: request_post_update_done_def optimist_run_def open_reduce_unmarked del: map_append)
qed

lemma open_transaction_failure:
  assumes "open_transaction fn w"
  shows "optimist_run fn action_optimist w (dispatched (request_post_update_fail post ed err)) =
     ([], fn (confirmed_state fn w)
            (RequestPostUpdateFailure (get_default err unknown_error) post ed (Revert POST_UPDATE_TRANSACTION_ID)))"
proof -
  obtain s a0 as where w: "w = ((Some s, a0) # map (\<lambda>a. (None, a)) as, fold (\<lambda>a s. fn s a) as (fn s a0))"
    and a0: "action_optimist a0 = Some (Begin POST_UPDATE_TRANSACTION_ID)"
    and as: "\<forall>a\<in>set as. action_optimist a = None"
    using assms by (rule open_transaction_cases)
  from open_reduce_revert [OF a0 as, of "RequestPostUpdateFailure (get_default err unknown_error) post ed
            (Revert POST_UPDATE_TRANSACTION_ID)" fn s]
  show ?thesis
    using w by (simp add: request_post_update_fail_def optimist_run_def confirmed_state_def comp_def)
qed

lemma open_transaction_start:
  "fst w = [] \<Longrightarrow>
   open_transaction fn (optimist_run fn action_optimist w (dispatched (request_post_update st)))"
  using open_transaction_intro [of "UpdatePost (post_to_send st) (Begin POST_UPDATE_TRANSACTION_ID)"
          "[RemoveNotice SAVE_POST_NOTICE_ID]" fn "snd w"]
  by (cases w) (simp add: request_post_update_dispatched optimist_run_def optimist_reduce_def
                          begin_reducer_def base_reducer_def)

lemma save_reach_inv: "save_reach fn s0 x \<Longrightarrow> save_inv fn x"
proof (induction rule: save_reach.induct)
  case init
  then show ?case by (simp add: save_inv_def)
next
  case (user w p a)
  then show ?case
    by (cases w) (auto simp: save_inv_def closed_reduce_unmarked open_transaction_unmarked split: list.splits)
next
  case (start w st)
  then show ?case by (simp add: save_inv_def open_transaction_start)
next
  case (success w post ed newPost)
  then show ?case by (simp add: save_inv_def open_transaction_success)
next
  case (failure w post ed err)
  then show ?case by (simp add: save_inv_def open_transaction_failure)
qed

lemma confirmed_state_unmarked:
  "save_inv fn (w, p) \<Longrightarrow> action_optimist a = None \<Longrightarrow>
   confirmed_state fn (optimist_reduce fn action_optimist w a) = fn (confirmed_state fn w) a"
  by (cases w)
     (auto simp: save_inv_def confirmed_state_def closed_reduce_unmarked open_reduce_unmarked
           elim!: open_transaction_cases split: list.splits)

text \<open>
  C35. With one save at a time, at most one save is in flight; when none is, no
  transaction is open; when one is, the wrapper holds exactly its \<open>BEGIN\<close> snapshot and
  the unmarked actions since, and the store is that snapshot with all of them applied.
\<close>

theorem save_transaction_invariant:
  assumes "save_reach fn s0 (w, p)"
  shows "length p \<le> 1 \<and> (p = [] \<longrightarrow> fst w = []) \<and> (p \<noteq> [] \<longrightarrow> open_transaction fn w)"
  using save_reach_inv [OF assms] by (auto simp: save_inv_def split: list.splits)

text \<open>
  C36. With one save at a time, the failure of the save in flight closes its transaction
  and leaves the confirmed store, the snapshot with every later unmarked action
  replayed, with the failure action applied: the optimistic update is rolled back and
  nothing else is lost. Its success closes the transaction and keeps the store as it is.
\<close>

theorem save_outcome_rolls_back:
  assumes "save_reach fn s0 (w, [(post, ed)])"
  shows "optimist_run fn action_optimist w (dispatched (request_post_update_fail post ed err)) =
           ([], fn (confirmed_state fn w)
                  (RequestPostUpdateFailure (get_default err unknown_error) post ed
                     (Revert POST_UPDATE_TRANSACTION_ID)))
         \<and> optimist_run fn action_optimist w (dispatched (request_post_update_done post newPost)) =
           ([], fold (\<lambda>a s. fn s a) (dispatched (request_post_update_done post newPost)) (snd w))"
  using save_reach_inv [OF assms]
  by (simp add: save_inv_def open_transaction_failure open_transaction_success)

end
