(* ===== verification/Nested_Dispatch.thy ===== *)
theory Nested_Dispatch
  imports Run_Termination
begin

text \<open>
  The reference semantics of the effects middleware as the JavaScript code runs it:
  \<open>store.dispatch(action)\<close> reduces the action, then runs its handler, and every
  \<open>dispatch\<close> the handler makes returns only when that action and everything it
  dispatched are done; the handler then goes on with its remaining effects. \<open>exec\<close> is
  this nested recursion, total by the rank measure of \<open>Run_Termination\<close>; \<open>run_exec\<close>
  shows that whenever the loop \<open>run\<close> of \<open>Effects_Router\<close>, which keeps the pending
  effects on one stack, returns, it returns the result of \<open>exec\<close>.
\<close>

function (sequential) exec :: "env \<Rightarrow> sys \<Rightarrow> effect list \<Rightarrow> js_error + sys" where
  "exec env s [] = Inr s"
| "exec env s (Dispatch a # es) =
     (case handle env (uuid_next s) (reduce (store s) a) a of
        Inl e \<Rightarrow> Inl e
      | Inr (effs, n') \<Rightarrow>
          (case exec env (s\<lparr>store := reduce (store s) a, uuid_next := n',
                                 action_log := action_log s @ [a]\<rparr>) effs of
             Inl e \<Rightarrow> Inl e
           | Inr s' \<Rightarrow> exec env s' es))"
| "exec env s (e # es) = exec env (s\<lparr>performed := performed s @ [e]\<rparr>) es"
  by pat_completeness auto

termination
  by (relation "inv_image {(M, N). M < N} (\<lambda>(env, s, es). mset (map effect_rank es))")
     (auto simp: wfp_less_rank_mset [unfolded wfp_def] mset_less_add_mset intro: rank_less_handled)

text \<open>
  Induction over a nested dispatch with one case for all the effects that are performed
  rather than dispatched.
\<close>

lemma exec_induct [case_names Nil Dispatch Perform]:
  assumes "\<And>env s. P env s []"
    and "\<And>env s a es.
      (\<And>effs n'. handle env (uuid_next s) (reduce (store s) a) a = Inr (effs, n') \<Longrightarrow>
         P env (s\<lparr>store := reduce (store s) a, uuid_next := n', action_log := action_log s @ [a]\<rparr>) effs) \<Longrightarrow>
      (\<And>effs n' s1. handle env (uuid_next s) (reduce (store s) a) a = Inr (effs, n') \<Longrightarrow>
         exec env (s\<lparr>store := reduce (store s) a, uuid_next := n', action_log := action_log s @ [a]\<rparr>) effs
           = Inr s1 \<Longrightarrow> P env s1 es) \<Longrightarrow>
      P env s (Dispatch a # es)"
    and "\<And>env s e es. (\<And>a. e \<noteq> Dispatch a) \<Longrightarrow>
      P env (s\<lparr>performed := performed s @ [e]\<rparr>) es \<Longrightarrow> P env s (e # es)"
  shows "P env s es"
proof (induction env s es rule: exec.induct)
  case (2 env s a es)
  show ?case by (rule assms(2)) (auto intro: "2.IH")
qed (auto intro: assms(1,3))

lemma exec_perform:
  "(\<And>a. e \<noteq> Dispatch a) \<Longrightarrow> exec env s (e # es) = exec env (s\<lparr>performed := performed s @ [e]\<rparr>) es"
  by (cases e) auto

lemma dispatched_perform: "(\<And>a. e \<noteq> Dispatch a) \<Longrightarrow> dispatched (e # es) = dispatched es"
  by (cases e) auto

section \<open>Equivalence with the run loop\<close>

lemma exec_append:
  "exec env s (xs @ ys) = (case exec env s xs of Inl e \<Rightarrow> Inl e | Inr s' \<Rightarrow> exec env s' ys)"
  by (induction env s xs rule: exec.induct) (auto split: sum.splits prod.splits)

lemma run_exec: "run k env s es = Some r \<Longrightarrow> r = exec env s es"
proof (induction k arbitrary: s es)
  case 0
  then show ?case by simp
next
  case (Suc k)
  show ?case
  proof (cases es)
    case Nil
    with Suc.prems show ?thesis by simp
  next
    case (Cons e rest)
    with Suc show ?thesis
      by (cases e) (auto simp: Let_def exec_append split: sum.splits prod.splits dest!: Suc.IH)
  qed
qed

end
