(* ===== verification/Async_Editor.thy ===== *)
theory Async_Editor
  imports Nested_Dispatch
begin

text \<open>
  The editor between requests. A handler of \<open>src/editor/effects.js\<close> that talks to the
  REST API starts the request and returns; the request's \<open>done\<close>/\<open>fail\<close> (or \<open>then\<close>)
  callback runs later, from the browser's event loop, and dispatches through the store.
  Meanwhile the user goes on dispatching. \<open>callback\<close> gives the callback a request runs
  for a response of the server; \<open>editor_reach\<close> is the interleaving of user dispatches
  and responses, in any order, each processed by the nested dispatch \<open>exec\<close>, with the
  requests in flight kept in a list. The invariant of this theory counts the post saves:
  the \<open>BEGIN\<close> markers of the post-update transaction in the store's history outnumber
  the \<open>COMMIT\<close>/\<open>REVERT\<close> markers by exactly the number of save requests in flight.
  The liveness lemma: any request in flight can fail, and its failure callback then
  runs to the end and retires it.
\<close>

section \<open>Responses and callbacks\<close>

text \<open>What the server answers: a saved post, a deletion, fetched reusable blocks, a saved
  reusable block; each may fail with an XHR error.\<close>

datatype response =
    PostSaved "post outcome"
  | PostDestroyed "unit outcome"
  | ReusableBlocksFetched "(remote_reusable_block + remote_reusable_block list) outcome"
  | ReusableBlockSaved "unit outcome"

text \<open>
  The callback each request was started with, applied to a response of its kind;
  \<open>None\<close> for a response of another kind, which the server never gives.
\<close>

fun callback :: "parser \<Rightarrow> request \<Rightarrow> response \<Rightarrow> (js_error + effect list) option" where
  "callback parse (SavePostRequest _ _ post edits) (PostSaved (Done newPost)) =
     Some (Inr (request_post_update_done post newPost))"
| "callback parse (SavePostRequest _ _ post edits) (PostSaved (Failed err)) =
     Some (Inr (request_post_update_fail post edits err))"
| "callback parse (DestroyPostRequest _ _ postId postType) (PostDestroyed (Done _)) =
     Some (Inr (trash_post_done postId postType))"
| "callback parse (DestroyPostRequest _ _ postId postType) (PostDestroyed (Failed err)) =
     Some (Inr (trash_post_fail postId postType err))"
| "callback parse (FetchReusableBlockRequest _) (ReusableBlocksFetched (Done r)) =
     Some (fetch_reusable_blocks_done parse r)"
| "callback parse (FetchReusableBlockRequest _) (ReusableBlocksFetched (Failed err)) =
     Some (Inr (fetch_reusable_blocks_fail err))"
| "callback parse FetchReusableBlocksRequest (ReusableBlocksFetched (Done r)) =
     Some (fetch_reusable_blocks_done parse r)"
| "callback parse FetchReusableBlocksRequest (ReusableBlocksFetched (Failed err)) =
     Some (Inr (fetch_reusable_blocks_fail err))"
| "callback parse (SaveReusableBlockRequest i _ _) (ReusableBlockSaved (Done _)) =
     Some (Inr (save_reusable_block_done i))"
| "callback parse (SaveReusableBlockRequest i _ _) (ReusableBlockSaved (Failed err)) =
     Some (Inr (save_reusable_block_fail i err))"
| "callback parse _ _ = None"

text \<open>The response by which a request fails with the XHR error \<open>err\<close>.\<close>

fun fail_response :: "request \<Rightarrow> xhr_failure \<Rightarrow> response" where
  "fail_response (SavePostRequest _ _ _ _) err = PostSaved (Failed err)"
| "fail_response (DestroyPostRequest _ _ _ _) err = PostDestroyed (Failed err)"
| "fail_response (FetchReusableBlockRequest _) err = ReusableBlocksFetched (Failed err)"
| "fail_response FetchReusableBlocksRequest err = ReusableBlocksFetched (Failed err)"
| "fail_response (SaveReusableBlockRequest _ _ _) err = ReusableBlockSaved (Failed err)"

section \<open>Requests in flight and transaction markers\<close>

fun requests_of :: "effect list \<Rightarrow> request list" where
  "requests_of [] = []"
| "requests_of (Request r # es) = r # requests_of es"
| "requests_of (_ # es) = requests_of es"

fun is_save_post :: "request \<Rightarrow> bool" where
  "is_save_post (SavePostRequest _ _ _ _) = True"
| "is_save_post _ = False"

definition saves_in_flight :: "request list \<Rightarrow> nat" where
  "saves_in_flight rs = length (filter is_save_post rs)"

definition begun :: "action list \<Rightarrow> nat" where
  "begun as = length (filter (\<lambda>a. action_optimist a = Some (Begin POST_UPDATE_TRANSACTION_ID)) as)"

definition settled :: "action list \<Rightarrow> nat" where
  "settled as = length (filter (\<lambda>a. action_optimist a \<in>
     {Some (Commit POST_UPDATE_TRANSACTION_ID), Some (Revert POST_UPDATE_TRANSACTION_ID)}) as)"

text \<open>An effect that opens or closes a post-update transaction, or starts a post save.\<close>

fun save_effect :: "effect \<Rightarrow> bool" where
  "save_effect (Dispatch a) = (action_optimist a \<noteq> None)"
| "save_effect (Request r) = is_save_post r"
| "save_effect _ = False"

section \<open>The interleaving of user actions and responses\<close>

text \<open>
  From the state \<open>s0\<close>, with no request in flight: the user dispatches an action without
  an optimistic marker (only handlers dispatch those) that the interface admits in the
  current state (\<open>ok\<close>, a parameter: what the view components dispatch is outside the
  effects), or the server answers one of the requests in flight, in any order, and its
  callback's effects are dispatched. The requests the step starts join those in flight.
  A step whose dispatch throws is not followed.
\<close>

inductive editor_reach ::
  "env \<Rightarrow> (sys \<Rightarrow> action \<Rightarrow> bool) \<Rightarrow> sys \<Rightarrow> sys \<Rightarrow> request list \<Rightarrow> bool" for env ok s0 where
  init: "editor_reach env ok s0 s0 []"
| user: "editor_reach env ok s0 s p \<Longrightarrow> ok s a \<Longrightarrow> action_optimist a = None \<Longrightarrow>
     exec env s [Dispatch a] = Inr s' \<Longrightarrow>
     editor_reach env ok s0 s' (p @ requests_of (drop (length (performed s)) (performed s')))"
| respond: "editor_reach env ok s0 s (p @ r # q) \<Longrightarrow>
     callback (env_parse env) r resp = Some (Inr effs) \<Longrightarrow> exec env s effs = Inr s' \<Longrightarrow>
     editor_reach env ok s0 s' (p @ q @ requests_of (drop (length (performed s)) (performed s')))"

section \<open>Counting lemmas\<close>

lemma requests_of_append [simp]: "requests_of (xs @ ys) = requests_of xs @ requests_of ys"
  by (induction xs rule: requests_of.induct) auto

lemma begun_simps [simp]:
  "begun [] = 0" "begun (xs @ ys) = begun xs + begun ys"
  "begun (a # xs) = (if action_optimist a = Some (Begin POST_UPDATE_TRANSACTION_ID) then 1 else 0) + begun xs"
  by (simp_all add: begun_def)

lemma settled_simps [simp]:
  "settled [] = 0" "settled (xs @ ys) = settled xs + settled ys"
  "settled (a # xs) = (if action_optimist a \<in>
     {Some (Commit POST_UPDATE_TRANSACTION_ID), Some (Revert POST_UPDATE_TRANSACTION_ID)} then 1 else 0)
     + settled xs"
  by (simp_all add: settled_def)

lemma saves_in_flight_simps [simp]:
  "saves_in_flight [] = 0" "saves_in_flight (xs @ ys) = saves_in_flight xs + saves_in_flight ys"
  "saves_in_flight (r # xs) = (if is_save_post r then 1 else 0) + saves_in_flight xs"
  by (simp_all add: saves_in_flight_def)

lemma no_save_effect_counts:
  "\<forall>e\<in>set es. \<not> save_effect e \<Longrightarrow>
     begun (dispatched es) = 0 \<and> settled (dispatched es) = 0 \<and> saves_in_flight (requests_of es) = 0"
  by (induction es rule: dispatched.induct) auto

text \<open>Only \<open>REQUEST_POST_UPDATE\<close>'s handler opens a transaction or starts a post save.\<close>

lemma handle_no_save_effect:
  "handle env n st a = Inr (effs, n') \<Longrightarrow> a \<noteq> RequestPostUpdate \<Longrightarrow> e \<in> set effs \<Longrightarrow>
     \<not> save_effect e"
  by (cases a)
     (auto simp: effect_simps with_uuids_def Let_def
           split: option.splits sum.splits if_splits list.splits)

lemma handle_save_balance:
  assumes "handle env n st a = Inr (effs, n')"
  shows "begun (dispatched effs) = saves_in_flight (requests_of effs) \<and> settled (dispatched effs) = 0"
proof (cases "a = RequestPostUpdate")
  case True
  with assms show ?thesis by (auto simp: request_post_update_def)
next
  case False
  with no_save_effect_counts [of effs] handle_no_save_effect [OF assms] show ?thesis by auto
qed

text \<open>
  What a nested dispatch adds to the store's history and to the performed effects: the
  transactions it opens, less the post saves among the effects it starts from, are the
  post saves it starts; the transactions it closes are those its effects close.
\<close>

lemma exec_save_balance:
  "exec env s es = Inr s' \<Longrightarrow> \<exists>L P. action_log s' = action_log s @ L \<and> performed s' = performed s @ P
     \<and> begun L + saves_in_flight (requests_of es) = begun (dispatched es) + saves_in_flight (requests_of P)
     \<and> settled L = settled (dispatched es)"
proof (induction env s es arbitrary: s' rule: exec.induct)
  case (1 env s)
  then show ?case by (intro exI [of _ "[]"]) simp
next
  case (2 env s a es)
  then obtain effs n' s1 where h: "handle env (uuid_next s) (reduce (store s) a) a = Inr (effs, n')"
    and e1: "exec env (s\<lparr>store := reduce (store s) a, uuid_next := n', action_log := action_log s @ [a]\<rparr>)
               effs = Inr s1"
    and e2: "exec env s1 es = Inr s'"
    by (auto split: sum.splits prod.splits)
  from "2.IH"(1) [OF h refl e1] obtain L1 P1 where
    "action_log s1 = action_log s @ a # L1" "performed s1 = performed s @ P1"
    "begun L1 + saves_in_flight (requests_of effs) = begun (dispatched effs) + saves_in_flight (requests_of P1)"
    "settled L1 = settled (dispatched effs)"
    by auto
  moreover from "2.IH"(2) [OF h refl e1 e2] obtain L2 P2 where
    "action_log s' = action_log s1 @ L2" "performed s' = performed s1 @ P2"
    "begun L2 + saves_in_flight (requests_of es) = begun (dispatched es) + saves_in_flight (requests_of P2)"
    "settled L2 = settled (dispatched es)"
    by auto
  moreover note handle_save_balance [OF h]
  ultimately show ?case by (intro exI [of _ "a # L1 @ L2"] exI [of _ "P1 @ P2"]) auto
qed (fastforce split: if_splits)+

text \<open>A callback opens no transaction and starts no save; the post save's closes one.\<close>

lemma callback_save_balance:
  "callback parse r resp = Some (Inr effs) \<Longrightarrow>
     begun (dispatched effs) = 0 \<and> saves_in_flight (requests_of effs) = 0
     \<and> settled (dispatched effs) = (if is_save_post r then 1 else 0)"
  by (induction parse r resp rule: callback.induct)
     (auto simp: request_post_update_done_def request_post_update_fail_def trash_post_done_def
                 trash_post_fail_def fetch_reusable_blocks_done_def fetch_reusable_blocks_fail_def
                 save_reusable_block_done_def save_reusable_block_fail_def split: sum.splits)

lemma exec_new_requests:
  "exec env s es = Inr s' \<Longrightarrow> begun (dispatched es) = 0 \<Longrightarrow> saves_in_flight (requests_of es) = 0 \<Longrightarrow>
     begun (action_log s') = begun (action_log s)
       + saves_in_flight (requests_of (drop (length (performed s)) (performed s')))
     \<and> settled (action_log s') = settled (action_log s) + settled (dispatched es)"
  by (drule exec_save_balance) auto

text \<open>
  A failure callback dispatches actions whose handlers at most show a notice: it never
  throws and starts no request.
\<close>

lemma fail_response_exec:
  "\<exists>effs s'. callback parse r (fail_response r err) = Some (Inr effs) \<and> exec env s effs = Inr s'
     \<and> performed s' = performed s"
  by (cases r)
     (simp_all add: request_post_update_fail_def request_post_update_failure_def trash_post_fail_def
                    trash_post_failure_def fetch_reusable_blocks_fail_def save_reusable_block_fail_def)

section \<open>Open transactions and saves in flight\<close>

text \<open>
  C25. Starting from a store whose history has no open post-update transaction, in every
  interleaving of user actions and server responses the post-update transactions opened
  and not yet committed or reverted are exactly the post save requests in flight: each
  \<open>BEGIN\<close> waits for the one response that closes it.
\<close>

theorem save_transactions_in_flight:
  assumes "editor_reach env ok s0 s p" and "begun (action_log s0) = settled (action_log s0)"
  shows "begun (action_log s) = settled (action_log s) + saves_in_flight p"
  using assms(1)
proof induction
  case init
  then show ?case using assms(2) by simp
next
  case (user s p a s')
  then show ?case using exec_new_requests [OF user.hyps(4)] by simp
next
  case (respond s p r q resp effs s')
  then show ?case using exec_new_requests [OF respond.hyps(3)] callback_save_balance [OF respond.hyps(2)] by simp
qed

section \<open>Every request in flight can be retired\<close>

text \<open>
  C11. Whatever the editor has gone through, any request in flight may fail, with any
  XHR error, and its failure callback then runs to the end, without exception, and
  retires the request: the other requests stay in flight and none is added.
\<close>

theorem request_retired:
  assumes "editor_reach env ok s0 s (p @ r # q)"
  shows "\<exists>effs s'. callback (env_parse env) r (fail_response r err) = Some (Inr effs)
           \<and> exec env s effs = Inr s' \<and> editor_reach env ok s0 s' (p @ q)"
proof -
  obtain effs s' where cb: "callback (env_parse env) r (fail_response r err) = Some (Inr effs)"
    and ex: "exec env s effs = Inr s'" and perf: "performed s' = performed s"
    using fail_response_exec by blast
  from editor_reach.respond [OF assms cb ex] perf have "editor_reach env ok s0 s' (p @ q)" by simp
  with cb ex show ?thesis by blast
qed

end
