(* ===== verification/Document_Invariant.thy ===== *)
theory Document_Invariant
  imports Async_Editor
begin

text \<open>
  The uids of the document across the whole editor. Only six action types can change
  the block list: \<open>REPLACE_BLOCKS\<close> and \<open>RESET_BLOCKS\<close> (reduced, no handler), and the
  handlers \<open>MERGE_BLOCKS\<close>, \<open>SETUP_EDITOR\<close>, \<open>CONVERT_BLOCK_TO_STATIC\<close> and
  \<open>CONVERT_BLOCK_TO_REUSABLE\<close> of \<open>src/editor/effects.js\<close>, which dispatch the first two.
  Every other action is quiet: neither it nor anything its handler dispatches touches
  the document. The invariant \<open>doc_inv\<close>: the uids are distinct and none of them is a
  \<open>uuid()\<close> the handlers have not drawn yet. Every user step the interface admits
  (\<open>doc_ok\<close>: its own block edits bring fresh uids, as do the blocks
  \<open>switchToBlockType\<close> creates for a merge) and every response preserves it, given that
  the supply \<open>uuid()\<close> never repeats and the parser's blocks have distinct uids of
  their own.
\<close>

section \<open>Actions and the document\<close>

fun quiet :: "action \<Rightarrow> bool" where
  "quiet (ReplaceBlocks _ _) = False"
| "quiet (ResetBlocks _) = False"
| "quiet (MergeBlocks _ _) = False"
| "quiet (SetupEditor _ _) = False"
| "quiet (ConvertBlockToStatic _) = False"
| "quiet (ConvertBlockToReusable _) = False"
| "quiet _ = True"

fun doc_leaf :: "action \<Rightarrow> bool" where
  "doc_leaf (ReplaceBlocks _ _) = True"
| "doc_leaf (ResetBlocks _) = True"
| "doc_leaf _ = False"

text \<open>Blocks with distinct uids, none of them a \<open>uuid()\<close> drawn at index \<open>n\<close> or later.\<close>

definition fresh_blocks :: "env \<Rightarrow> nat \<Rightarrow> block list \<Rightarrow> bool" where
  "fresh_blocks env n bs \<longleftrightarrow> distinct (map uid bs) \<and> (\<forall>k\<ge>n. env_uuid env k \<notin> uid ` set bs)"

definition doc_inv :: "env \<Rightarrow> sys \<Rightarrow> bool" where
  "doc_inv env s \<longleftrightarrow> fresh_blocks env (uuid_next s) (doc_blocks (store s))"

text \<open>
  What the interface guarantees of a user action on the document in the state \<open>s\<close>:
  blocks it inserts have fresh uids, distinct from the blocks that stay; a merge starts
  from a block of the document, and for blocks of different types the blocks
  \<open>switchToBlockType\<close> leaves over beyond the first are fresh too.
\<close>

fun doc_ok :: "env \<Rightarrow> sys \<Rightarrow> action \<Rightarrow> bool" where
  "doc_ok env s (ReplaceBlocks uids new) \<longleftrightarrow>
     fresh_blocks env (uuid_next s) new
     \<and> uid ` set new \<inter> (uid ` set (doc_blocks (store s)) - set uids) = {}"
| "doc_ok env s (ResetBlocks bs) \<longleftrightarrow> fresh_blocks env (uuid_next s) bs"
| "doc_ok env s (MergeBlocks a b) \<longleftrightarrow>
     uid a \<in> uid ` set (doc_blocks (store s))
     \<and> (block_name a \<noteq> block_name b \<longrightarrow>
        (\<forall>c rest. env_switch env b (block_name a) = Inr (Some (c # rest)) \<longrightarrow>
           fresh_blocks env (uuid_next s) (a # rest)
           \<and> uid ` set rest \<inter> (uid ` set (doc_blocks (store s)) - {uid a, uid b}) = {}))"
| "doc_ok env s _ \<longleftrightarrow> True"

section \<open>The document through a nested dispatch\<close>

lemma quiet_doc_step [simp]: "quiet a \<Longrightarrow> doc_step d a = d"
  by (cases a) simp_all

lemma doc_after_quiet: "\<forall>a\<in>set acts. quiet a \<Longrightarrow> doc_after acts d = d"
  by (induction acts arbitrary: d) simp_all

lemma reduce_doc [simp]: "doc_blocks (reduce st a) = doc_step (doc_blocks st) a"
  by (cases a) simp_all

lemma handle_quiet:
  "handle env n st a = Inr (effs, n') \<Longrightarrow> quiet a \<Longrightarrow> Dispatch b \<in> set effs \<Longrightarrow> quiet b"
  by (cases a)
     (auto simp: effect_simps with_uuids_def Let_def
           split: option.splits sum.splits if_splits list.splits)

lemma handle_settled:
  "handle env n st a = Inr (effs, n') \<Longrightarrow> Dispatch b \<in> set effs \<Longrightarrow> quiet b \<or> doc_leaf b"
  by (cases a)
     (auto simp: effect_simps with_uuids_def Let_def
           split: option.splits sum.splits if_splits list.splits)

lemma handle_uuid_mono: "handle env n st a = Inr (effs, n') \<Longrightarrow> n \<le> n'"
  by (cases a) (auto simp: with_uuids_def split: sum.splits)

lemma handle_doc_leaf: "doc_leaf a \<Longrightarrow> handle env n st a = Inr ([], n)"
  by (cases a) simp_all

lemma dispatched_set: "b \<in> set (dispatched es) \<longleftrightarrow> Dispatch b \<in> set es"
  by (induction es rule: dispatched.induct) auto

text \<open>
  A nested dispatch of effects whose actions are quiet or reduced only changes the
  document as those actions, in order, do; it only draws further \<open>uuid()\<close>s.
\<close>

lemma handle_effects_doc:
  assumes h: "handle env n st a = Inr (effs, n')" and a: "quiet a \<or> doc_leaf a"
  shows "doc_after (dispatched effs) d = d"
proof (cases "quiet a")
  case True
  then have "\<forall>b\<in>set (dispatched effs). quiet b" using handle_quiet [OF h] by (simp add: dispatched_set)
  then show ?thesis by (rule doc_after_quiet)
next
  case False
  with a h handle_doc_leaf [of a env n st] show ?thesis by simp
qed

lemma exec_doc:
  "exec env s es = Inr s' \<Longrightarrow> \<forall>b. Dispatch b \<in> set es \<longrightarrow> quiet b \<or> doc_leaf b \<Longrightarrow>
     doc_blocks (store s') = doc_after (dispatched es) (doc_blocks (store s)) \<and> uuid_next s \<le> uuid_next s'"
proof (induction env s es arbitrary: s' rule: exec_induct)
  case (Nil env s)
  then show ?case by simp
next
  case (Dispatch env s a es)
  obtain effs n' s1 where h: "handle env (uuid_next s) (reduce (store s) a) a = Inr (effs, n')"
    and e1: "exec env (s\<lparr>store := reduce (store s) a, uuid_next := n',
                         action_log := action_log s @ [a]\<rparr>) effs = Inr s1"
    and e2: "exec env s1 es = Inr s'"
    using Dispatch.prems(1) by (auto split: sum.splits prod.splits)
  have a: "quiet a \<or> doc_leaf a" using Dispatch.prems(2) by simp
  have es: "\<forall>b. Dispatch b \<in> set es \<longrightarrow> quiet b \<or> doc_leaf b" using Dispatch.prems(2) by simp
  have effs: "\<forall>b. Dispatch b \<in> set effs \<longrightarrow> quiet b \<or> doc_leaf b" using handle_settled [OF h] by blast
  from Dispatch.IH(1) [OF h e1 effs]
  have s1: "doc_blocks (store s1) = doc_step (doc_blocks (store s)) a" "n' \<le> uuid_next s1"
    using handle_effects_doc [OF h a] by simp_all
  from Dispatch.IH(2) [OF h e1 e2 es] s1 handle_uuid_mono [OF h] show ?case by simp
next
  case (Perform env s e es)
  have "exec env (s\<lparr>performed := performed s @ [e]\<rparr>) es = Inr s'"
    using Perform.prems(1) exec_perform [OF Perform.hyps] by simp
  moreover have "\<forall>b. Dispatch b \<in> set es \<longrightarrow> quiet b \<or> doc_leaf b" using Perform.prems(2) by simp
  ultimately show ?case using Perform.IH dispatched_perform [OF Perform.hyps] by simp
qed

lemma doc_step_non_leaf [simp]: "\<not> doc_leaf a \<Longrightarrow> doc_step d a = d"
  by (cases a) simp_all

text \<open>A user dispatch: the action is reduced, then its handler's effects run.\<close>

lemma exec_user_doc:
  assumes "exec env s [Dispatch a] = Inr s'"
  shows "\<exists>effs n'. handle env (uuid_next s) (reduce (store s) a) a = Inr (effs, n')
     \<and> doc_blocks (store s') = doc_after (dispatched effs) (doc_step (doc_blocks (store s)) a)
     \<and> n' \<le> uuid_next s'"
proof -
  obtain effs n' where h: "handle env (uuid_next s) (reduce (store s) a) a = Inr (effs, n')"
    and e: "exec env (s\<lparr>store := reduce (store s) a, uuid_next := n',
                        action_log := action_log s @ [a]\<rparr>) effs = Inr s'"
    using assms by (auto split: sum.splits prod.splits)
  have "\<forall>b. Dispatch b \<in> set effs \<longrightarrow> quiet b \<or> doc_leaf b" using handle_settled [OF h] by blast
  from exec_doc [OF e this] h show ?thesis by auto
qed

section \<open>Fresh blocks\<close>

lemma fresh_blocks_mono: "fresh_blocks env n d \<Longrightarrow> n \<le> m \<Longrightarrow> fresh_blocks env m d"
  by (auto simp: fresh_blocks_def)

lemma replace_blocks_Nil_uids [simp]: "replace_blocks [] new d = d"
  by (induction d) simp_all

text \<open>Replacing blocks by blocks with fresh uids keeps the document fresh.\<close>

lemma fresh_replace:
  assumes "fresh_blocks env n d" "distinct (map uid new)"
    and "uid ` set new \<inter> (uid ` set d - set uids) = {}"
    and "\<forall>k\<ge>m. env_uuid env k \<notin> uid ` set new" "n \<le> m"
  shows "fresh_blocks env m (replace_blocks uids new d)"
proof (cases "uids = []")
  case True
  with assms(1,5) show ?thesis by (simp add: fresh_blocks_mono)
next
  case False
  have "uids_distinct (replace_blocks uids new d)"
    using assms(1-3) False by (intro replace_blocks_uids_distinct) (auto simp: fresh_blocks_def uids_distinct_def)
  moreover have "\<forall>k\<ge>m. env_uuid env k \<notin> uid ` set (replace_blocks uids new d)"
  proof (intro allI impI)
    fix k assume "m \<le> k"
    then have "env_uuid env k \<notin> uid ` set d" "env_uuid env k \<notin> uid ` set new"
      using assms(1,4,5) by (auto simp: fresh_blocks_def)
    moreover have "uid ` set (replace_blocks uids new d) \<subseteq> uid ` set d \<union> uid ` set new"
      using set_replace_blocks [of uids new d] by auto
    ultimately show "env_uuid env k \<notin> uid ` set (replace_blocks uids new d)" by blast
  qed
  ultimately show ?thesis by (simp add: fresh_blocks_def uids_distinct_def)
qed

text \<open>One block whose uid is a \<open>uuid()\<close> drawn at index \<open>k\<close>, at or after \<open>n\<close> and before \<open>m\<close>.\<close>

lemma fresh_replace_uuid:
  assumes "fresh_blocks env n d" "inj (env_uuid env)" "n \<le> k" "k < m" "uid p = env_uuid env k"
  shows "fresh_blocks env m (replace_blocks us [p] d)"
proof (rule fresh_replace [OF assms(1)])
  show "uid ` set [p] \<inter> (uid ` set d - set us) = {}" using assms(1,3,5) by (auto simp: fresh_blocks_def)
  show "\<forall>j\<ge>m. env_uuid env j \<notin> uid ` set [p]" using assms(2,4,5) by (auto simp: inj_eq)
qed (use assms(3,4) in simp_all)

section \<open>The handlers that change the document\<close>

lemma merge_blocks_doc:
  assumes "merge_blocks reg sw a b = Inr effs"
  shows "doc_after (dispatched effs) d = d \<or>
    (\<exists>a' c rest. doc_after (dispatched effs) d = replace_blocks [uid a, uid b] (a' # rest) d
       \<and> uid a' = uid a
       \<and> (if block_name a = block_name b then rest = [] else sw b (block_name a) = Inr (Some (c # rest))))"
  using assms by (auto simp: merge_blocks_def Let_def split: option.splits if_splits list.splits sum.splits)

lemma convert_block_to_static_doc:
  "convert_block_to_static reg v st u = Inr effs \<Longrightarrow>
     \<exists>us p. doc_after (dispatched effs) d = replace_blocks us [p] d \<and> uid p = v"
  by (fastforce simp: convert_block_to_static_def create_block_def split: option.splits sum.splits)

lemma convert_block_to_reusable_doc:
  "convert_block_to_reusable reg rid v st u = Inr effs \<Longrightarrow>
     \<exists>us p. doc_after (dispatched effs) d = replace_blocks us [p] d \<and> uid p = v"
  by (fastforce simp: convert_block_to_reusable_def create_block_def Let_def split: option.splits sum.splits)

lemma setup_editor_doc:
  assumes "setup_editor reg parse fresh post settings = Inr effs"
  shows "doc_after (dispatched effs) d = d
    \<or> (content_raw post \<noteq> [] \<and> doc_after (dispatched effs) d = parse (content_raw post))
    \<or> (\<exists>t bs. content_raw post = [] \<and> template settings = Some t \<and> template_blocks reg fresh 0 t = Inr bs
         \<and> doc_after (dispatched effs) d = bs)"
  using assms by (auto simp: setup_editor_def Let_def split: option.splits sum.splits if_splits)

lemma not_quiet_cases [consumes 1, case_names Replace Reset Merge Setup Static Reusable]:
  assumes "\<not> quiet a"
    and "\<And>uids new. a = ReplaceBlocks uids new \<Longrightarrow> P" "\<And>bs. a = ResetBlocks bs \<Longrightarrow> P"
    and "\<And>x y. a = MergeBlocks x y \<Longrightarrow> P" "\<And>post settings. a = SetupEditor post settings \<Longrightarrow> P"
    and "\<And>u. a = ConvertBlockToStatic u \<Longrightarrow> P" "\<And>u. a = ConvertBlockToReusable u \<Longrightarrow> P"
  shows P
  using assms by (cases a) auto

lemma with_uuids_Inr_iff: "with_uuids n r = Inr (effs, n') \<longleftrightarrow> r = Inr effs \<and> n' = n"
  by (auto simp: with_uuids_def split: sum.splits)

text \<open>Blocks whose uids are the \<open>uuid()\<close>s drawn at \<open>n\<close>, \<open>n + 1\<close>, \<dots>, \<open>n + l - 1\<close>.\<close>

lemma fresh_uuid_range:
  assumes inj: "inj (env_uuid env)" and bs: "map uid bs = map (\<lambda>i. env_uuid env (n + i)) [0..<l]"
    and l: "n + l \<le> m"
  shows "fresh_blocks env m bs"
proof -
  have inj': "inj (\<lambda>i. env_uuid env (n + i))"
    by (rule injI) (auto dest: injD [OF inj])
  have "distinct (map (\<lambda>i. env_uuid env (n + i)) [0..<l])"
    by (simp add: distinct_map inj_on_subset [OF inj' subset_UNIV])
  then have "distinct (map uid bs)" by (simp only: bs)
  moreover have "\<forall>k\<ge>m. env_uuid env k \<notin> uid ` set bs"
  proof (intro allI impI notI)
    fix k assume k: "m \<le> k" and "env_uuid env k \<in> uid ` set bs"
    then have "env_uuid env k \<in> set (map (\<lambda>i. env_uuid env (n + i)) [0..<l])"
      by (simp only: bs [symmetric] set_map)
    then obtain i where "i < l" "env_uuid env k = env_uuid env (n + i)" by auto
    then have "k = n + i" "i < l" using injD [OF inj] by auto
    with k l show False by simp
  qed
  ultimately show ?thesis by (simp add: fresh_blocks_def)
qed

section \<open>Preservation\<close>

lemma doc_inv_user:
  assumes inj: "inj (env_uuid env)" and parse: "\<forall>raw. fresh_blocks env 0 (env_parse env raw)"
    and inv: "doc_inv env s" and ok: "doc_ok env s a" and ex: "exec env s [Dispatch a] = Inr s'"
  shows "doc_inv env s'"
proof -
  let ?n = "uuid_next s" and ?d = "doc_blocks (store s)" and ?m = "uuid_next s'"
  obtain effs n' where h: "handle env ?n (reduce (store s) a) a = Inr (effs, n')"
    and doc: "doc_blocks (store s') = doc_after (dispatched effs) (doc_step ?d a)" and n': "n' \<le> ?m"
    using exec_user_doc [OF ex] by blast
  have fd: "fresh_blocks env ?n ?d" using inv by (simp add: doc_inv_def)
  have mono: "?n \<le> ?m" using handle_uuid_mono [OF h] n' by simp
  show ?thesis
  proof (cases "quiet a")
    case True
    then have "doc_blocks (store s') = ?d" using doc handle_effects_doc [OF h] by simp
    with fd mono show ?thesis by (simp add: doc_inv_def fresh_blocks_mono)
  next
    case False
    then show ?thesis
    proof (cases rule: not_quiet_cases)
      case (Replace uids new)
      with h doc have "doc_blocks (store s') = replace_blocks uids new ?d" by simp
      moreover have "fresh_blocks env ?m (replace_blocks uids new ?d)"
        using ok Replace mono by (intro fresh_replace [OF fd]) (auto simp: fresh_blocks_def)
      ultimately show ?thesis by (simp add: doc_inv_def)
    next
      case (Reset bs)
      with h doc ok mono show ?thesis by (simp add: doc_inv_def fresh_blocks_mono)
    next
      case (Merge x y)
      with h have mb: "merge_blocks (env_registry env) (env_switch env) x y = Inr effs" "n' = ?n"
        by (simp_all add: with_uuids_Inr_iff)
      have d: "doc_blocks (store s') = doc_after (dispatched effs) ?d" using doc Merge by simp
      from merge_blocks_doc [OF mb(1), of ?d] show ?thesis
      proof
        assume "doc_after (dispatched effs) ?d = ?d"
        with d fd mono show ?thesis by (simp add: doc_inv_def fresh_blocks_mono)
      next
        assume "\<exists>a' c rest. doc_after (dispatched effs) ?d = replace_blocks [uid x, uid y] (a' # rest) ?d
          \<and> uid a' = uid x \<and> (if block_name x = block_name y then rest = []
                                 else env_switch env y (block_name x) = Inr (Some (c # rest)))"
        then obtain a' c rest where r: "doc_after (dispatched effs) ?d = replace_blocks [uid x, uid y] (a' # rest) ?d"
          and a': "uid a' = uid x"
          and sw: "if block_name x = block_name y then rest = []
                   else env_switch env y (block_name x) = Inr (Some (c # rest))" by blast
        have xd: "uid x \<in> uid ` set ?d" using ok Merge by simp
        have rest: "fresh_blocks env ?n (x # rest)
            \<and> uid ` set rest \<inter> (uid ` set ?d - {uid x, uid y}) = {}"
        proof (cases "block_name x = block_name y")
          case True
          with sw xd fd show ?thesis by (auto simp: fresh_blocks_def)
        next
          case False
          with sw ok Merge show ?thesis by simp
        qed
        have "fresh_blocks env ?m (replace_blocks [uid x, uid y] (a' # rest) ?d)"
          using rest a' mono by (intro fresh_replace [OF fd]) (auto simp: fresh_blocks_def)
        with d r show ?thesis by (simp add: doc_inv_def)
      qed
    next
      case (Setup post settings)
      with h have sb: "setup_editor (env_registry env) (env_parse env) (\<lambda>i. env_uuid env (?n + i)) post settings
          = Inr effs" "n' = ?n + setup_uuids post settings"
        by (simp_all add: with_uuids_Inr_iff)
      have d: "doc_blocks (store s') = doc_after (dispatched effs) ?d" using doc Setup by simp
      from setup_editor_doc [OF sb(1), of ?d] consider
          "doc_after (dispatched effs) ?d = ?d"
        | "doc_after (dispatched effs) ?d = env_parse env (content_raw post)"
        | t bs where "content_raw post = []" "template settings = Some t"
            "template_blocks (env_registry env) (\<lambda>i. env_uuid env (?n + i)) 0 t = Inr bs"
            "doc_after (dispatched effs) ?d = bs"
        by blast
      then show ?thesis
      proof cases
        case 1
        with d fd mono show ?thesis by (simp add: doc_inv_def fresh_blocks_mono)
      next
        case 2
        have "fresh_blocks env ?m (env_parse env (content_raw post))"
          using parse fresh_blocks_mono [of env 0 _ ?m] by blast
        with d 2 show ?thesis by (simp add: doc_inv_def)
      next
        case (3 t bs)
        have "map uid bs = map (\<lambda>i. env_uuid env (?n + i)) [0..<length t]"
          using template_blocks_shape [OF 3(3)] by simp
        moreover have "?n + length t \<le> ?m" using sb(2) n' 3(1,2) by (simp add: setup_uuids_def)
        ultimately have "fresh_blocks env ?m bs" by (rule fresh_uuid_range [OF inj])
        with d 3(4) show ?thesis by (simp add: doc_inv_def)
      qed
    next
      case (Static u)
      with h have "convert_block_to_static (env_registry env) (env_uuid env ?n) (reduce (store s) a) u
          = Inr effs" "n' = Suc ?n"
        by (simp_all add: with_uuids_Inr_iff)
      from convert_block_to_static_doc [OF this(1), of ?d] obtain us p
        where "doc_after (dispatched effs) ?d = replace_blocks us [p] ?d" "uid p = env_uuid env ?n" by blast
      moreover have "fresh_blocks env ?m (replace_blocks us [p] ?d)"
        using fresh_replace_uuid [OF fd inj, of ?n ?m p us] calculation(2) \<open>n' = Suc ?n\<close> n' by simp
      ultimately show ?thesis using doc Static by (simp add: doc_inv_def)
    next
      case (Reusable u)
      with h have "convert_block_to_reusable (env_registry env) (env_uuid env ?n) (env_uuid env (Suc ?n))
          (reduce (store s) a) u = Inr effs" "n' = Suc (Suc ?n)"
        by (simp_all add: with_uuids_Inr_iff)
      from convert_block_to_reusable_doc [OF this(1), of ?d] obtain us p
        where "doc_after (dispatched effs) ?d = replace_blocks us [p] ?d" "uid p = env_uuid env (Suc ?n)" by blast
      moreover have "fresh_blocks env ?m (replace_blocks us [p] ?d)"
        using fresh_replace_uuid [OF fd inj, of "Suc ?n" ?m p us] calculation(2) \<open>n' = Suc (Suc ?n)\<close> n'
        by simp
      ultimately show ?thesis using doc Reusable by (simp add: doc_inv_def)
    qed
  qed
qed

text \<open>A response's callback dispatches only quiet actions.\<close>

lemma callback_quiet:
  "callback parse r resp = Some (Inr effs) \<Longrightarrow> Dispatch b \<in> set effs \<Longrightarrow> quiet b"
  by (induction parse r resp rule: callback.induct)
     (auto simp: request_post_update_done_def request_post_update_fail_def trash_post_done_def
                 trash_post_fail_def fetch_reusable_blocks_done_def fetch_reusable_blocks_fail_def
                 save_reusable_block_done_def save_reusable_block_fail_def split: sum.splits)

lemma doc_inv_respond:
  assumes "callback (env_parse env) r resp = Some (Inr effs)" "exec env s effs = Inr s'" "doc_inv env s"
  shows "doc_inv env s'"
proof -
  have q: "\<forall>b. Dispatch b \<in> set effs \<longrightarrow> quiet b" using callback_quiet [OF assms(1)] by blast
  then have "doc_blocks (store s') = doc_blocks (store s)" "uuid_next s \<le> uuid_next s'"
    using exec_doc [OF assms(2)] doc_after_quiet [of "dispatched effs"] by (auto simp: dispatched_set)
  with assms(3) show ?thesis by (simp add: doc_inv_def fresh_blocks_mono)
qed

lemma doc_inv_reach:
  assumes "editor_reach env (doc_ok env) s0 s p" "doc_inv env s0"
    and "inj (env_uuid env)" "\<forall>raw. fresh_blocks env 0 (env_parse env raw)"
  shows "doc_inv env s"
  using assms(1)
proof induction
  case init
  then show ?case using assms(2) by simp
next
  case (user s p a s')
  then show ?case using doc_inv_user [OF assms(3,4)] by blast
next
  case (respond s p r q resp effs s')
  then show ?case using doc_inv_respond by blast
qed

section \<open>Distinct uids in every reachable state\<close>

text \<open>
  C23. In every interleaving of user actions and server responses, the blocks of the
  document keep distinct uids, provided they start distinct and the interface's own block
  edits, the merges it asks for and the parser bring fresh uids: the handlers of
  \<open>MERGE_BLOCKS\<close>, \<open>SETUP_EDITOR\<close> and the two conversions, run nested with everything
  they dispatch, never duplicate a uid, the \<open>uuid()\<close>s they draw being fresh.
\<close>

theorem document_uids_distinct:
  assumes "editor_reach env (doc_ok env) s0 s p" "doc_inv env s0"
    and "inj (env_uuid env)" "\<forall>raw. fresh_blocks env 0 (env_parse env raw)"
  shows "uids_distinct (doc_blocks (store s))"
  using doc_inv_reach [OF assms] by (simp add: doc_inv_def fresh_blocks_def uids_distinct_def)

end
