(* ===== verification/Editor_Runs.thy ===== *)
theory Editor_Runs
  imports Document_Invariant
begin

text \<open>
  Whole dispatches through the effects middleware, as \<open>exec\<close> runs them: each action
  reduced, then its handler run, with everything the handler dispatches nested. Three
  behaviours of \<open>src/editor/effects.js\<close> that only show at this level: the meta box
  reports, each recorded by the reducer before its handler reads the state, never
  release the ready hold; an autosave of a new post sends the save with the status
  \<open>draft\<close> it has just edited in; converting a block to a reusable one leaves the
  rendered document as it was.
\<close>

section \<open>The rendered document\<close>

text \<open>
  What the editor shows of a block: a placeholder of type \<open>core/reusable-block\<close> shows
  the type and attributes of the reusable block its \<open>ref\<close> names, when the store has
  it; any other block shows its own. The abstraction forgets the uids.
\<close>

definition rendered_block :: "editor_state \<Rightarrow> block \<Rightarrow> string \<times> attrs" where
  "rendered_block st b =
     (if block_name b = ''core/reusable-block''
      then (case referenced_reusable_block st b of
              Some rb \<Rightarrow> (rb_type rb, rb_attributes rb)
            | None \<Rightarrow> (block_name b, attributes b))
      else (block_name b, attributes b))"

definition rendered :: "editor_state \<Rightarrow> (string \<times> attrs) list" where
  "rendered st = map (rendered_block st) (doc_blocks st)"

section \<open>Meta box reports\<close>

text \<open>
  C8. Any sequence of \<open>META_BOX_LOADED\<close> reports, in any order and with repetitions,
  dispatched through the middleware, only records the loads: no effect is performed, in
  particular the ready hold \<open>INITIALIZE_META_BOX_STATE\<close> took is never released, since
  each handler reads a state in which its own location is already loaded.
\<close>

theorem meta_box_reports_release_nothing:
  "\<exists>s'. exec env s (map (\<lambda>l. Dispatch (MetaBoxLoaded l)) ls) = Inr s'
     \<and> performed s' = performed s
     \<and> meta_boxes (store s') = fold mark_meta_box_loaded ls (meta_boxes (store s))"
proof (induction ls arbitrary: s)
  case Nil
  then show ?case by simp
next
  case (Cons l ls)
  let ?s1 = "s\<lparr>store := reduce (store s) (MetaBoxLoaded l), uuid_next := uuid_next s,
                action_log := action_log s @ [MetaBoxLoaded l]\<rparr>"
  have "exec env s (map (\<lambda>l. Dispatch (MetaBoxLoaded l)) (l # ls)) =
      exec env ?s1 (map (\<lambda>l. Dispatch (MetaBoxLoaded l)) ls)"
    by (simp add: meta_box_loaded_marked)
  with Cons.IH [of ?s1] show ?case by simp
qed

section \<open>Autosave of a new post\<close>

text \<open>
  C15. An autosave of a saveable new post, dispatched through the middleware, starts
  exactly one request: the save of the current post, whose data and edits carry the
  status \<open>draft\<close>, because the \<open>EDIT_POST\<close> is reduced before \<open>REQUEST_POST_UPDATE\<close>
  reads the edits; and it opens one post-update transaction.
\<close>

theorem autosave_new_post_saves_draft:
  assumes "saveable (store s)" "is_edited_post_new (store s)"
  shows "\<exists>s' toSend. exec env s [Dispatch Autosave] = Inr s'
     \<and> performed s' = performed s @ [Request (SavePostRequest (current_post_type (store s)) toSend
          (current_post (store s)) (post_edits (store s) ++ [''status'' \<mapsto> JStr ''draft'']))]
     \<and> toSend ''status'' = Some (JStr ''draft'')
     \<and> begun (action_log s') = begun (action_log s) + 1"
proof -
  have "autosave (store s) = [Dispatch (EditPost [''status'' \<mapsto> JStr ''draft'']), Dispatch RequestPostUpdate]"
    using assms new_post_not_published [OF assms(2)] by (simp add: autosave_def)
  then show ?thesis
    by (simp add: request_post_update_def post_to_send_def map_add_def)
qed

section \<open>Converting a block to a reusable block\<close>

lemma exec_convert_to_reusable:
  assumes "exec env s [Dispatch (ConvertBlockToReusable u)] = Inr s'"
  shows "\<exists>old rbt. get_block (store s) u = Some old
     \<and> env_registry env ''core/reusable-block'' = Some rbt
     \<and> doc_blocks (store s') = replace_blocks [uid old]
          [\<lparr>uid = env_uuid env (Suc (uuid_next s)), block_name = ''core/reusable-block'',
            attributes = normalize_attrs (bt_attributes rbt) [''ref'' \<mapsto> JStr (env_uuid env (uuid_next s))]\<rparr>]
          (doc_blocks (store s))
     \<and> reusable_blocks (store s') = (reusable_blocks (store s))(env_uuid env (uuid_next s) \<mapsto>
          create_reusable_block (env_uuid env (uuid_next s)) (block_name old) (attributes old))"
  using assms
  by (auto simp: convert_block_to_reusable_def save_reusable_block_def get_reusable_block_def
                 create_reusable_block_def create_block_def with_uuids_def Let_def
           split: option.splits sum.splits if_splits)

text \<open>
  C37. Converting a static block of the document to a reusable block, through the
  middleware with the save it starts, refines the identity on the rendered document: the
  placeholder that replaces the block shows exactly the block's type and attributes, and
  every other block shows what it showed, provided no placeholder already refers to the
  id the conversion draws and the placeholder type declares \<open>ref\<close>.
\<close>

theorem convert_to_reusable_rendered:
  assumes ex: "exec env s [Dispatch (ConvertBlockToReusable u)] = Inr s'"
    and dist: "uids_distinct (doc_blocks (store s))"
    and static: "\<forall>b\<in>set (doc_blocks (store s)). uid b = u \<longrightarrow> block_name b \<noteq> ''core/reusable-block''"
    and fresh: "\<forall>b\<in>set (doc_blocks (store s)). block_name b = ''core/reusable-block'' \<longrightarrow>
                  js_string (attributes b ''ref'') \<noteq> env_uuid env (uuid_next s)"
    and ref: "\<forall>rbt. env_registry env ''core/reusable-block'' = Some rbt \<longrightarrow> ''ref'' \<in> fst ` set (bt_attributes rbt)"
  shows "rendered (store s') = rendered (store s)"
proof -
  let ?rid = "env_uuid env (uuid_next s)"
  obtain old rbt where old: "get_block (store s) u = Some old"
    and rbt: "env_registry env ''core/reusable-block'' = Some rbt"
    and doc': "doc_blocks (store s') = replace_blocks [uid old]
          [\<lparr>uid = env_uuid env (Suc (uuid_next s)), block_name = ''core/reusable-block'',
            attributes = normalize_attrs (bt_attributes rbt) [''ref'' \<mapsto> JStr ?rid]\<rparr>]
          (doc_blocks (store s))"
    and rb': "reusable_blocks (store s') = (reusable_blocks (store s))(?rid \<mapsto>
          create_reusable_block ?rid (block_name old) (attributes old))"
    using exec_convert_to_reusable [OF ex] by blast
  let ?p = "\<lparr>uid = env_uuid env (Suc (uuid_next s)), block_name = ''core/reusable-block'',
             attributes = normalize_attrs (bt_attributes rbt) [''ref'' \<mapsto> JStr ?rid]\<rparr>"
  from get_block_Some [OF old] obtain pre post where doc: "doc_blocks (store s) = pre @ old # post"
    and u: "uid old = u"
    by (auto dest: split_list)
  have d': "doc_blocks (store s') = pre @ ?p # post"
    using doc' doc replace_blocks_single [of pre old post "[?p]"] dist by simp
  have other: "rendered_block (store s') b = rendered_block (store s) b" if "b \<in> set pre \<or> b \<in> set post" for b
    using that fresh doc rb' by (auto simp: rendered_block_def referenced_reusable_block_def get_reusable_block_def)
  have "attributes ?p ''ref'' = Some (JStr ?rid)"
    using ref rbt by (simp add: normalize_attrs_declared)
  then have "rendered_block (store s') ?p = (block_name old, attributes old)"
    using rb' by (simp add: rendered_block_def referenced_reusable_block_def get_reusable_block_def
                            js_string_def create_reusable_block_def)
  moreover have "rendered_block (store s) old = (block_name old, attributes old)"
    using static doc u by (simp add: rendered_block_def)
  ultimately show ?thesis
    using d' doc other by (simp add: rendered_def)
qed

end
