(* ===== verification/Spec2Isabelle.thy ===== *)
theory Spec2Isabelle
  imports Examples Block_Switch Category_Select Page_Attributes Run_Termination Optimist Editor_Runs
begin

text \<open>
  \<^bold>\<open>A verification library for the editor effects of lucasprogamer/gutenberg.\<close>

  \<^bold>\<open>The program.\<close> The repository holds four files. \<open>src/editor/effects.js\<close> is the
  core: a table from Redux action types to effect handlers. The effects middleware calls
  a handler with the action and the store after the reducer has seen the action; the
  handler reads the store through selectors, dispatches further actions (each processed
  at once, reducer and handler), starts requests on the REST client \<open>wp.api\<close> whose
  callbacks dispatch more actions later, and touches the browser (history entry,
  redirect, the jQuery ready hold). \<open>src/blocks/library/quote/index.js\<close> registers the
  quote block type, \<open>src/blocks/query-panel/category-select.js\<close> and
  \<open>src/edit-post/components/sidebar/page-attributes/index.js\<close> are view components.

  \<^bold>\<open>Theories and what they model.\<close>
  \<^item> \<open>Prelude\<close>: JSON values, objects as maps (spread is \<open>++\<close>), JavaScript truthiness
    and string conversion, exceptions (\<open>js_error\<close>) and property reads that throw on
    \<open>undefined\<close>/\<open>null\<close> (\<open>js_prop\<close>, \<open>js_first\<close>), lodash \<open>get\<close>/\<open>castArray\<close>,
    \<open>Array.map\<close> with a throwing callback, number printing (injective: its left
    inverse \<open>decimal_value\<close>); the collection \<open>effect_simps\<close> of handler equations.
  \<^item> \<open>Editor_Actions\<close>: posts, blocks, reusable blocks, REST errors (records); the action
    vocabulary (\<open>action\<close>, one constructor per action type, the action creators of
    \<open>./actions\<close> being these constructors); requests with what their callbacks close
    over; the handler's outside effects (\<open>effect\<close>); the
    store snapshot and the selectors the handlers read (\<open>./selectors\<close> is not under
    \<open>src/\<close>: \<open>isEditedPostNew\<close>, \<open>isCurrentPostPublished\<close>, \<open>getDirtyMetaBoxes\<close>,
    \<open>getBlock\<close>, \<open>getReusableBlock\<close> are modelled from the spec; \<open>saveable\<close>, \<open>dirty\<close> and
    the serialized content are recorded values).
  \<^item> \<open>Post_Effects\<close>: \<open>REQUEST_POST_UPDATE\<close> (\<open>request_post_update\<close>, callbacks
    \<open>request_post_update_done\<close>/\<open>_fail\<close>, composed by \<open>request_post_update_run\<close>),
    \<open>REQUEST_POST_UPDATE_SUCCESS\<close>, \<open>REQUEST_POST_UPDATE_FAILURE\<close> and the trash handlers,
    effects.js lines 54--199.
  \<^item> \<open>Block_Document\<close>: the blocks API interface (registry entries with schema and
    \<open>merge\<close>, \<open>createBlock\<close>, parser, serializer) and the \<open>REPLACE_BLOCKS\<close> reducer over
    the ordered document, with the invariant that uids are distinct (modelled from the
    spec: not under \<open>src/\<close>).
  \<^item> \<open>Block_Merge\<close>: \<open>MERGE_BLOCKS\<close> (lines 200--242) with \<open>switchToBlockType\<close> a
    parameter that may throw. \<open>Editor_Setup\<close>: \<open>AUTOSAVE\<close> and \<open>SETUP_EDITOR\<close> (243--301).
    \<open>Meta_Boxes\<close>: \<open>INITIALIZE_META_BOX_STATE\<close> and \<open>META_BOX_LOADED\<close> (302--322).
    \<open>Reusable_Blocks\<close>: fetch, save and the two conversions (323--397).
  \<^item> \<open>Effects_Router\<close>: the action router \<open>handle\<close> (the default export), the part of the
    reducer the handlers depend on (\<open>reduce\<close>), and \<open>run\<close>, the middleware's
    depth-first processing of dispatched actions with one unit of fuel per effect; an
    exception aborts the run. \<open>Examples\<close>: concrete data for the witnesses.
  \<^item> \<open>Quote_Block\<close>: the quote block type of \<open>quote/index.js\<close>: schema, the editable-value
    conversions, the \<open>from\<close> transforms (\<open>quote_from_content\<close>) and the \<open>to\<close> transforms
    (\<open>quote_to\<close>) over generic attributes with every exception, the edit view's
    attribute updates, and the element tree \<open>save\<close> returns (\<open>quote_save\<close>).
  \<^item> \<open>Block_Switch\<close>: \<open>switchToBlockType\<close> of the blocks API over a table of transforms
    (modelled from its interface), instantiated with the quote's transforms as the
    switcher of \<open>MERGE_BLOCKS\<close>.
  \<^item> \<open>Category_Select\<close>: the render guard and props of \<open>CategorySelect\<close>, with
    \<open>buildTermsTree\<close> a parameter. \<open>Page_Attributes\<close>: the panel view, its \<open>connect\<close>
    wiring, and the edit-post preferences it reads and toggles (modelled from their
    interface).
  \<^item> \<open>Run_Termination\<close>: ranks of actions and termination of \<open>run\<close>.
    \<open>Nested_Dispatch\<close>: \<open>exec\<close>, the nested \<open>store.dispatch\<close> recursion of the
    JavaScript code; whenever the loop \<open>run\<close> returns, it returns \<open>exec\<close>'s result.
    Both record the actions the store reduces, in order, in \<open>action_log\<close>;
    \<open>exec_induct\<close> is the induction rule over a nested dispatch.
  \<^item> \<open>Async_Editor\<close>: the editor between requests. \<open>callback\<close> is the \<open>done\<close>/\<open>fail\<close>
    (\<open>then\<close>) callback each request of effects.js was started with, applied to a
    \<open>response\<close> of the server; \<open>editor_reach\<close> is the inductive interleaving of user
    dispatches and responses, in any order, each run by \<open>exec\<close>, with the requests in
    flight kept in a list (the browser's event loop, not under \<open>src/\<close>); the user's
    actions are those a parameter \<open>ok\<close> admits (what the view components dispatch).
  \<^item> \<open>Document_Invariant\<close>: which actions can change the document (\<open>quiet\<close>,
    \<open>doc_leaf\<close>), the document after a nested dispatch (\<open>exec_doc\<close>), the invariant
    \<open>doc_inv\<close> (distinct uids, none a \<open>uuid()\<close> not yet drawn) and \<open>doc_ok\<close>, what the
    interface's own block edits and merges guarantee (fresh uids).
  \<^item> \<open>Editor_Runs\<close>: whole dispatches through the middleware (\<open>exec\<close>) of the meta box
    reports, of \<open>AUTOSAVE\<close> and of \<open>CONVERT_BLOCK_TO_REUSABLE\<close>, and \<open>rendered\<close>, the
    document as the editor shows it (a placeholder shows the reusable block it refers to;
    modelled from the spec, the block list view is not under \<open>src/\<close>).
  \<^item> \<open>Optimist\<close>: the redux-optimist wrapper of the reducer (outside \<open>src/\<close>, modelled from
    its published behaviour) over an arbitrary inner reducer: \<open>begin_reducer\<close>,
    \<open>commit_entries\<close>, \<open>revert_entries\<close>, \<open>optimist_reduce\<close>; and \<open>save_reach\<close>, the
    inductive step relation of user actions, save starts and save callbacks under the
    one-save-at-a-time discipline, with the invariant \<open>save_inv\<close> and the abstraction
    \<open>confirmed_state\<close> (the store without the pending optimistic update).
  \<^item> \<open>Block_Document\<close> also defines the type of attributes: \<open>conforms\<close> (a fixpoint of
    the schema normalization) and \<open>block_well_typed\<close>.

  Remote calls are asynchronous: each handler that starts one is split, as the code is,
  into its synchronous part, ending with a \<open>Request\<close> effect, and one function per
  callback; \<open>..._run\<close> joins them for a given outcome. Each \<open>uuid()\<close> is taken from the
  supply \<open>env_uuid\<close>, counted in \<open>uuid_next\<close>. \<open>__\<close> is the identity (default locale).

  \<^bold>\<open>What is proved.\<close> The notice tables of a save and of a failed save (C1, C12); one
  optimistic \<open>BEGIN\<close> and exactly one of \<open>COMMIT\<close>/\<open>REVERT\<close> per save (C2); merging: a
  type without \<open>merge\<close> only moves the focus (C3), a same-type merge layers the merged
  attributes and removes the second block (C4), uids stay distinct (C16); the autosave
  guards (C5, C6); the setup actions, exactly: the blocks reset from the content or the
  template, then the post, then the new-post title (C7); converting a block to a reusable one and back restores
  its type and attributes, through the router and the run loop (C9); the trash failure
  messages (C10); the fetch normalisation (C17) and its abort on an empty item
  (C18); the save-failure message of reusable blocks (C19); the actions of the conversion to a
  reusable block, the placeholder referring to the new reusable block by \<open>ref\<close> (C20);
  an autosave of a new post, run through the middleware, sends exactly one save whose
  data carry the status \<open>draft\<close> (C15); the same conversion, run through the
  middleware, leaves the rendered document unchanged (C37, a functional refinement:
  \<open>rendered\<close> after the conversion is \<open>rendered\<close> before). Findings with theorems: the save-failure notice
  never uses the server's message (C13); the meta box handler reads a state in which the
  reducer has already recorded the report (C14), so any sequence of reports through
  the middleware performs nothing and the ready hold is never released (C8, against
  the spec's release on the last report). The quote block: a paragraph converted to
  a quote and back comes back followed by an empty quote (C21), because the final
  branch of the transform is unreachable for array values (C22); the transform's
  exception on a paragraph without children (C24); the
  markup of \<open>save\<close> (C26), which throws
  on a string paragraph the transform accepts (C27); across components, merging a
  one-paragraph quote into the paragraph before it leaves an empty quote (C28). The
  category select renders exactly on loaded data (C29); the page attributes panel's
  toggle flips its open state and two toggles restore it (C30). The optimistic
  transaction of a save, with user actions interleaved: a success keeps and a failure
  rolls back exactly the optimistic update (C32); with one save at a time the wrapper's
  state is always one snapshot and the actions since (C35, by rule induction on
  \<open>save_reach\<close>), and a failure restores the confirmed store (C36). Overlapping saves, which share the
  fixed id \<open>post-update\<close>, corrupt it: a failure of the first keeps its own update and
  drops the second's (C33), a success of the first makes the second's failure roll back
  nothing (C34). The ready hold is released at most once for any sequence of reports
  (C38). The blocks a template setup creates are well typed exactly when the types
  declare the template's attributes (C39): the template's attributes are assigned over
  \<open>createBlock\<close>'s result without the schema filtering. With any number of
  saves, trash requests and reusable-block requests in flight and their responses
  arriving in any order, the post-update transactions the store has opened and not
  closed are exactly the post saves in flight (C25, by rule induction on
  \<open>editor_reach\<close>, from the counting lemmas: only \<open>REQUEST_POST_UPDATE\<close>'s handler opens a
  transaction and starts a save, one of each, and only a save's callback closes one).
  Two saves can be in flight at once (\<open>overlapping_saves_reachable\<close>), the case of
  C33 and C34. Every request in flight can be retired: its failure callback, for any
  XHR error, runs without exception and starts no request (C11). In every such
  interleaving the document's uids stay distinct (C23, by rule induction on
  \<open>editor_reach\<close> with \<open>doc_ok\<close> as the interface's contract): the \<open>uuid()\<close> supply is
  injective, every handler that inserts blocks (the conversions, a template setup)
  draws its uids from it and counts them in \<open>uuid_next\<close>, a merge keeps the first
  block's uid, and responses only dispatch quiet actions. The hypotheses are what the
  model takes as parameters: the parser's and \<open>switchToBlockType\<close>'s blocks bring
  their own fresh uids (in the code they call \<open>uuid()\<close> too).

  \<^bold>\<open>Fuel.\<close> \<open>run\<close> spends one unit per effect. \<open>Run_Termination\<close> proves that fuel is
  no restriction: every dispatch completes with enough fuel, and more fuel gives the same
  result (C31). The proof ranks actions by how deep their handlers' dispatches go (at
  most two levels: \<open>AUTOSAVE\<close> dispatches \<open>REQUEST_POST_UPDATE\<close>, \<open>CONVERT_BLOCK_TO_REUSABLE\<close>
  dispatches \<open>SAVE_REUSABLE_BLOCK\<close>) and shows that the multiset of the pending effects'
  ranks decreases at each step. The fuel of the instances in C9 (6 and 3 for the two
  conversions) is the exact number of effects processed plus one.

  \<^bold>\<open>Not modelled.\<close> The markup of the toolbars and inspector of the quote's edit view
  and the generic components the views render (\<open>TermTreeSelect\<close>, \<open>PanelBody\<close>,
  \<open>PageAttributesCheck\<close>) beyond the props they are given; the REST client, the markup
  parser and serializer (parameters), and the reducer cases no handler reads (the
  optimistic wrapper is proved for every inner reducer). The lines of the source files
  not mapped are imports and the closing lines of object literals. \<open>reduce\<close> records a
  \<open>META_BOX_LOADED\<close> report in the meta box state (\<open>mark_meta_box_loaded\<close>, from the
  spec); the middleware runs it before the handler, as for every action.

  A step of \<open>editor_reach\<close> whose dispatch throws is not followed: the JavaScript store
  keeps what was reduced before the exception, which \<open>exec\<close> does not return.
\<close>

section \<open>Properties across components\<close>

text \<open>
  C9. Converting a static block to a reusable one and back, through the router and the
  run loop, leaves a block of the same type and attributes in the same place, when the
  block's attributes are already in the form \<open>createBlock\<close> gives them (declared by the
  schema, defaults filled), the placeholder type declares \<open>ref\<close>, and the placeholder's
  fresh uid is new to the document.
\<close>

theorem reusable_round_trip:
  assumes doc: "doc_blocks (store s) = pre @ b # post" and dist: "uids_distinct (pre @ b # post)"
    and bt: "env_registry env (block_name b) = Some bt"
    and wf: "normalize_attrs (bt_attributes bt) (attributes b) = attributes b"
    and rbt: "env_registry env ''core/reusable-block'' = Some rbt"
    and ref: "''ref'' \<in> fst ` set (bt_attributes rbt)"
    and fresh: "env_uuid env (Suc (uuid_next s)) \<notin> uid ` set (pre @ post)"
  shows "\<exists>s1 p s2 b'. dispatch 6 env s (ConvertBlockToReusable (uid b)) = Some (Inr s1)
          \<and> doc_blocks (store s1) = pre @ p # post
          \<and> dispatch 3 env s1 (ConvertBlockToStatic (uid p)) = Some (Inr s2)
          \<and> doc_blocks (store s2) = pre @ b' # post
          \<and> block_name b' = block_name b \<and> attributes b' = attributes b"
proof -
  let ?rid = "env_uuid env (uuid_next s)"
  let ?p = "\<lparr>uid = env_uuid env (Suc (uuid_next s)), block_name = ''core/reusable-block'',
             attributes = normalize_attrs (bt_attributes rbt) [''ref'' \<mapsto> JStr ?rid]\<rparr>"
  obtain s1 where r1: "dispatch 6 env s (ConvertBlockToReusable (uid b)) = Some (Inr s1)"
    and doc1: "doc_blocks (store s1) = pre @ ?p # post"
    and rb1: "reusable_blocks (store s1) ?rid = Some (create_reusable_block ?rid (block_name b) (attributes b))"
    using dispatch_convert_block_to_reusable [OF doc dist bt rbt] by blast
  have dist1: "uids_distinct (pre @ ?p # post)"
    using dist fresh by (auto simp: uids_distinct_def)
  have ref1: "attributes ?p ''ref'' = Some (JStr ?rid)"
    using ref by (simp add: normalize_attrs_declared)
  have bt1: "env_registry env (rb_type (create_reusable_block ?rid (block_name b) (attributes b))) = Some bt"
    using bt by (simp add: create_reusable_block_def)
  from dispatch_convert_block_to_static [OF doc1 dist1 ref1 rb1 bt1] wf
  obtain s2 where "dispatch 3 env s1 (ConvertBlockToStatic (uid ?p)) = Some (Inr s2)"
    and "doc_blocks (store s2) =
           pre @ \<lparr>uid = env_uuid env (uuid_next s1), block_name = block_name b, attributes = attributes b\<rparr> # post"
    by (auto simp: create_reusable_block_def)
  with r1 doc1 show ?thesis by fastforce
qed

section \<open>Witnesses\<close>

text \<open>Each property with a hypothesis, applied to the concrete data of \<open>Examples\<close>.\<close>

theorem reusable_round_trip_witness:
  "\<exists>s1 p s2 b'. dispatch 6 ex_env ex_sys (ConvertBlockToReusable ''A'') = Some (Inr s1)
     \<and> doc_blocks (store s1) = [] @ p # [ex_block_b]
     \<and> dispatch 3 ex_env s1 (ConvertBlockToStatic (uid p)) = Some (Inr s2)
     \<and> doc_blocks (store s2) = [] @ b' # [ex_block_b]
     \<and> block_name b' = ''core/paragraph'' \<and> attributes b' = [''a'' \<mapsto> JNum 0, ''b'' \<mapsto> JNum 2]"
  using reusable_round_trip [of ex_sys "[]" ex_block_a "[ex_block_b]" ex_env ex_paragraph_type
          ex_placeholder_type]
  by (simp add: ex_sys_def ex_state_def ex_block_a_def ex_block_b_def ex_env_def ex_registry_def
                ex_paragraph_type_def ex_placeholder_type_def uids_distinct_def normalize_attrs_def)

theorem merge_blocks_without_merge_only_focuses_witness:
  "merge_blocks ex_registry (\<lambda>_ _. Inr None) ex_separator ex_block_b = Inr [Dispatch (FocusBlock ''S'' None)] \<and>
   doc_after [FocusBlock ''S'' None] [ex_separator, ex_block_b] = [ex_separator, ex_block_b]"
  using merge_blocks_without_merge_only_focuses [of ex_registry ex_separator ex_separator_type "\<lambda>_ _. Inr None"
          ex_block_b "[Dispatch (FocusBlock ''S'' None)]" "[ex_separator, ex_block_b]"]
  by (simp add: ex_registry_def ex_separator_def ex_separator_type_def merge_blocks_def ex_block_b_def)

theorem merge_blocks_same_type_doc_witness:
  "\<exists>es. merge_blocks ex_registry (\<lambda>_ _. Inr None) ex_block_a ex_block_b = Inr es \<and>
     doc_after (dispatched es) [ex_block_a, ex_block_b] =
       [ex_block_a\<lparr>attributes := [''a'' \<mapsto> JNum 1, ''b'' \<mapsto> JNum 2]\<rparr>]"
  using merge_blocks_same_type_doc [of ex_registry ex_block_a ex_paragraph_type
          "\<lambda>x y. [''a'' \<mapsto> JNum 1]" ex_block_b "[]" "[]" "\<lambda>_ _. Inr None"]
  by (simp add: ex_registry_def ex_block_a_def ex_block_b_def ex_paragraph_type_def uids_distinct_def
                fun_upd_twist)

theorem autosave_clean_post_witness:
  "autosave (ex_state\<lparr>current_post := ex_post\<lparr>status := ''draft''\<rparr>\<rparr>) = []"
  using autosave_clean_post [of "ex_state\<lparr>current_post := ex_post\<lparr>status := ''draft''\<rparr>\<rparr>"]
  by (simp add: ex_state_def is_edited_post_new_def)

theorem autosave_new_post_witness:
  "autosave ex_state = [Dispatch (EditPost [''status'' \<mapsto> JStr ''draft'']), Dispatch RequestPostUpdate]"
  using autosave_new_post [of ex_state]
  by (simp add: ex_state_def ex_post_def is_edited_post_new_def)

theorem autosave_new_post_saves_draft_witness:
  "saveable (store ex_sys) \<and> is_edited_post_new (store ex_sys) \<and>
   (\<exists>s' toSend. exec ex_env ex_sys [Dispatch Autosave] = Inr s'
      \<and> performed s' = [Request (SavePostRequest ''post'' toSend ex_post [''status'' \<mapsto> JStr ''draft''])]
      \<and> toSend ''status'' = Some (JStr ''draft'') \<and> begun (action_log s') = 1)"
proof -
  have h: "saveable (store ex_sys)" "is_edited_post_new (store ex_sys)"
    by (simp_all add: ex_sys_def ex_state_def ex_post_def is_edited_post_new_def)
  from Editor_Runs.autosave_new_post_saves_draft [OF h] h show ?thesis
    by (simp add: ex_sys_def ex_state_def)
qed

theorem setup_editor_order_witness:
  "setup_editor ex_registry (\<lambda>_. []) (\<lambda>_. ''t0'') ex_post
       \<lparr>template = Some [(''core/paragraph'', [''a'' \<mapsto> JNum 3])]\<rparr> =
     Inr (map Dispatch [ResetBlocks [\<lparr>uid = ''t0'', block_name = ''core/paragraph'', attributes = [''a'' \<mapsto> JNum 3]\<rparr>],
                        ResetPost ex_post, SetupNewPost [''title'' \<mapsto> JStr ''Hello'']])
   \<and> (\<exists>pre. pre = [ResetBlocks [\<lparr>uid = ''t0'', block_name = ''core/paragraph'', attributes = [''a'' \<mapsto> JNum 3]\<rparr>]]
        \<and> map Dispatch [ResetBlocks [\<lparr>uid = ''t0'', block_name = ''core/paragraph'', attributes = [''a'' \<mapsto> JNum 3]\<rparr>],
                        ResetPost ex_post, SetupNewPost [''title'' \<mapsto> JStr ''Hello'']] =
          map Dispatch (pre @ [ResetPost ex_post, SetupNewPost [''title'' \<mapsto> JStr ''Hello'']]))"
proof -
  have e: "setup_editor ex_registry (\<lambda>_. []) (\<lambda>_. ''t0'') ex_post
       \<lparr>template = Some [(''core/paragraph'', [''a'' \<mapsto> JNum 3])]\<rparr> =
     Inr (map Dispatch [ResetBlocks [\<lparr>uid = ''t0'', block_name = ''core/paragraph'', attributes = [''a'' \<mapsto> JNum 3]\<rparr>],
                        ResetPost ex_post, SetupNewPost [''title'' \<mapsto> JStr ''Hello'']])"
    by (simp add: setup_editor_def ex_registry_def ex_paragraph_type_def ex_post_def create_block_def
                  normalize_attrs_def)
  from Editor_Setup.setup_editor_order [OF e] e show ?thesis
    by (simp add: ex_post_def create_block_def ex_registry_def ex_paragraph_type_def normalize_attrs_def)
qed

theorem template_blocks_well_typed_iff_witness:
  "template_blocks ex_registry (\<lambda>_. ''t0'') 0
      [(''core/paragraph'', [''x'' \<mapsto> JNum 3]), (''core/paragraph'', [''a'' \<mapsto> JNum 3])] =
     Inr [\<lparr>uid = ''t0'', block_name = ''core/paragraph'', attributes = [''x'' \<mapsto> JNum 3]\<rparr>,
          \<lparr>uid = ''t0'', block_name = ''core/paragraph'', attributes = [''a'' \<mapsto> JNum 3]\<rparr>]
   \<and> \<not> block_well_typed ex_registry \<lparr>uid = ''t0'', block_name = ''core/paragraph'', attributes = [''x'' \<mapsto> JNum 3]\<rparr>
   \<and> block_well_typed ex_registry \<lparr>uid = ''t0'', block_name = ''core/paragraph'', attributes = [''a'' \<mapsto> JNum 3]\<rparr>"
proof -
  have e: "template_blocks ex_registry (\<lambda>_. ''t0'') 0
      [(''core/paragraph'', [''x'' \<mapsto> JNum 3]), (''core/paragraph'', [''a'' \<mapsto> JNum 3])] =
     Inr [\<lparr>uid = ''t0'', block_name = ''core/paragraph'', attributes = [''x'' \<mapsto> JNum 3]\<rparr>,
          \<lparr>uid = ''t0'', block_name = ''core/paragraph'', attributes = [''a'' \<mapsto> JNum 3]\<rparr>]"
    by (simp add: ex_registry_def ex_paragraph_type_def create_block_def normalize_attrs_def)
  from Editor_Setup.template_blocks_well_typed_iff [OF e] e show ?thesis
    by (simp add: ex_registry_def ex_paragraph_type_def)
qed

theorem meta_box_reports_release_nothing_witness:
  "\<exists>s'. exec ex_env ex_sys (map (\<lambda>l. Dispatch (MetaBoxLoaded l)) [''A'', ''B'']) = Inr s'
     \<and> performed s' = [] \<and> unloaded_meta_boxes (meta_boxes (store s')) = []"
proof -
  obtain s' where e: "exec ex_env ex_sys (map (\<lambda>l. Dispatch (MetaBoxLoaded l)) [''A'', ''B'']) = Inr s'"
    and p: "performed s' = performed ex_sys"
    and m: "meta_boxes (store s') = fold mark_meta_box_loaded [''A'', ''B''] (meta_boxes (store ex_sys))"
    using Editor_Runs.meta_box_reports_release_nothing [of ex_env ex_sys "[''A'', ''B'']"] by blast
  have "unloaded_meta_boxes (meta_boxes (store s')) = []"
    by (simp add: m ex_sys_def ex_state_def ex_pending_box_def unloaded_meta_boxes_def mark_meta_box_loaded_def)
  with e p show ?thesis by (intro exI [of _ s']) (simp add: ex_sys_def)
qed

theorem trash_post_failure_message_witness:
  "trash_post_failure unknown_error =
     [Dispatch (CreateErrorNotice (NoticeText ''Trashing failed'') TRASH_POST_NOTICE_ID)] \<and>
   trash_post_failure \<lparr>code = ''rest_cannot_delete'', message = Some ''Not allowed.''\<rparr> =
     [Dispatch (CreateErrorNotice (NoticeText ''Not allowed.'') TRASH_POST_NOTICE_ID)]"
  using trash_post_failure_message [of unknown_error]
        trash_post_failure_message [of "\<lparr>code = ''rest_cannot_delete'', message = Some ''Not allowed.''\<rparr>"]
  by (simp add: unknown_error_def)

theorem merge_blocks_uids_distinct_witness:
  "merge_blocks ex_registry (\<lambda>_ _. Inr None) ex_block_a ex_block_b =
     Inr [Dispatch (FocusBlock ''A'' (Some (-1))),
          Dispatch (ReplaceBlocks [''A'', ''B''] [ex_block_a\<lparr>attributes := [''a'' \<mapsto> JNum 1, ''b'' \<mapsto> JNum 2]\<rparr>])]
   \<and> uids_distinct (doc_after (dispatched [Dispatch (FocusBlock ''A'' (Some (-1))),
          Dispatch (ReplaceBlocks [''A'', ''B''] [ex_block_a\<lparr>attributes := [''a'' \<mapsto> JNum 1, ''b'' \<mapsto> JNum 2]\<rparr>])])
        [ex_block_a, ex_block_b])"
proof -
  have e: "merge_blocks ex_registry (\<lambda>_ _. Inr None) ex_block_a ex_block_b =
     Inr [Dispatch (FocusBlock ''A'' (Some (-1))),
          Dispatch (ReplaceBlocks [''A'', ''B''] [ex_block_a\<lparr>attributes := [''a'' \<mapsto> JNum 1, ''b'' \<mapsto> JNum 2]\<rparr>])]"
    by (simp add: merge_blocks_def ex_registry_def ex_paragraph_type_def ex_block_a_def ex_block_b_def fun_upd_twist)
  have "uids_distinct (doc_after (dispatched [Dispatch (FocusBlock ''A'' (Some (-1))),
          Dispatch (ReplaceBlocks [''A'', ''B''] [ex_block_a\<lparr>attributes := [''a'' \<mapsto> JNum 1, ''b'' \<mapsto> JNum 2]\<rparr>])])
        [ex_block_a, ex_block_b])"
    by (rule Block_Merge.merge_blocks_uids_distinct [OF e])
       (simp_all add: ex_block_a_def ex_block_b_def uids_distinct_def)
  with e show ?thesis ..
qed

theorem fetch_reusable_blocks_normalized_witness:
  "fetch_reusable_blocks_done (\<lambda>_. [ex_block_a]) (Inr ex_fetched) =
     Inr [Dispatch (FetchReusableBlocksSuccess
            [\<lparr>rb_id = ''r1'', rb_name = ''Greeting'', rb_type = ''core/paragraph'',
              rb_attributes = [''a'' \<mapsto> JNum 0, ''b'' \<mapsto> JNum 2]\<rparr>,
             \<lparr>rb_id = ''r2'', rb_name = ''Other'', rb_type = ''core/paragraph'',
              rb_attributes = [''a'' \<mapsto> JNum 0, ''b'' \<mapsto> JNum 2]\<rparr>])]
   \<and> (\<exists>rbs. dispatched [Dispatch (FetchReusableBlocksSuccess
            [\<lparr>rb_id = ''r1'', rb_name = ''Greeting'', rb_type = ''core/paragraph'',
              rb_attributes = [''a'' \<mapsto> JNum 0, ''b'' \<mapsto> JNum 2]\<rparr>,
             \<lparr>rb_id = ''r2'', rb_name = ''Other'', rb_type = ''core/paragraph'',
              rb_attributes = [''a'' \<mapsto> JNum 0, ''b'' \<mapsto> JNum 2]\<rparr>])] = [FetchReusableBlocksSuccess rbs]
        \<and> map rb_id rbs = [''r1'', ''r2''] \<and> map rb_name rbs = [''Greeting'', ''Other''])"
proof -
  have e: "fetch_reusable_blocks_done (\<lambda>_. [ex_block_a]) (Inr ex_fetched) =
     Inr [Dispatch (FetchReusableBlocksSuccess
            [\<lparr>rb_id = ''r1'', rb_name = ''Greeting'', rb_type = ''core/paragraph'',
              rb_attributes = [''a'' \<mapsto> JNum 0, ''b'' \<mapsto> JNum 2]\<rparr>,
             \<lparr>rb_id = ''r2'', rb_name = ''Other'', rb_type = ''core/paragraph'',
              rb_attributes = [''a'' \<mapsto> JNum 0, ''b'' \<mapsto> JNum 2]\<rparr>])]"
    by (simp add: fetch_reusable_blocks_done_def normalize_reusable_block_def ex_block_a_def ex_fetched_def)
  from Reusable_Blocks.fetch_reusable_blocks_normalized [OF e] e show ?thesis
    by (auto simp: ex_fetched_def list_all2_Cons2)
qed

theorem fetch_reusable_blocks_empty_item_witness:
  "\<exists>e. fetch_reusable_blocks_done (\<lambda>_. [])
         (Inr [\<lparr>rr_id = ''r1'', rr_name = ''Empty'', rr_content = []\<rparr>]) = Inl e"
  using fetch_reusable_blocks_empty_item [of "\<lparr>rr_id = ''r1'', rr_name = ''Empty'', rr_content = []\<rparr>"
          "Inr [\<lparr>rr_id = ''r1'', rr_name = ''Empty'', rr_content = []\<rparr>]" "\<lambda>_. []"]
  by simp

theorem convert_block_to_reusable_actions_witness:
  "convert_block_to_reusable ex_registry ''uuid-0'' ''uuid-1'' ex_state ''A'' =
     Inr [Dispatch (UpdateReusableBlock ''uuid-0''
                   (create_reusable_block ''uuid-0'' ''core/paragraph'' [''a'' \<mapsto> JNum 0, ''b'' \<mapsto> JNum 2])),
          Dispatch (SaveReusableBlock ''uuid-0''),
          Dispatch (ReplaceBlocks [''A'']
                   [\<lparr>uid = ''uuid-1'', block_name = ''core/reusable-block'',
                     attributes = [''ref'' \<mapsto> JStr ''uuid-0'']\<rparr>])]
   \<and> (\<exists>rbt. ex_registry ''core/reusable-block'' = Some rbt \<and>
        normalize_attrs (bt_attributes rbt) [''ref'' \<mapsto> JStr ''uuid-0''] = [''ref'' \<mapsto> JStr ''uuid-0''])"
proof -
  have e: "convert_block_to_reusable ex_registry ''uuid-0'' ''uuid-1'' ex_state ''A'' =
     Inr [Dispatch (UpdateReusableBlock ''uuid-0''
                   (create_reusable_block ''uuid-0'' ''core/paragraph'' [''a'' \<mapsto> JNum 0, ''b'' \<mapsto> JNum 2])),
          Dispatch (SaveReusableBlock ''uuid-0''),
          Dispatch (ReplaceBlocks [''A'']
                   [\<lparr>uid = ''uuid-1'', block_name = ''core/reusable-block'',
                     attributes = [''ref'' \<mapsto> JStr ''uuid-0'']\<rparr>])]"
    by (simp add: convert_block_to_reusable_def ex_registry_def ex_state_def ex_block_a_def
                  get_block_def create_block_def create_reusable_block_def ex_placeholder_type_def
                  normalize_attrs_def)
  from Reusable_Blocks.convert_block_to_reusable_actions [OF e] e show ?thesis
    by auto
qed

theorem quote_paragraph_round_trip_witness:
  "\<exists>q text q'. quote_from_content ex_registry (env_uuid ex_env) [''content'' \<mapsto> JStr ''Hi''] = Inr (Inl q)
     \<and> quote_to ''core/paragraph'' ex_registry (env_uuid ex_env) (attributes q) = Inr (Inr [text, q'])
     \<and> block_name text = ''core/paragraph'' \<and> attributes text ''content'' = Some (JStr ''Hi'')
     \<and> block_name q' = ''core/quote'' \<and> attributes q' = [''value'' \<mapsto> JArr [], ''style'' \<mapsto> JNum 1]"
  using quote_paragraph_round_trip [of ex_registry ex_paragraph_type "[''content'' \<mapsto> JStr ''Hi'']"
          "JStr ''Hi''" "env_uuid ex_env" "env_uuid ex_env"]
  by (simp add: ex_registry_def ex_paragraph_type_def)

theorem quote_to_single_block_witness:
  "is_array (Some (JArr [])) \<and>
   quote_to ''core/paragraph'' ex_registry (env_uuid ex_env) [''value'' \<mapsto> JArr [], ''citation'' \<mapsto> JArr [JStr ''Ann'']] =
     Inr (Inl \<lparr>uid = ''uuid-0'', block_name = ''core/paragraph'', attributes = [''content'' \<mapsto> JArr [JStr ''Ann'']]\<rparr>)
   \<and> (\<exists>tt. ex_registry ''core/paragraph'' = Some tt \<and>
        normalize_attrs (bt_attributes tt) [''content'' \<mapsto> JArr [JStr ''Ann'']] = [''content'' \<mapsto> JArr [JStr ''Ann'']])"
proof -
  have a: "is_array ([''value'' \<mapsto> JArr [], ''citation'' \<mapsto> JArr [JStr ''Ann'']] ''value'')"
    by (simp add: is_array_def)
  have e: "quote_to ''core/paragraph'' ex_registry (env_uuid ex_env) [''value'' \<mapsto> JArr [], ''citation'' \<mapsto> JArr [JStr ''Ann'']] =
     Inr (Inl \<lparr>uid = ''uuid-0'', block_name = ''core/paragraph'', attributes = [''content'' \<mapsto> JArr [JStr ''Ann'']]\<rparr>)"
    by (simp add: quote_to_def js_first_def is_array_def create_block_def ex_registry_def ex_paragraph_type_def
                  ex_env_def normalize_attrs_def)
  from Quote_Block.quote_to_single_block [OF a e] a e show ?thesis
    by (auto simp: ex_env_def)
qed

lemma quote_to_empty_value_example:
  "quote_to ''core/paragraph'' ex_registry (env_uuid ex_env) [''value'' \<mapsto> JArr []] =
     Inr (Inl \<lparr>uid = env_uuid ex_env 0, block_name = ''core/paragraph'',
               attributes = normalize_attrs (bt_attributes ex_paragraph_type) Map.empty\<rparr>)"
  using quote_to_empty_value [of "[''value'' \<mapsto> JArr []]" ex_registry "''core/paragraph''" ex_paragraph_type
          "env_uuid ex_env"]
  by (simp add: ex_registry_def)

theorem quote_to_missing_children_witness:
  "quote_to ''core/paragraph'' ex_registry (env_uuid ex_env) [''value'' \<mapsto> JArr [JObj [(''text'', JStr ''x'')]]] =
     Inl (TypeError ''Cannot read property props of undefined'')"
  using quote_to_missing_children [of "[''value'' \<mapsto> JArr [JObj [(''text'', JStr ''x'')]]]"
          "[(''text'', JStr ''x'')]" "[]" "''core/paragraph''" ex_registry "env_uuid ex_env"]
  by simp

theorem quote_save_markup_witness:
  "quote_save (attributes ex_quote_block ++ [''citation'' \<mapsto> JArr [JStr ''Ann'']]) =
    Inr (RElem ''blockquote''
          [(''className'', JStr ''blocks-quote-style-1''), (''style'', JObj [(''textAlign'', JNull)])]
          [RElem ''p'' [(''key'', JNum 0)] [RVal (Some (JStr ''Hi''))],
           RElem ''footer'' [] [RVal (Some (JArr [JStr ''Ann'']))]])"
  using quote_save_markup [of "attributes ex_quote_block ++ [''citation'' \<mapsto> JArr [JStr ''Ann'']]"
          "JStr ''1''" "[JStr ''Hi'']" "JStr ''Ann''" "[]"]
  by (simp add: ex_quote_block_def js_string_def int_to_string_def)

theorem quote_string_child_save_error_witness:
  "(\<exists>bs. quote_to ''core/paragraph'' ex_registry (env_uuid ex_env)
          [''value'' \<mapsto> JArr [JObj [(''children'', JStr ''Hi'')]]] = Inr (Inr bs)) \<and>
   quote_save [''value'' \<mapsto> JArr [JObj [(''children'', JStr ''Hi'')]]] =
     Inl (TypeError ''Cannot read property children of undefined'')"
  using quote_string_child_save_error [of ex_registry ex_paragraph_type
          "[''value'' \<mapsto> JArr [JObj [(''children'', JStr ''Hi'')]]]" "''Hi''" "env_uuid ex_env"]
  by (simp add: ex_registry_def)

theorem merge_quote_into_paragraph_witness:
  "\<exists>es q. merge_blocks ex_registry (switch_to_block_type quote_transforms ex_registry (env_uuid ex_env))
            ex_block_a ex_quote_block = Inr es
     \<and> doc_after (dispatched es) [ex_block_a, ex_quote_block] =
         [ex_block_a\<lparr>attributes := attributes ex_block_a ++ [''a'' \<mapsto> JNum 1]\<rparr>, q]
     \<and> block_name q = ''core/quote'' \<and> attributes q ''value'' = Some (JArr [])"
  using merge_quote_into_paragraph [of ex_registry ex_paragraph_type "\<lambda>x y. [''a'' \<mapsto> JNum 1]"
          ex_block_a ex_quote_block "JStr ''1''" "JStr ''Hi''" "[]" "[]" "env_uuid ex_env"]
  by (simp add: ex_registry_def ex_paragraph_type_def ex_block_a_def ex_quote_block_def uids_distinct_def)

theorem category_select_renders_witness:
  "category_select (\<lambda>d. d) ''Category'' ''All'' (Some (JObj [(''data'', JArr [JNum 1])])) None () =
     Some (TermTreeSelect ''Category'' ''All'' () (JArr [JNum 1]) None)"
  using category_select_renders [of "\<lambda>d. d" "''Category''" "''All''" "Some (JObj [(''data'', JArr [JNum 1])])"
          None "()" "TermTreeSelect ''Category'' ''All'' () (JArr [JNum 1]) None"]
  by (simp add: js_prop_def)

theorem page_attributes_toggle_witness:
  "isOpened (page_attributes_state_props (reduce_panels Map.empty (ToggleSidebarPanel PANEL_NAME))) \<and>
   is_editor_sidebar_panel_opened (reduce_panels Map.empty (ToggleSidebarPanel PANEL_NAME)) ''document'' = False \<and>
   connected_page_attributes
     (reduce_panels (reduce_panels Map.empty (ToggleSidebarPanel PANEL_NAME)) (ToggleSidebarPanel PANEL_NAME)) =
   connected_page_attributes Map.empty"
  using page_attributes_toggle [of Map.empty]
  by (simp add: Let_def page_attributes_state_props_def is_editor_sidebar_panel_opened_def PANEL_NAME_def)

theorem dispatch_completes_witness:
  "\<exists>k r. \<forall>k'\<ge>k. dispatch k' ex_env ex_sys Autosave = Some r"
  using dispatch_completes [of ex_env ex_sys Autosave] by simp

theorem save_transaction_outcome_witness:
  "optimist_run reduce action_optimist ([], ex_state)
     (dispatched (request_post_update ex_state) @ [EditPost [''title'' \<mapsto> JStr ''Hi'']] @
      dispatched (request_post_update_fail (current_post ex_state) (post_edits ex_state) None)) =
   ([], fold (\<lambda>a s. reduce s a)
          ([RemoveNotice SAVE_POST_NOTICE_ID] @ [EditPost [''title'' \<mapsto> JStr ''Hi'']] @
           dispatched (request_post_update_fail (current_post ex_state) (post_edits ex_state) None)) ex_state)"
  using save_transaction_outcome [of "[EditPost [''title'' \<mapsto> JStr ''Hi'']]" reduce ex_state ex_state
          "Failed None"]
  by simp

theorem save_transaction_invariant_witness:
  "length [(current_post ex_state, post_edits ex_state)] \<le> 1 \<and>
   open_transaction reduce (optimist_run reduce action_optimist ([], ex_state) (dispatched (request_post_update ex_state)))"
  using save_transaction_invariant [OF save_reach.start [OF save_reach.init, of reduce ex_state ex_state]]
  by simp

theorem save_outcome_rolls_back_witness:
  "optimist_run reduce action_optimist
     (optimist_run reduce action_optimist ([], ex_state) (dispatched (request_post_update ex_state)))
     (dispatched (request_post_update_fail ex_post Map.empty None)) =
   ([], reduce (confirmed_state reduce
                  (optimist_run reduce action_optimist ([], ex_state) (dispatched (request_post_update ex_state))))
          (RequestPostUpdateFailure unknown_error ex_post Map.empty (Revert POST_UPDATE_TRANSACTION_ID)))"
  using save_outcome_rolls_back [OF save_reach.start [OF save_reach.init, of reduce ex_state ex_state],
          of None ex_post]
  by (simp add: ex_state_def)

lemma ex_save_step:
  "exec ex_env ex_sys [Dispatch RequestPostUpdate] = Inr ex_saving_sys"
  by (simp add: ex_sys_def ex_saving_sys_def ex_save_request_def request_post_update_def)

lemma ex_saving_reach: "editor_reach ex_env (doc_ok ex_env) ex_sys ex_saving_sys [ex_save_request]"
  using editor_reach.user [OF editor_reach.init, where a = RequestPostUpdate, OF _ _ ex_save_step]
  by (simp add: ex_sys_def ex_saving_sys_def)

text \<open>
  Nothing keeps a second save from starting while the first is in flight: a second
  \<open>REQUEST_POST_UPDATE\<close> opens a second transaction on the same id \<open>post-update\<close>, the
  situation of C33 and C34.
\<close>

lemma overlapping_saves_reachable:
  "\<exists>s. editor_reach ex_env (doc_ok ex_env) ex_sys s [ex_save_request, ex_save_request]
     \<and> begun (action_log s) = 2 \<and> settled (action_log s) = 0"
proof -
  have "exec ex_env ex_saving_sys [Dispatch RequestPostUpdate] =
     Inr (ex_saving_sys\<lparr>performed := [Request ex_save_request, Request ex_save_request],
       action_log := action_log ex_saving_sys @ [RequestPostUpdate,
         UpdatePost (post_to_send ex_state) (Begin POST_UPDATE_TRANSACTION_ID),
         RemoveNotice SAVE_POST_NOTICE_ID]\<rparr>)"
    by (simp add: ex_sys_def ex_saving_sys_def ex_save_request_def request_post_update_def)
  from editor_reach.user [OF ex_saving_reach _ _ this] show ?thesis
    by (auto simp: ex_saving_sys_def)
qed

theorem save_transactions_in_flight_witness:
  "begun (action_log ex_saving_sys) = settled (action_log ex_saving_sys) + 1"
  using Async_Editor.save_transactions_in_flight [OF ex_saving_reach]
  by (simp add: ex_sys_def ex_save_request_def)

theorem request_retired_witness:
  "\<exists>effs s'. callback (env_parse ex_env) ex_save_request (PostSaved (Failed None)) = Some (Inr effs)
     \<and> exec ex_env ex_saving_sys effs = Inr s' \<and> editor_reach ex_env (doc_ok ex_env) ex_sys s' []"
  using Async_Editor.request_retired [of ex_env "doc_ok ex_env" ex_sys ex_saving_sys "[]" ex_save_request "[]" None]
        ex_saving_reach
  by (simp add: ex_save_request_def)

lemma ex_uuid_inj: "inj (env_uuid ex_env)"
proof -
  have "inj (\<lambda>n. ''uuid-'' @ nat_to_string n)"
  proof (rule injI)
    fix x y assume "''uuid-'' @ nat_to_string x = ''uuid-'' @ nat_to_string y"
    then have "nat_to_string x = nat_to_string y" by (simp only: same_append_eq)
    then show "x = y" by (rule injD [OF inj_nat_to_string])
  qed
  then show ?thesis by (simp add: ex_env_def)
qed

lemma ex_doc_inv: "doc_inv ex_env ex_sys"
  by (simp add: doc_inv_def fresh_blocks_def ex_sys_def ex_state_def ex_env_def ex_block_a_def ex_block_b_def)

lemma ex_parse_fresh: "\<forall>raw. fresh_blocks ex_env 0 (env_parse ex_env raw)"
  by (simp add: fresh_blocks_def ex_env_def)

text \<open>Converting block \<open>A\<close> of the example document to a reusable block.\<close>

lemma ex_convert_step:
  "\<exists>s'. exec ex_env ex_sys [Dispatch (ConvertBlockToReusable ''A'')] = Inr s'
     \<and> map uid (doc_blocks (store s')) = [''uuid-1'', ''B'']
     \<and> map block_name (doc_blocks (store s')) = [''core/reusable-block'', ''core/paragraph'']
     \<and> requests_of (performed s') = [SaveReusableBlockRequest ''uuid-0'' ''Untitled block'' []]"
  by (simp add: ex_sys_def ex_state_def ex_env_def ex_registry_def ex_block_a_def ex_block_b_def
                effect_simps get_block_def get_reusable_block_def create_block_def
                create_reusable_block_def)

theorem document_uids_distinct_witness:
  "\<exists>s p. editor_reach ex_env (doc_ok ex_env) ex_sys s p
     \<and> map uid (doc_blocks (store s)) = [''uuid-1'', ''B''] \<and> uids_distinct (doc_blocks (store s))"
proof -
  obtain s' where e: "exec ex_env ex_sys [Dispatch (ConvertBlockToReusable ''A'')] = Inr s'"
    and d: "map uid (doc_blocks (store s')) = [''uuid-1'', ''B'']"
    and "requests_of (performed s') = [SaveReusableBlockRequest ''uuid-0'' ''Untitled block'' []]"
    using ex_convert_step by (elim exE conjE) (rule that)
  have r: "editor_reach ex_env (doc_ok ex_env) ex_sys s'
      ([] @ requests_of (drop (length (performed ex_sys)) (performed s')))"
    by (rule editor_reach.user [OF editor_reach.init _ _ e]) simp_all
  from Document_Invariant.document_uids_distinct [OF r ex_doc_inv ex_uuid_inj ex_parse_fresh] r d
  show ?thesis by (intro exI [of _ s'] exI [of _ "[] @ requests_of (drop (length (performed ex_sys)) (performed s'))"]
                   conjI)
qed

theorem convert_to_reusable_rendered_witness:
  "\<exists>s'. exec ex_env ex_sys [Dispatch (ConvertBlockToReusable ''A'')] = Inr s'
     \<and> map block_name (doc_blocks (store s')) = [''core/reusable-block'', ''core/paragraph'']
     \<and> rendered (store s') = rendered (store ex_sys)
     \<and> rendered (store ex_sys) = [(''core/paragraph'', [''a'' \<mapsto> JNum 0, ''b'' \<mapsto> JNum 2]),
                                  (''core/paragraph'', [''a'' \<mapsto> JNum 5])]"
proof -
  obtain s' where e: "exec ex_env ex_sys [Dispatch (ConvertBlockToReusable ''A'')] = Inr s'"
    and n: "map block_name (doc_blocks (store s')) = [''core/reusable-block'', ''core/paragraph'']"
    using ex_convert_step by (elim exE conjE) (rule that)
  have r: "rendered (store s') = rendered (store ex_sys)"
    by (rule Editor_Runs.convert_to_reusable_rendered [OF e])
       (simp_all add: ex_sys_def ex_state_def ex_block_a_def ex_block_b_def ex_env_def ex_registry_def
                      ex_placeholder_type_def uids_distinct_def)
  have "rendered (store ex_sys) = [(''core/paragraph'', [''a'' \<mapsto> JNum 0, ''b'' \<mapsto> JNum 2]),
                                  (''core/paragraph'', [''a'' \<mapsto> JNum 5])]"
    by (simp add: rendered_def rendered_block_def ex_sys_def ex_state_def ex_block_a_def ex_block_b_def)
  with e n r show ?thesis by (intro exI [of _ s'] conjI)
qed

end
